theory Spec2Isabelle
  imports Main "HOL-Library.Word" "HOL-Library.Sublist"
begin

section \<open>Data model of the operation bookkeeping (package ops)\<close>

text \<open>
  The Go structs the accessors and the state controller build or read. A Go string is
  the list of its bytes. Only \<open>ProgressEntry\<close>, \<open>OperationsFilter\<close>,
  \<open>SetOperationStateRequest\<close> and \<open>ActivateSiteRequest\<close> are spelled out as struct
  literals in the source; the fields of the others are the ones the source reads.
\<close>

record SiteKey =
  sk_AccountID :: string
  sk_SiteDomain :: string

record SiteOperationKey =
  AccountID :: string
  SiteDomain :: string
  OperationID :: string

text \<open>A point in time: nanoseconds since the epoch and the location it is shown in.\<close>

datatype Location = UTC | Local | Zone string

record Time =
  nanos :: int
  loc :: Location

definition Time_UTC :: "Time \<Rightarrow> Time" where
  "Time_UTC t = t\<lparr>loc := UTC\<rparr>"

record SiteOperation =
  op_ID :: string
  op_AccountID :: string
  op_SiteDomain :: string
  op_Type :: string
  op_State :: string
  op_Created :: Time

record Site =
  site_AccountID :: string
  site_Domain :: string

record ProgressEntry =
  pe_SiteDomain :: string
  pe_OperationID :: string
  Step :: int
  Completion :: int
  pe_State :: string
  Message :: string
  Created :: Time

record OperationsFilter =
  Types :: "string list"
  Last :: bool
  Active :: bool
  Complete :: bool
  Finished :: bool

record SetOperationStateRequest =
  State :: string
  Progress :: "ProgressEntry option"

record ActivateSiteRequest =
  asr_AccountID :: string
  asr_SiteDomain :: string

text \<open>
  Modelled from the spec: the methods \<open>SiteOperation.Key()\<close> and \<open>Site.Key()\<close> are
  declared outside the files at hand. The spec gives an operation the composite key
  (account identifier, cluster domain, operation identifier) and a cluster the key
  (account identifier, cluster domain).
\<close>

definition SiteOperation_Key :: "SiteOperation \<Rightarrow> SiteOperationKey" where
  "SiteOperation_Key op =
     \<lparr>AccountID = op_AccountID op, SiteDomain = op_SiteDomain op, OperationID = op_ID op\<rparr>"


text \<open>
  The named constants of the packages \<open>ops\<close>, \<open>constants\<close> and \<open>defaults\<close> that the
  source mentions. Their values are declared elsewhere, so every function takes them as
  a parameter and every theorem holds for all values.
\<close>

record Constants =
  OperationInstall :: string
  OperationUninstall :: string
  OperationUpdate :: string
  OperationShrink :: string
  OperationStateCompleted :: string
  OperationStateFailed :: string
  ProgressStateCompleted :: string
  ProgressStateFailed :: string
  FinalStep :: int
  Completed :: int
  SystemAccountID :: string

section \<open>Errors\<close>

text \<open>
  Go errors as values. \<open>trace.Wrap\<close>, \<open>trace.NotFound\<close>, \<open>trace.BadParameter\<close>,
  \<open>trace.AccessDenied\<close>, \<open>AddField\<close> and \<open>trail.FromGRPC\<close> belong to a library
  outside the repository: each is a constructor here, so that a wrapped error is told
  apart from the error it wraps and from its gRPC translation, and the kind of an error
  can be read. A format string is kept with its arguments, unformatted.
\<close>

datatype fmt_arg =
    ArgSiteKey SiteKey
  | ArgString string
  | ArgSites "Site list"

datatype sys_status =
    WaitStatus int \<comment> \<open>a \<open>syscall.WaitStatus\<close>, given by what \<open>ExitStatus()\<close> returns\<close>
  | OtherSys

datatype error =
    Err string \<comment> \<open>an error of a collaborator (backend, transport, operating system)\<close>
  | ExitError sys_status \<comment> \<open>\<open>*exec.ExitError\<close> with the value of \<open>Sys()\<close>\<close>
  | NotFound string "fmt_arg list"
  | BadParameter string "fmt_arg list"
  | AccessDenied string
  | Wrap error
  | WrapMsg error string
  | AddField error string string
  | FromGRPC error

text \<open>\<open>trace.Wrap\<close> on a possibly nil error: nil stays nil.\<close>

definition trace_Wrap :: "error option \<Rightarrow> error option" where
  "trace_Wrap err = (case err of None \<Rightarrow> None | Some e \<Rightarrow> Some (Wrap e))"

text \<open>The kind of an error, read through the wrappers, as \<open>trace.IsNotFound\<close> and its
  siblings do.\<close>

fun IsNotFound :: "error \<Rightarrow> bool" where
  "IsNotFound (NotFound _ _) = True"
| "IsNotFound (Wrap e) = IsNotFound e"
| "IsNotFound (WrapMsg e _) = IsNotFound e"
| "IsNotFound (AddField e _ _) = IsNotFound e"
| "IsNotFound _ = False"

fun IsBadParameter :: "error \<Rightarrow> bool" where
  "IsBadParameter (BadParameter _ _) = True"
| "IsBadParameter (Wrap e) = IsBadParameter e"
| "IsBadParameter (WrapMsg e _) = IsBadParameter e"
| "IsBadParameter (AddField e _ _) = IsBadParameter e"
| "IsBadParameter _ = False"

section \<open>The operator interface\<close>

text \<open>
  The backend behind the \<open>Operator\<close> interface is a collaborator: each method is a
  function of the collaborator's state \<open>'s\<close> that returns its result and the next
  state. A Go result \<open>(value, error)\<close> is a sum, the error on the left: the source
  never reads the value of a call that returned an error. A pointer result is an option.
\<close>

datatype Context = Background | TODO | Cancelled

record 's Operator =
  GetSiteOperations :: "SiteKey \<Rightarrow> OperationsFilter \<Rightarrow> 's \<Rightarrow> (error + SiteOperation list) \<times> 's"
  GetSiteOperation :: "SiteOperationKey \<Rightarrow> 's \<Rightarrow> (error + SiteOperation option) \<times> 's"
  GetSiteOperationProgress :: "SiteOperationKey \<Rightarrow> 's \<Rightarrow> (error + ProgressEntry option) \<times> 's"
  GetSites :: "string \<Rightarrow> 's \<Rightarrow> (error + Site list) \<times> 's"
  SetOperationState ::
    "Context \<Rightarrow> SiteOperationKey \<Rightarrow> SetOperationStateRequest \<Rightarrow> 's \<Rightarrow> error option \<times> 's"
  ActivateSite :: "ActivateSiteRequest \<Rightarrow> 's \<Rightarrow> error option \<times> 's"

text \<open>The filter literal with every field at Go's zero value.\<close>

definition no_filter :: OperationsFilter where
  "no_filter = \<lparr>Types = [], Last = False, Active = False, Complete = False, Finished = False\<rparr>"

section \<open>Operation store accessors\<close>

text \<open>
  Every accessor calls \<open>GetSiteOperations\<close> with its own filter, forwards a backend
  error wrapped, answers \<open>NotFound\<close> on an empty list and otherwise takes
  \<open>operations[0]\<close>; some then fetch the progress of that operation.
\<close>

definition GetInstallOperation ::
  "Constants \<Rightarrow> SiteKey \<Rightarrow> 's Operator \<Rightarrow> 's \<Rightarrow>
     (error + SiteOperation \<times> ProgressEntry option) \<times> 's" where
  "GetInstallOperation K siteKey operator s =
     (case GetSiteOperations operator siteKey (no_filter\<lparr>Types := [OperationInstall K]\<rparr>) s of
        (Inl err, s1) \<Rightarrow> (Inl (Wrap err), s1)
      | (Inr operations, s1) \<Rightarrow>
          if length operations = 0
          then (Inl (NotFound ''no install operation found for %v'' [ArgSiteKey siteKey]), s1)
          else
            (let op = operations ! 0 in
             case GetSiteOperationProgress operator (SiteOperation_Key op) s1 of
               (Inl err, s2) \<Rightarrow> (Inl (Wrap err), s2)
             | (Inr progress, s2) \<Rightarrow> (Inr (op, progress), s2)))"

definition GetLastUninstallOperation ::
  "Constants \<Rightarrow> SiteKey \<Rightarrow> 's Operator \<Rightarrow> 's \<Rightarrow>
     (error + SiteOperation \<times> ProgressEntry option) \<times> 's" where
  "GetLastUninstallOperation K siteKey operator s =
     (case GetSiteOperations operator siteKey
             (no_filter\<lparr>Types := [OperationUninstall K], Last := True\<rparr>) s of
        (Inl err, s1) \<Rightarrow> (Inl (Wrap err), s1)
      | (Inr operations, s1) \<Rightarrow>
          if length operations = 0
          then (Inl (NotFound ''no uninstall operation found for %v'' [ArgSiteKey siteKey]), s1)
          else
            (let op = operations ! 0 in
             case GetSiteOperationProgress operator (SiteOperation_Key op) s1 of
               (Inl err, s2) \<Rightarrow> (Inl (Wrap err), s2)
             | (Inr progress, s2) \<Rightarrow> (Inr (op, progress), s2)))"

definition GetLastCompletedUpdateOperation ::
  "Constants \<Rightarrow> SiteKey \<Rightarrow> 's Operator \<Rightarrow> 's \<Rightarrow> (error + SiteOperation) \<times> 's" where
  "GetLastCompletedUpdateOperation K siteKey operator s =
     (case GetSiteOperations operator siteKey
             (no_filter\<lparr>Types := [OperationUpdate K], Last := True, Complete := True\<rparr>) s of
        (Inl err, s1) \<Rightarrow> (Inl (Wrap err), s1)
      | (Inr operations, s1) \<Rightarrow>
          if length operations = 0
          then (Inl (NotFound ''no completed update operation found for %v'' [ArgSiteKey siteKey]), s1)
          else (Inr (operations ! 0), s1))"

definition GetCompletedInstallOperation ::
  "Constants \<Rightarrow> SiteKey \<Rightarrow> 's Operator \<Rightarrow> 's \<Rightarrow> (error + SiteOperation) \<times> 's" where
  "GetCompletedInstallOperation K siteKey operator s =
     (case GetSiteOperations operator siteKey
             (no_filter\<lparr>Types := [OperationInstall K], Last := True, Complete := True\<rparr>) s of
        (Inl err, s1) \<Rightarrow> (Inl (Wrap err), s1)
      | (Inr operations, s1) \<Rightarrow>
          if length operations = 0
          then (Inl (NotFound ''no completed install operation found for %v'' [ArgSiteKey siteKey]), s1)
          else (Inr (operations ! 0), s1))"

definition GetLastOperation ::
  "Constants \<Rightarrow> SiteKey \<Rightarrow> 's Operator \<Rightarrow> 's \<Rightarrow>
     (error + SiteOperation \<times> ProgressEntry option) \<times> 's" where
  "GetLastOperation K siteKey operator s =
     (case GetSiteOperations operator siteKey
             (no_filter\<lparr>Last := True\<rparr>) s of
        (Inl err, s1) \<Rightarrow> (Inl (Wrap err), s1)
      | (Inr operations, s1) \<Rightarrow>
          if length operations = 0
          then (Inl (NotFound ''no operation found for %v'' [ArgSiteKey siteKey]), s1)
          else
            (let op = operations ! 0 in
             case GetSiteOperationProgress operator (SiteOperation_Key op) s1 of
               (Inl err, s2) \<Rightarrow> (Inl (Wrap err), s2)
             | (Inr progress, s2) \<Rightarrow> (Inr (op, progress), s2)))"

definition GetLastFinishedOperation ::
  "Constants \<Rightarrow> SiteKey \<Rightarrow> 's Operator \<Rightarrow> 's \<Rightarrow>
     (error + SiteOperation \<times> ProgressEntry option) \<times> 's" where
  "GetLastFinishedOperation K siteKey operator s =
     (case GetSiteOperations operator siteKey
             (no_filter\<lparr>Last := True, Finished := True\<rparr>) s of
        (Inl err, s1) \<Rightarrow> (Inl (Wrap err), s1)
      | (Inr operations, s1) \<Rightarrow>
          if length operations = 0
          then (Inl (NotFound ''no completed operation found for %v'' [ArgSiteKey siteKey]), s1)
          else
            (let op = operations ! 0 in
             case GetSiteOperationProgress operator (SiteOperation_Key op) s1 of
               (Inl err, s2) \<Rightarrow> (Inl (Wrap err), s2)
             | (Inr progress, s2) \<Rightarrow> (Inr (op, progress), s2)))"

definition GetLastUpgradeOperation ::
  "Constants \<Rightarrow> SiteKey \<Rightarrow> 's Operator \<Rightarrow> 's \<Rightarrow> (error + SiteOperation) \<times> 's" where
  "GetLastUpgradeOperation K siteKey operator s =
     (case GetSiteOperations operator siteKey
             (no_filter\<lparr>Types := [OperationUpdate K], Last := True\<rparr>) s of
        (Inl err, s1) \<Rightarrow> (Inl (Wrap err), s1)
      | (Inr operations, s1) \<Rightarrow>
          if length operations = 0
          then (Inl (NotFound ''no upgrade operation found for %v'' [ArgSiteKey siteKey]), s1)
          else (Inr (operations ! 0), s1))"

definition GetLastShrinkOperation ::
  "Constants \<Rightarrow> SiteKey \<Rightarrow> 's Operator \<Rightarrow> 's \<Rightarrow> (error + SiteOperation) \<times> 's" where
  "GetLastShrinkOperation K siteKey operator s =
     (case GetSiteOperations operator siteKey
             (no_filter\<lparr>Types := [OperationShrink K], Last := True\<rparr>) s of
        (Inl err, s1) \<Rightarrow> (Inl (Wrap err), s1)
      | (Inr operations, s1) \<Rightarrow>
          if length operations = 0
          then (Inl (NotFound ''no shrink operation found for %v'' [ArgSiteKey siteKey]), s1)
          else (Inr (operations ! 0), s1))"

definition GetOperationWithProgress ::
  "SiteOperationKey \<Rightarrow> 's Operator \<Rightarrow> 's \<Rightarrow>
     (error + SiteOperation option \<times> ProgressEntry option) \<times> 's" where
  "GetOperationWithProgress opKey operator s =
     (case GetSiteOperation operator opKey s of
        (Inl err, s1) \<Rightarrow> (Inl (Wrap err), s1)
      | (Inr operation, s1) \<Rightarrow>
          (case GetSiteOperationProgress operator opKey s1 of
             (Inl err, s2) \<Rightarrow> (Inl (Wrap err), s2)
           | (Inr progress, s2) \<Rightarrow> (Inr (operation, progress), s2)))"

text \<open>The loop \<open>for _, op := range operations { active = append(active, op) }\<close>,
  started from the nil slice.\<close>

fun append_all :: "SiteOperation list \<Rightarrow> SiteOperation list \<Rightarrow> SiteOperation list" where
  "append_all active [] = active"
| "append_all active (op # operations) = append_all (active @ [op]) operations"

definition GetActiveOperations ::
  "SiteKey \<Rightarrow> 's Operator \<Rightarrow> 's \<Rightarrow> (error + SiteOperation list) \<times> 's" where
  "GetActiveOperations siteKey operator s =
     (case GetSiteOperations operator siteKey (no_filter\<lparr>Active := True\<rparr>) s of
        (Inl err, s1) \<Rightarrow> (Inl (Wrap err), s1)
      | (Inr operations, s1) \<Rightarrow>
          if length operations = 0
          then (Inl (NotFound ''no active operation found for %v'' [ArgSiteKey siteKey]), s1)
          else (Inr (append_all [] operations), s1))"

definition GetActiveOperationsByType ::
  "SiteKey \<Rightarrow> 's Operator \<Rightarrow> string \<Rightarrow> 's \<Rightarrow> (error + SiteOperation list) \<times> 's" where
  "GetActiveOperationsByType siteKey operator opType s =
     (case GetSiteOperations operator siteKey
             (no_filter\<lparr>Types := [opType], Active := True\<rparr>) s of
        (Inl err, s1) \<Rightarrow> (Inl (Wrap err), s1)
      | (Inr operations, s1) \<Rightarrow>
          if length operations = 0
          then (Inl (NotFound ''no active operation found for %v with type %v''
                       [ArgSiteKey siteKey, ArgString opType]), s1)
          else (Inr (append_all [] operations), s1))"


definition GetWizardCluster ::
  "Constants \<Rightarrow> 's Operator \<Rightarrow> 's \<Rightarrow> (error + Site) \<times> 's" where
  "GetWizardCluster K operator s =
     (case GetSites operator (SystemAccountID K) s of
        (Inl err, s1) \<Rightarrow> (Inl (Wrap err), s1)
      | (Inr clusters, s1) \<Rightarrow>
          if length clusters \<noteq> 1
          then (Inl (BadParameter ''expected 1 cluster, got: %v'' [ArgSites clusters]), s1)
          else (Inr (clusters ! 0), s1))"

section \<open>strings.TrimSpace\<close>

text \<open>
  \<open>strings.TrimSpace\<close> removes the leading and the trailing white space of a string,
  white space being the code points of \<open>unicode.IsSpace\<close>: U+0009 to U+000D, U+0020,
  U+0085, U+00A0, U+1680, U+2000 to U+200A, U+2028, U+2029, U+202F, U+205F and U+3000.
  A Go string is a byte sequence, so the white space runes are listed by their UTF-8
  encodings. A byte sequence that is no such encoding is not white space (an invalid
  byte decodes to U+FFFD).
\<close>

definition white_space :: "string list" where
  "white_space =
     [[CHR 0x09], [CHR 0x0A], [CHR 0x0B], [CHR 0x0C], [CHR 0x0D], [CHR 0x20],
      [CHR 0xC2, CHR 0x85], [CHR 0xC2, CHR 0xA0],
      [CHR 0xE1, CHR 0x9A, CHR 0x80],
      [CHR 0xE2, CHR 0x80, CHR 0x80], [CHR 0xE2, CHR 0x80, CHR 0x81],
      [CHR 0xE2, CHR 0x80, CHR 0x82], [CHR 0xE2, CHR 0x80, CHR 0x83],
      [CHR 0xE2, CHR 0x80, CHR 0x84], [CHR 0xE2, CHR 0x80, CHR 0x85],
      [CHR 0xE2, CHR 0x80, CHR 0x86], [CHR 0xE2, CHR 0x80, CHR 0x87],
      [CHR 0xE2, CHR 0x80, CHR 0x88], [CHR 0xE2, CHR 0x80, CHR 0x89],
      [CHR 0xE2, CHR 0x80, CHR 0x8A],
      [CHR 0xE2, CHR 0x80, CHR 0xA8], [CHR 0xE2, CHR 0x80, CHR 0xA9],
      [CHR 0xE2, CHR 0x80, CHR 0xAF],
      [CHR 0xE2, CHR 0x81, CHR 0x9F],
      [CHR 0xE3, CHR 0x80, CHR 0x80]]"

text \<open>The number of bytes of the white space rune \<open>s\<close> starts with, 0 when it starts
  with none.\<close>

fun space_width :: "string list \<Rightarrow> string \<Rightarrow> nat" where
  "space_width [] s = 0"
| "space_width (e # es) s = (if prefix e s then length e else space_width es s)"

lemma space_width_le: "space_width es s \<le> length s"
  by (induction es) (auto simp: prefix_length_le)

function trim_runes :: "string list \<Rightarrow> string \<Rightarrow> string" where
  "trim_runes es s =
     (let n = space_width es s in if n = 0 then s else trim_runes es (drop n s))"
  by pat_completeness auto
termination
proof (relation "measure (\<lambda>(es, s). length s)")
  show "wf (measure (\<lambda>(es, s). length s))" by simp
next
  fix es :: "string list" and s :: string and n
  assume "n = space_width es s" and "n \<noteq> 0"
  then have "0 < n" and "n \<le> length s" using space_width_le [of es s] by auto
  then show "((es, drop n s), (es, s)) \<in> measure (\<lambda>(es, s). length s)" by auto
qed

declare trim_runes.simps [simp del]

text \<open>Trimming on the right is trimming the reversed string of the reversed
  encodings.\<close>

definition TrimLeft :: "string \<Rightarrow> string" where
  "TrimLeft s = trim_runes white_space s"

definition TrimRight :: "string \<Rightarrow> string" where
  "TrimRight s = rev (trim_runes (map rev white_space) (rev s))"

definition TrimSpace :: "string \<Rightarrow> string" where
  "TrimSpace s = TrimRight (TrimLeft s)"

section \<open>Operation state controller\<close>

text \<open>
  \<open>OperationStateSetter\<close> is the interface with the single method
  \<open>SetOperationState\<close>. \<open>time.Now()\<close> reads the clock: the reading is the parameter
  \<open>now\<close>. \<open>fmt.Sprintf("Operation failure: %v", message)\<close> of a string appends it
  to the prefix.
\<close>

type_synonym 's OperationStateSetter =
  "Context \<Rightarrow> SiteOperationKey \<Rightarrow> SetOperationStateRequest \<Rightarrow> 's \<Rightarrow> error option \<times> 's"

definition CompleteOperation ::
  "Constants \<Rightarrow> Time \<Rightarrow> Context \<Rightarrow> SiteOperationKey \<Rightarrow> 's OperationStateSetter \<Rightarrow> 's \<Rightarrow>
     error option \<times> 's" where
  "CompleteOperation K now ctx key operator s =
     operator ctx key
       \<lparr>State = OperationStateCompleted K,
        Progress = Some
          \<lparr>pe_SiteDomain = SiteDomain key,
           pe_OperationID = OperationID key,
           Step = FinalStep K,
           Completion = Completed K,
           pe_State = ProgressStateCompleted K,
           Message = ''Operation has completed'',
           Created = Time_UTC now\<rparr>\<rparr> s"

definition FailOperation ::
  "Constants \<Rightarrow> Time \<Rightarrow> Context \<Rightarrow> SiteOperationKey \<Rightarrow> 's OperationStateSetter \<Rightarrow> string \<Rightarrow> 's \<Rightarrow>
     error option \<times> 's" where
  "FailOperation K now ctx key operator message s =
     (let message =
        (if message \<noteq> [] then ''Operation failure: '' @ message else ''Operation failure'')
      in operator ctx key
           \<lparr>State = OperationStateFailed K,
            Progress = Some
              \<lparr>pe_SiteDomain = SiteDomain key,
               pe_OperationID = OperationID key,
               Step = FinalStep K,
               Completion = Completed K,
               pe_State = ProgressStateFailed K,
               Message = TrimSpace message,
               Created = Time_UTC now\<rparr>\<rparr> s)"

definition FailOperationAndResetCluster ::
  "Constants \<Rightarrow> Time \<Rightarrow> Context \<Rightarrow> SiteOperationKey \<Rightarrow> 's Operator \<Rightarrow> string \<Rightarrow> 's \<Rightarrow>
     error option \<times> 's" where
  "FailOperationAndResetCluster K now ctx key operator message s =
     (case FailOperation K now ctx key (SetOperationState operator) message s of
        (Some err, s1) \<Rightarrow> (Some (Wrap err), s1)
      | (None, s1) \<Rightarrow>
          (case ActivateSite operator
                  \<lparr>asr_AccountID = AccountID key, asr_SiteDomain = SiteDomain key\<rparr> s1 of
             (Some err, s2) \<Rightarrow> (Some (Wrap err), s2)
           | (None, s2) \<Rightarrow> (None, s2)))"

section \<open>Stand-ins for the backend\<close>

text \<open>
  Modelled from the spec: the store behind \<open>SetOperationState\<close> is not among the
  files at hand. The spec gives the call as
  \<open>SetOperationState(ctx, key, {state, progress}) \<rightarrow> error\<close>, has every operation carry a
  current state and many progress entries over time, and has a transition set the state
  and append the entry of the request.
\<close>

record OperationStore =
  op_states :: "SiteOperationKey \<Rightarrow> string option"
  op_progress :: "SiteOperationKey \<Rightarrow> ProgressEntry list"

definition store_SetOperationState :: "OperationStore OperationStateSetter" where
  "store_SetOperationState ctx key req st =
     (None,
      st\<lparr>op_states := (op_states st)(key \<mapsto> State req),
         op_progress := (op_progress st)
           (key := op_progress st key @ (case Progress req of None \<Rightarrow> [] | Some p \<Rightarrow> [p]))\<rparr>)"

definition empty_store :: OperationStore where
  "empty_store = \<lparr>op_states = (\<lambda>_. None), op_progress = (\<lambda>_. [])\<rparr>"

text \<open>
  A test double of the operator: it answers every query with a canned response and
  keeps the list of the calls it received, which is its state.
\<close>

datatype call =
    CallGetSiteOperations SiteKey OperationsFilter
  | CallGetSiteOperation SiteOperationKey
  | CallGetSiteOperationProgress SiteOperationKey
  | CallGetSites string
  | CallSetOperationState SiteOperationKey SetOperationStateRequest
  | CallActivateSite ActivateSiteRequest

definition canned ::
  "SiteOperation list \<Rightarrow> Site list \<Rightarrow> error option \<Rightarrow> (call list) Operator" where
  "canned operations clusters failure =
     \<lparr>GetSiteOperations = (\<lambda>k f log. (Inr operations, log @ [CallGetSiteOperations k f])),
      GetSiteOperation = (\<lambda>k log. (Inr None, log @ [CallGetSiteOperation k])),
      GetSiteOperationProgress = (\<lambda>k log. (Inr None, log @ [CallGetSiteOperationProgress k])),
      GetSites = (\<lambda>a log. (Inr clusters, log @ [CallGetSites a])),
      SetOperationState = (\<lambda>ctx k r log. (failure, log @ [CallSetOperationState k r])),
      ActivateSite = (\<lambda>r log. (None, log @ [CallActivateSite r]))\<rparr>"

text \<open>The same test double with a progress store that cannot be reached.\<close>

definition progress_unavailable :: "SiteOperation list \<Rightarrow> (call list) Operator" where
  "progress_unavailable operations =
     (canned operations [] None)
       \<lparr>GetSiteOperationProgress :=
          (\<lambda>k log. (Inl (Err ''connection problem''), log @ [CallGetSiteOperationProgress k]))\<rparr>"

text \<open>Example values for evaluation.\<close>

definition example_constants :: Constants where
  "example_constants =
     \<lparr>OperationInstall = ''operation_install'',
      OperationUninstall = ''operation_uninstall'',
      OperationUpdate = ''operation_update'',
      OperationShrink = ''operation_shrink'',
      OperationStateCompleted = ''completed'',
      OperationStateFailed = ''failed'',
      ProgressStateCompleted = ''completed'',
      ProgressStateFailed = ''failed'',
      FinalStep = 9,
      Completed = 100,
      SystemAccountID = ''system''\<rparr>"

definition example_site_key :: SiteKey where
  "example_site_key = \<lparr>sk_AccountID = ''system'', sk_SiteDomain = ''example.com''\<rparr>"

definition example_key :: SiteOperationKey where
  "example_key = \<lparr>AccountID = ''system'', SiteDomain = ''example.com'', OperationID = ''op-2''\<rparr>"

definition example_time :: Time where
  "example_time = \<lparr>nanos = 1600000000000000000, loc = Local\<rparr>"

definition older_operation :: SiteOperation where
  "older_operation =
     \<lparr>op_ID = ''op-1'', op_AccountID = ''system'', op_SiteDomain = ''example.com'',
      op_Type = ''operation_install'', op_State = ''completed'',
      op_Created = \<lparr>nanos = 1500000000000000000, loc = UTC\<rparr>\<rparr>"

definition newer_operation :: SiteOperation where
  "newer_operation =
     \<lparr>op_ID = ''op-2'', op_AccountID = ''system'', op_SiteDomain = ''example.com'',
      op_Type = ''operation_update'', op_State = ''update_in_progress'',
      op_Created = \<lparr>nanos = 1600000000000000000, loc = UTC\<rparr>\<rparr>"


section \<open>Properties of the operation store accessors\<close>

text \<open>
  C4. For every cluster key and each of the ten accessor queries (install operation,
  last uninstall, last completed update, completed install, last operation, last
  finished, last upgrade, last shrink, active operations, active operations by type):
  when the backend answers the accessor's filter with an empty list, the accessor
  returns a \<open>NotFound\<close> error and no success value. The state is the one the backend
  left after that single query.
\<close>

theorem empty_result_is_NotFound:
  "(fst (GetSiteOperations operator siteKey (no_filter\<lparr>Types := [OperationInstall K]\<rparr>) s) = Inr [] \<longrightarrow>
      GetInstallOperation K siteKey operator s =
        (Inl (NotFound ''no install operation found for %v'' [ArgSiteKey siteKey]),
         snd (GetSiteOperations operator siteKey (no_filter\<lparr>Types := [OperationInstall K]\<rparr>) s)))
   \<and> (fst (GetSiteOperations operator siteKey
              (no_filter\<lparr>Types := [OperationUninstall K], Last := True\<rparr>) s) = Inr [] \<longrightarrow>
      GetLastUninstallOperation K siteKey operator s =
        (Inl (NotFound ''no uninstall operation found for %v'' [ArgSiteKey siteKey]),
         snd (GetSiteOperations operator siteKey
                (no_filter\<lparr>Types := [OperationUninstall K], Last := True\<rparr>) s)))
   \<and> (fst (GetSiteOperations operator siteKey
              (no_filter\<lparr>Types := [OperationUpdate K], Last := True, Complete := True\<rparr>) s) = Inr [] \<longrightarrow>
      GetLastCompletedUpdateOperation K siteKey operator s =
        (Inl (NotFound ''no completed update operation found for %v'' [ArgSiteKey siteKey]),
         snd (GetSiteOperations operator siteKey
                (no_filter\<lparr>Types := [OperationUpdate K], Last := True, Complete := True\<rparr>) s)))
   \<and> (fst (GetSiteOperations operator siteKey
              (no_filter\<lparr>Types := [OperationInstall K], Last := True, Complete := True\<rparr>) s) = Inr [] \<longrightarrow>
      GetCompletedInstallOperation K siteKey operator s =
        (Inl (NotFound ''no completed install operation found for %v'' [ArgSiteKey siteKey]),
         snd (GetSiteOperations operator siteKey
                (no_filter\<lparr>Types := [OperationInstall K], Last := True, Complete := True\<rparr>) s)))
   \<and> (fst (GetSiteOperations operator siteKey (no_filter\<lparr>Last := True\<rparr>) s) = Inr [] \<longrightarrow>
      GetLastOperation K siteKey operator s =
        (Inl (NotFound ''no operation found for %v'' [ArgSiteKey siteKey]),
         snd (GetSiteOperations operator siteKey (no_filter\<lparr>Last := True\<rparr>) s)))
   \<and> (fst (GetSiteOperations operator siteKey
              (no_filter\<lparr>Last := True, Finished := True\<rparr>) s) = Inr [] \<longrightarrow>
      GetLastFinishedOperation K siteKey operator s =
        (Inl (NotFound ''no completed operation found for %v'' [ArgSiteKey siteKey]),
         snd (GetSiteOperations operator siteKey (no_filter\<lparr>Last := True, Finished := True\<rparr>) s)))
   \<and> (fst (GetSiteOperations operator siteKey
              (no_filter\<lparr>Types := [OperationUpdate K], Last := True\<rparr>) s) = Inr [] \<longrightarrow>
      GetLastUpgradeOperation K siteKey operator s =
        (Inl (NotFound ''no upgrade operation found for %v'' [ArgSiteKey siteKey]),
         snd (GetSiteOperations operator siteKey
                (no_filter\<lparr>Types := [OperationUpdate K], Last := True\<rparr>) s)))
   \<and> (fst (GetSiteOperations operator siteKey
              (no_filter\<lparr>Types := [OperationShrink K], Last := True\<rparr>) s) = Inr [] \<longrightarrow>
      GetLastShrinkOperation K siteKey operator s =
        (Inl (NotFound ''no shrink operation found for %v'' [ArgSiteKey siteKey]),
         snd (GetSiteOperations operator siteKey
                (no_filter\<lparr>Types := [OperationShrink K], Last := True\<rparr>) s)))
   \<and> (fst (GetSiteOperations operator siteKey (no_filter\<lparr>Active := True\<rparr>) s) = Inr [] \<longrightarrow>
      GetActiveOperations siteKey operator s =
        (Inl (NotFound ''no active operation found for %v'' [ArgSiteKey siteKey]),
         snd (GetSiteOperations operator siteKey (no_filter\<lparr>Active := True\<rparr>) s)))
   \<and> (fst (GetSiteOperations operator siteKey
              (no_filter\<lparr>Types := [opType], Active := True\<rparr>) s) = Inr [] \<longrightarrow>
      GetActiveOperationsByType siteKey operator opType s =
        (Inl (NotFound ''no active operation found for %v with type %v''
                [ArgSiteKey siteKey, ArgString opType]),
         snd (GetSiteOperations operator siteKey (no_filter\<lparr>Types := [opType], Active := True\<rparr>) s)))"
  by (intro conjI impI)
    (auto simp: GetInstallOperation_def GetLastUninstallOperation_def
      GetLastCompletedUpdateOperation_def GetCompletedInstallOperation_def GetLastOperation_def
      GetLastFinishedOperation_def GetLastUpgradeOperation_def GetLastShrinkOperation_def
      GetActiveOperations_def GetActiveOperationsByType_def split: prod.splits)

theorem empty_result_is_NotFound_witness:
  "GetInstallOperation example_constants example_site_key (canned [] [] None) [] =
     (Inl (NotFound ''no install operation found for %v'' [ArgSiteKey example_site_key]),
      [CallGetSiteOperations example_site_key (no_filter\<lparr>Types := [''operation_install'']\<rparr>)])
   \<and> GetLastUninstallOperation example_constants example_site_key (canned [] [] None) [] =
     (Inl (NotFound ''no uninstall operation found for %v'' [ArgSiteKey example_site_key]),
      [CallGetSiteOperations example_site_key (no_filter\<lparr>Types := [''operation_uninstall''], Last := True\<rparr>)])
   \<and> GetLastCompletedUpdateOperation example_constants example_site_key (canned [] [] None) [] =
     (Inl (NotFound ''no completed update operation found for %v'' [ArgSiteKey example_site_key]),
      [CallGetSiteOperations example_site_key (no_filter\<lparr>Types := [''operation_update''], Last := True, Complete := True\<rparr>)])
   \<and> GetCompletedInstallOperation example_constants example_site_key (canned [] [] None) [] =
     (Inl (NotFound ''no completed install operation found for %v'' [ArgSiteKey example_site_key]),
      [CallGetSiteOperations example_site_key (no_filter\<lparr>Types := [''operation_install''], Last := True, Complete := True\<rparr>)])
   \<and> GetLastOperation example_constants example_site_key (canned [] [] None) [] =
     (Inl (NotFound ''no operation found for %v'' [ArgSiteKey example_site_key]),
      [CallGetSiteOperations example_site_key (no_filter\<lparr>Last := True\<rparr>)])
   \<and> GetLastFinishedOperation example_constants example_site_key (canned [] [] None) [] =
     (Inl (NotFound ''no completed operation found for %v'' [ArgSiteKey example_site_key]),
      [CallGetSiteOperations example_site_key (no_filter\<lparr>Last := True, Finished := True\<rparr>)])
   \<and> GetLastUpgradeOperation example_constants example_site_key (canned [] [] None) [] =
     (Inl (NotFound ''no upgrade operation found for %v'' [ArgSiteKey example_site_key]),
      [CallGetSiteOperations example_site_key (no_filter\<lparr>Types := [''operation_update''], Last := True\<rparr>)])
   \<and> GetLastShrinkOperation example_constants example_site_key (canned [] [] None) [] =
     (Inl (NotFound ''no shrink operation found for %v'' [ArgSiteKey example_site_key]),
      [CallGetSiteOperations example_site_key (no_filter\<lparr>Types := [''operation_shrink''], Last := True\<rparr>)])
   \<and> GetActiveOperations example_site_key (canned [] [] None) [] =
     (Inl (NotFound ''no active operation found for %v'' [ArgSiteKey example_site_key]),
      [CallGetSiteOperations example_site_key (no_filter\<lparr>Active := True\<rparr>)])
   \<and> GetActiveOperationsByType example_site_key (canned [] [] None) ''operation_shrink'' [] =
     (Inl (NotFound ''no active operation found for %v with type %v''
             [ArgSiteKey example_site_key, ArgString ''operation_shrink'']),
      [CallGetSiteOperations example_site_key
         (no_filter\<lparr>Types := [''operation_shrink''], Active := True\<rparr>)])"
  using empty_result_is_NotFound
    [of "canned [] [] None" example_site_key example_constants "[]" "''operation_shrink''"]
  by (simp add: canned_def example_constants_def)

text \<open>
  C8, as the claim states it, at a backend that returns the list
  \<open>[newer_operation, older_operation]\<close> and cannot give the progress of an operation:
  the claim has every "last" query return the first element of a non-empty list. The
  three queries that fetch the progress of that element (last uninstall, last operation,
  last finished) return the error of the fetch, wrapped, and no operation. And on a
  list of one element, reversing the backend's list changes nothing in what any of the
  six queries returns.
\<close>

theorem last_query_progress_failure_counterexample:
  "GetSiteOperations (progress_unavailable [newer_operation, older_operation]) example_site_key
       (no_filter\<lparr>Types := [''operation_uninstall''], Last := True\<rparr>) [] =
     (Inr [newer_operation, older_operation],
      [CallGetSiteOperations example_site_key
         (no_filter\<lparr>Types := [''operation_uninstall''], Last := True\<rparr>)])
   \<and> GetSiteOperations (progress_unavailable [newer_operation, older_operation]) example_site_key
       (no_filter\<lparr>Last := True\<rparr>) [] =
     (Inr [newer_operation, older_operation],
      [CallGetSiteOperations example_site_key
         (no_filter\<lparr>Last := True\<rparr>)])
   \<and> GetSiteOperations (progress_unavailable [newer_operation, older_operation]) example_site_key
       (no_filter\<lparr>Last := True, Finished := True\<rparr>) [] =
     (Inr [newer_operation, older_operation],
      [CallGetSiteOperations example_site_key
         (no_filter\<lparr>Last := True, Finished := True\<rparr>)])
   \<and> GetLastUninstallOperation example_constants example_site_key
       (progress_unavailable [newer_operation, older_operation]) [] =
     (Inl (Wrap (Err ''connection problem'')),
      [CallGetSiteOperations example_site_key
         (no_filter\<lparr>Types := [''operation_uninstall''], Last := True\<rparr>),
       CallGetSiteOperationProgress (SiteOperation_Key newer_operation)])
   \<and> GetLastOperation example_constants example_site_key
       (progress_unavailable [newer_operation, older_operation]) [] =
     (Inl (Wrap (Err ''connection problem'')),
      [CallGetSiteOperations example_site_key
         (no_filter\<lparr>Last := True\<rparr>),
       CallGetSiteOperationProgress (SiteOperation_Key newer_operation)])
   \<and> GetLastFinishedOperation example_constants example_site_key
       (progress_unavailable [newer_operation, older_operation]) [] =
     (Inl (Wrap (Err ''connection problem'')),
      [CallGetSiteOperations example_site_key
         (no_filter\<lparr>Last := True, Finished := True\<rparr>),
       CallGetSiteOperationProgress (SiteOperation_Key newer_operation)])
   \<and> GetLastUninstallOperation example_constants example_site_key
       (canned (rev [newer_operation]) [] None) [] =
     GetLastUninstallOperation example_constants example_site_key
       (canned [newer_operation] [] None) []
   \<and> GetLastCompletedUpdateOperation example_constants example_site_key
       (canned (rev [newer_operation]) [] None) [] =
     GetLastCompletedUpdateOperation example_constants example_site_key
       (canned [newer_operation] [] None) []
   \<and> GetLastOperation example_constants example_site_key
       (canned (rev [newer_operation]) [] None) [] =
     GetLastOperation example_constants example_site_key
       (canned [newer_operation] [] None) []
   \<and> GetLastFinishedOperation example_constants example_site_key
       (canned (rev [newer_operation]) [] None) [] =
     GetLastFinishedOperation example_constants example_site_key
       (canned [newer_operation] [] None) []
   \<and> GetLastUpgradeOperation example_constants example_site_key
       (canned (rev [newer_operation]) [] None) [] =
     GetLastUpgradeOperation example_constants example_site_key
       (canned [newer_operation] [] None) []
   \<and> GetLastShrinkOperation example_constants example_site_key
       (canned (rev [newer_operation]) [] None) [] =
     GetLastShrinkOperation example_constants example_site_key
       (canned [newer_operation] [] None) []"
  by (simp add: progress_unavailable_def canned_def example_constants_def
      GetLastUninstallOperation_def GetLastCompletedUpdateOperation_def
      GetLastOperation_def GetLastFinishedOperation_def GetLastUpgradeOperation_def
      GetLastShrinkOperation_def)

text \<open>
  C8, amended. For every non-empty list the backend returns for the filter of a "last"
  query, nothing is sorted and the first element of the list as it stands is taken.
  Last completed update, last upgrade and last shrink return exactly that element. Last
  uninstall, last operation and last finished fetch the progress of that element and
  return the element with its progress when the fetch succeeds, and the error of the
  fetch, wrapped, with no operation when it fails. A backend that returns the same
  operations in reverse order makes each query take the list's former last element, so
  that (the progress fetched, where there is one to fetch) the returned operation
  changes whenever the first and the last element of the list differ.
\<close>

theorem last_query_returns_first_element:
  "(operations \<noteq> [] \<and>
      GetSiteOperations operator siteKey
        (no_filter\<lparr>Types := [OperationUninstall K], Last := True\<rparr>) s =
          (Inr operations, sa) \<longrightarrow>
      GetLastUninstallOperation K siteKey operator s =
        (case GetSiteOperationProgress operator (SiteOperation_Key (hd operations)) sa of
           (Inl err, sb) \<Rightarrow> (Inl (Wrap err), sb)
         | (Inr progress, sb) \<Rightarrow> (Inr (hd operations, progress), sb)))
   \<and> (operations \<noteq> [] \<and>
      GetSiteOperations operator siteKey
        (no_filter\<lparr>Types := [OperationUpdate K], Last := True, Complete := True\<rparr>) s =
          (Inr operations, sa) \<longrightarrow>
      GetLastCompletedUpdateOperation K siteKey operator s =
        (Inr (hd operations), sa))
   \<and> (operations \<noteq> [] \<and>
      GetSiteOperations operator siteKey
        (no_filter\<lparr>Last := True\<rparr>) s =
          (Inr operations, sa) \<longrightarrow>
      GetLastOperation K siteKey operator s =
        (case GetSiteOperationProgress operator (SiteOperation_Key (hd operations)) sa of
           (Inl err, sb) \<Rightarrow> (Inl (Wrap err), sb)
         | (Inr progress, sb) \<Rightarrow> (Inr (hd operations, progress), sb)))
   \<and> (operations \<noteq> [] \<and>
      GetSiteOperations operator siteKey
        (no_filter\<lparr>Last := True, Finished := True\<rparr>) s =
          (Inr operations, sa) \<longrightarrow>
      GetLastFinishedOperation K siteKey operator s =
        (case GetSiteOperationProgress operator (SiteOperation_Key (hd operations)) sa of
           (Inl err, sb) \<Rightarrow> (Inl (Wrap err), sb)
         | (Inr progress, sb) \<Rightarrow> (Inr (hd operations, progress), sb)))
   \<and> (operations \<noteq> [] \<and>
      GetSiteOperations operator siteKey
        (no_filter\<lparr>Types := [OperationUpdate K], Last := True\<rparr>) s =
          (Inr operations, sa) \<longrightarrow>
      GetLastUpgradeOperation K siteKey operator s =
        (Inr (hd operations), sa))
   \<and> (operations \<noteq> [] \<and>
      GetSiteOperations operator siteKey
        (no_filter\<lparr>Types := [OperationShrink K], Last := True\<rparr>) s =
          (Inr operations, sa) \<longrightarrow>
      GetLastShrinkOperation K siteKey operator s =
        (Inr (hd operations), sa))
   \<and> (operations \<noteq> [] \<and>
      GetSiteOperations reversed siteKey
        (no_filter\<lparr>Types := [OperationUninstall K], Last := True\<rparr>) t =
          (Inr (rev operations), ta) \<longrightarrow>
      GetLastUninstallOperation K siteKey reversed t =
        (case GetSiteOperationProgress reversed (SiteOperation_Key (last operations)) ta of
           (Inl err, sb) \<Rightarrow> (Inl (Wrap err), sb)
         | (Inr progress, sb) \<Rightarrow> (Inr (last operations, progress), sb)))
   \<and> (operations \<noteq> [] \<and>
      GetSiteOperations reversed siteKey
        (no_filter\<lparr>Types := [OperationUpdate K], Last := True, Complete := True\<rparr>) t =
          (Inr (rev operations), ta) \<longrightarrow>
      GetLastCompletedUpdateOperation K siteKey reversed t =
        (Inr (last operations), ta))
   \<and> (operations \<noteq> [] \<and>
      GetSiteOperations reversed siteKey
        (no_filter\<lparr>Last := True\<rparr>) t =
          (Inr (rev operations), ta) \<longrightarrow>
      GetLastOperation K siteKey reversed t =
        (case GetSiteOperationProgress reversed (SiteOperation_Key (last operations)) ta of
           (Inl err, sb) \<Rightarrow> (Inl (Wrap err), sb)
         | (Inr progress, sb) \<Rightarrow> (Inr (last operations, progress), sb)))
   \<and> (operations \<noteq> [] \<and>
      GetSiteOperations reversed siteKey
        (no_filter\<lparr>Last := True, Finished := True\<rparr>) t =
          (Inr (rev operations), ta) \<longrightarrow>
      GetLastFinishedOperation K siteKey reversed t =
        (case GetSiteOperationProgress reversed (SiteOperation_Key (last operations)) ta of
           (Inl err, sb) \<Rightarrow> (Inl (Wrap err), sb)
         | (Inr progress, sb) \<Rightarrow> (Inr (last operations, progress), sb)))
   \<and> (operations \<noteq> [] \<and>
      GetSiteOperations reversed siteKey
        (no_filter\<lparr>Types := [OperationUpdate K], Last := True\<rparr>) t =
          (Inr (rev operations), ta) \<longrightarrow>
      GetLastUpgradeOperation K siteKey reversed t =
        (Inr (last operations), ta))
   \<and> (operations \<noteq> [] \<and>
      GetSiteOperations reversed siteKey
        (no_filter\<lparr>Types := [OperationShrink K], Last := True\<rparr>) t =
          (Inr (rev operations), ta) \<longrightarrow>
      GetLastShrinkOperation K siteKey reversed t =
        (Inr (last operations), ta))
   \<and> (operations \<noteq> [] \<and> hd operations \<noteq> last operations \<and>
      GetSiteOperations operator siteKey
        (no_filter\<lparr>Types := [OperationUninstall K], Last := True\<rparr>) s =
          (Inr operations, sa) \<and>
      GetSiteOperations reversed siteKey
        (no_filter\<lparr>Types := [OperationUninstall K], Last := True\<rparr>) t =
          (Inr (rev operations), ta) \<and>
      GetSiteOperationProgress operator (SiteOperation_Key (hd operations)) sa =
          (Inr progress, sb) \<and>
      GetSiteOperationProgress reversed (SiteOperation_Key (last operations)) ta =
          (Inr progress', tb) \<longrightarrow>
      fst (GetLastUninstallOperation K siteKey operator s) \<noteq>
        fst (GetLastUninstallOperation K siteKey reversed t))
   \<and> (operations \<noteq> [] \<and> hd operations \<noteq> last operations \<and>
      GetSiteOperations operator siteKey
        (no_filter\<lparr>Types := [OperationUpdate K], Last := True, Complete := True\<rparr>) s =
          (Inr operations, sa) \<and>
      GetSiteOperations reversed siteKey
        (no_filter\<lparr>Types := [OperationUpdate K], Last := True, Complete := True\<rparr>) t =
          (Inr (rev operations), ta) \<longrightarrow>
      fst (GetLastCompletedUpdateOperation K siteKey operator s) \<noteq>
        fst (GetLastCompletedUpdateOperation K siteKey reversed t))
   \<and> (operations \<noteq> [] \<and> hd operations \<noteq> last operations \<and>
      GetSiteOperations operator siteKey
        (no_filter\<lparr>Last := True\<rparr>) s =
          (Inr operations, sa) \<and>
      GetSiteOperations reversed siteKey
        (no_filter\<lparr>Last := True\<rparr>) t =
          (Inr (rev operations), ta) \<and>
      GetSiteOperationProgress operator (SiteOperation_Key (hd operations)) sa =
          (Inr progress, sb) \<and>
      GetSiteOperationProgress reversed (SiteOperation_Key (last operations)) ta =
          (Inr progress', tb) \<longrightarrow>
      fst (GetLastOperation K siteKey operator s) \<noteq>
        fst (GetLastOperation K siteKey reversed t))
   \<and> (operations \<noteq> [] \<and> hd operations \<noteq> last operations \<and>
      GetSiteOperations operator siteKey
        (no_filter\<lparr>Last := True, Finished := True\<rparr>) s =
          (Inr operations, sa) \<and>
      GetSiteOperations reversed siteKey
        (no_filter\<lparr>Last := True, Finished := True\<rparr>) t =
          (Inr (rev operations), ta) \<and>
      GetSiteOperationProgress operator (SiteOperation_Key (hd operations)) sa =
          (Inr progress, sb) \<and>
      GetSiteOperationProgress reversed (SiteOperation_Key (last operations)) ta =
          (Inr progress', tb) \<longrightarrow>
      fst (GetLastFinishedOperation K siteKey operator s) \<noteq>
        fst (GetLastFinishedOperation K siteKey reversed t))
   \<and> (operations \<noteq> [] \<and> hd operations \<noteq> last operations \<and>
      GetSiteOperations operator siteKey
        (no_filter\<lparr>Types := [OperationUpdate K], Last := True\<rparr>) s =
          (Inr operations, sa) \<and>
      GetSiteOperations reversed siteKey
        (no_filter\<lparr>Types := [OperationUpdate K], Last := True\<rparr>) t =
          (Inr (rev operations), ta) \<longrightarrow>
      fst (GetLastUpgradeOperation K siteKey operator s) \<noteq>
        fst (GetLastUpgradeOperation K siteKey reversed t))
   \<and> (operations \<noteq> [] \<and> hd operations \<noteq> last operations \<and>
      GetSiteOperations operator siteKey
        (no_filter\<lparr>Types := [OperationShrink K], Last := True\<rparr>) s =
          (Inr operations, sa) \<and>
      GetSiteOperations reversed siteKey
        (no_filter\<lparr>Types := [OperationShrink K], Last := True\<rparr>) t =
          (Inr (rev operations), ta) \<longrightarrow>
      fst (GetLastShrinkOperation K siteKey operator s) \<noteq>
        fst (GetLastShrinkOperation K siteKey reversed t))"
proof -
  have first: "xs ! 0 = hd xs" if "xs \<noteq> []" for xs :: "SiteOperation list"
    using that by (simp add: hd_conv_nth)
  show ?thesis
    by (intro conjI impI)
      (simp_all add: GetLastUninstallOperation_def GetLastCompletedUpdateOperation_def
        GetLastOperation_def GetLastFinishedOperation_def GetLastUpgradeOperation_def
        GetLastShrinkOperation_def first hd_rev Let_def)
qed

theorem last_query_returns_first_element_witness:
  "GetLastUninstallOperation example_constants example_site_key
       (canned [newer_operation, older_operation] [] None) [] =
     (Inr (newer_operation, None),
      [CallGetSiteOperations example_site_key
         (no_filter\<lparr>Types := [''operation_uninstall''], Last := True\<rparr>),
       CallGetSiteOperationProgress (SiteOperation_Key newer_operation)])
   \<and> GetLastCompletedUpdateOperation example_constants example_site_key
       (canned [newer_operation, older_operation] [] None) [] =
     (Inr newer_operation,
      [CallGetSiteOperations example_site_key
         (no_filter\<lparr>Types := [''operation_update''], Last := True, Complete := True\<rparr>)])
   \<and> GetLastOperation example_constants example_site_key
       (canned [newer_operation, older_operation] [] None) [] =
     (Inr (newer_operation, None),
      [CallGetSiteOperations example_site_key
         (no_filter\<lparr>Last := True\<rparr>),
       CallGetSiteOperationProgress (SiteOperation_Key newer_operation)])
   \<and> GetLastFinishedOperation example_constants example_site_key
       (canned [newer_operation, older_operation] [] None) [] =
     (Inr (newer_operation, None),
      [CallGetSiteOperations example_site_key
         (no_filter\<lparr>Last := True, Finished := True\<rparr>),
       CallGetSiteOperationProgress (SiteOperation_Key newer_operation)])
   \<and> GetLastUpgradeOperation example_constants example_site_key
       (canned [newer_operation, older_operation] [] None) [] =
     (Inr newer_operation,
      [CallGetSiteOperations example_site_key
         (no_filter\<lparr>Types := [''operation_update''], Last := True\<rparr>)])
   \<and> GetLastShrinkOperation example_constants example_site_key
       (canned [newer_operation, older_operation] [] None) [] =
     (Inr newer_operation,
      [CallGetSiteOperations example_site_key
         (no_filter\<lparr>Types := [''operation_shrink''], Last := True\<rparr>)])
   \<and> GetLastUninstallOperation example_constants example_site_key
       (canned [older_operation, newer_operation] [] None) [] =
     (Inr (older_operation, None),
      [CallGetSiteOperations example_site_key
         (no_filter\<lparr>Types := [''operation_uninstall''], Last := True\<rparr>),
       CallGetSiteOperationProgress (SiteOperation_Key older_operation)])
   \<and> GetLastCompletedUpdateOperation example_constants example_site_key
       (canned [older_operation, newer_operation] [] None) [] =
     (Inr older_operation,
      [CallGetSiteOperations example_site_key
         (no_filter\<lparr>Types := [''operation_update''], Last := True, Complete := True\<rparr>)])
   \<and> GetLastOperation example_constants example_site_key
       (canned [older_operation, newer_operation] [] None) [] =
     (Inr (older_operation, None),
      [CallGetSiteOperations example_site_key
         (no_filter\<lparr>Last := True\<rparr>),
       CallGetSiteOperationProgress (SiteOperation_Key older_operation)])
   \<and> GetLastFinishedOperation example_constants example_site_key
       (canned [older_operation, newer_operation] [] None) [] =
     (Inr (older_operation, None),
      [CallGetSiteOperations example_site_key
         (no_filter\<lparr>Last := True, Finished := True\<rparr>),
       CallGetSiteOperationProgress (SiteOperation_Key older_operation)])
   \<and> GetLastUpgradeOperation example_constants example_site_key
       (canned [older_operation, newer_operation] [] None) [] =
     (Inr older_operation,
      [CallGetSiteOperations example_site_key
         (no_filter\<lparr>Types := [''operation_update''], Last := True\<rparr>)])
   \<and> GetLastShrinkOperation example_constants example_site_key
       (canned [older_operation, newer_operation] [] None) [] =
     (Inr older_operation,
      [CallGetSiteOperations example_site_key
         (no_filter\<lparr>Types := [''operation_shrink''], Last := True\<rparr>)])
   \<and> GetLastUninstallOperation example_constants example_site_key
       (progress_unavailable [newer_operation, older_operation]) [] =
     (Inl (Wrap (Err ''connection problem'')),
      [CallGetSiteOperations example_site_key
         (no_filter\<lparr>Types := [''operation_uninstall''], Last := True\<rparr>),
       CallGetSiteOperationProgress (SiteOperation_Key newer_operation)])
   \<and> GetLastOperation example_constants example_site_key
       (progress_unavailable [newer_operation, older_operation]) [] =
     (Inl (Wrap (Err ''connection problem'')),
      [CallGetSiteOperations example_site_key
         (no_filter\<lparr>Last := True\<rparr>),
       CallGetSiteOperationProgress (SiteOperation_Key newer_operation)])
   \<and> GetLastFinishedOperation example_constants example_site_key
       (progress_unavailable [newer_operation, older_operation]) [] =
     (Inl (Wrap (Err ''connection problem'')),
      [CallGetSiteOperations example_site_key
         (no_filter\<lparr>Last := True, Finished := True\<rparr>),
       CallGetSiteOperationProgress (SiteOperation_Key newer_operation)])
   \<and> fst (GetLastUninstallOperation example_constants example_site_key
       (canned [newer_operation, older_operation] [] None) []) \<noteq>
     fst (GetLastUninstallOperation example_constants example_site_key
       (canned [older_operation, newer_operation] [] None) [])
   \<and> fst (GetLastCompletedUpdateOperation example_constants example_site_key
       (canned [newer_operation, older_operation] [] None) []) \<noteq>
     fst (GetLastCompletedUpdateOperation example_constants example_site_key
       (canned [older_operation, newer_operation] [] None) [])
   \<and> fst (GetLastOperation example_constants example_site_key
       (canned [newer_operation, older_operation] [] None) []) \<noteq>
     fst (GetLastOperation example_constants example_site_key
       (canned [older_operation, newer_operation] [] None) [])
   \<and> fst (GetLastFinishedOperation example_constants example_site_key
       (canned [newer_operation, older_operation] [] None) []) \<noteq>
     fst (GetLastFinishedOperation example_constants example_site_key
       (canned [older_operation, newer_operation] [] None) [])
   \<and> fst (GetLastUpgradeOperation example_constants example_site_key
       (canned [newer_operation, older_operation] [] None) []) \<noteq>
     fst (GetLastUpgradeOperation example_constants example_site_key
       (canned [older_operation, newer_operation] [] None) [])
   \<and> fst (GetLastShrinkOperation example_constants example_site_key
       (canned [newer_operation, older_operation] [] None) []) \<noteq>
     fst (GetLastShrinkOperation example_constants example_site_key
       (canned [older_operation, newer_operation] [] None) [])"
proof -
  have differ: "newer_operation \<noteq> older_operation"
    by (simp add: newer_operation_def older_operation_def)
  note GetLastUninstallOperation_ordered = last_query_returns_first_element
    [where operations = "[newer_operation, older_operation]"
       and operator = "canned [newer_operation, older_operation] [] None"
       and reversed = "canned [older_operation, newer_operation] [] None"
       and K = example_constants and siteKey = example_site_key
       and s = "[]" and t = "[]"
       and sa = "[CallGetSiteOperations example_site_key          (no_filter\<lparr>Types := [''operation_uninstall''], Last := True\<rparr>)]"
       and ta = "[CallGetSiteOperations example_site_key          (no_filter\<lparr>Types := [''operation_uninstall''], Last := True\<rparr>)]"
       and sb = "[CallGetSiteOperations example_site_key          (no_filter\<lparr>Types := [''operation_uninstall''], Last := True\<rparr>),        CallGetSiteOperationProgress (SiteOperation_Key newer_operation)]"
       and tb = "[CallGetSiteOperations example_site_key          (no_filter\<lparr>Types := [''operation_uninstall''], Last := True\<rparr>),        CallGetSiteOperationProgress (SiteOperation_Key older_operation)]"
       and progress = None and progress' = None]
  note GetLastUninstallOperation_unavailable = last_query_returns_first_element
    [where operations = "[newer_operation, older_operation]"
       and operator = "progress_unavailable [newer_operation, older_operation]"
       and reversed = "progress_unavailable [older_operation, newer_operation]"
       and K = example_constants and siteKey = example_site_key
       and s = "[]" and t = "[]"
       and sa = "[CallGetSiteOperations example_site_key          (no_filter\<lparr>Types := [''operation_uninstall''], Last := True\<rparr>)]"
       and ta = "[CallGetSiteOperations example_site_key          (no_filter\<lparr>Types := [''operation_uninstall''], Last := True\<rparr>)]"
       and sb = "[CallGetSiteOperations example_site_key          (no_filter\<lparr>Types := [''operation_uninstall''], Last := True\<rparr>),        CallGetSiteOperationProgress (SiteOperation_Key newer_operation)]"
       and tb = "[CallGetSiteOperations example_site_key          (no_filter\<lparr>Types := [''operation_uninstall''], Last := True\<rparr>),        CallGetSiteOperationProgress (SiteOperation_Key older_operation)]"
       and progress = None and progress' = None]
  note GetLastCompletedUpdateOperation_ordered = last_query_returns_first_element
    [where operations = "[newer_operation, older_operation]"
       and operator = "canned [newer_operation, older_operation] [] None"
       and reversed = "canned [older_operation, newer_operation] [] None"
       and K = example_constants and siteKey = example_site_key
       and s = "[]" and t = "[]"
       and sa = "[CallGetSiteOperations example_site_key          (no_filter\<lparr>Types := [''operation_update''], Last := True, Complete := True\<rparr>)]"
       and ta = "[CallGetSiteOperations example_site_key          (no_filter\<lparr>Types := [''operation_update''], Last := True, Complete := True\<rparr>)]"
       and sb = "[CallGetSiteOperations example_site_key          (no_filter\<lparr>Types := [''operation_update''], Last := True, Complete := True\<rparr>),        CallGetSiteOperationProgress (SiteOperation_Key newer_operation)]"
       and tb = "[CallGetSiteOperations example_site_key          (no_filter\<lparr>Types := [''operation_update''], Last := True, Complete := True\<rparr>),        CallGetSiteOperationProgress (SiteOperation_Key older_operation)]"
       and progress = None and progress' = None]
  note GetLastOperation_ordered = last_query_returns_first_element
    [where operations = "[newer_operation, older_operation]"
       and operator = "canned [newer_operation, older_operation] [] None"
       and reversed = "canned [older_operation, newer_operation] [] None"
       and K = example_constants and siteKey = example_site_key
       and s = "[]" and t = "[]"
       and sa = "[CallGetSiteOperations example_site_key          (no_filter\<lparr>Last := True\<rparr>)]"
       and ta = "[CallGetSiteOperations example_site_key          (no_filter\<lparr>Last := True\<rparr>)]"
       and sb = "[CallGetSiteOperations example_site_key          (no_filter\<lparr>Last := True\<rparr>),        CallGetSiteOperationProgress (SiteOperation_Key newer_operation)]"
       and tb = "[CallGetSiteOperations example_site_key          (no_filter\<lparr>Last := True\<rparr>),        CallGetSiteOperationProgress (SiteOperation_Key older_operation)]"
       and progress = None and progress' = None]
  note GetLastOperation_unavailable = last_query_returns_first_element
    [where operations = "[newer_operation, older_operation]"
       and operator = "progress_unavailable [newer_operation, older_operation]"
       and reversed = "progress_unavailable [older_operation, newer_operation]"
       and K = example_constants and siteKey = example_site_key
       and s = "[]" and t = "[]"
       and sa = "[CallGetSiteOperations example_site_key          (no_filter\<lparr>Last := True\<rparr>)]"
       and ta = "[CallGetSiteOperations example_site_key          (no_filter\<lparr>Last := True\<rparr>)]"
       and sb = "[CallGetSiteOperations example_site_key          (no_filter\<lparr>Last := True\<rparr>),        CallGetSiteOperationProgress (SiteOperation_Key newer_operation)]"
       and tb = "[CallGetSiteOperations example_site_key          (no_filter\<lparr>Last := True\<rparr>),        CallGetSiteOperationProgress (SiteOperation_Key older_operation)]"
       and progress = None and progress' = None]
  note GetLastFinishedOperation_ordered = last_query_returns_first_element
    [where operations = "[newer_operation, older_operation]"
       and operator = "canned [newer_operation, older_operation] [] None"
       and reversed = "canned [older_operation, newer_operation] [] None"
       and K = example_constants and siteKey = example_site_key
       and s = "[]" and t = "[]"
       and sa = "[CallGetSiteOperations example_site_key          (no_filter\<lparr>Last := True, Finished := True\<rparr>)]"
       and ta = "[CallGetSiteOperations example_site_key          (no_filter\<lparr>Last := True, Finished := True\<rparr>)]"
       and sb = "[CallGetSiteOperations example_site_key          (no_filter\<lparr>Last := True, Finished := True\<rparr>),        CallGetSiteOperationProgress (SiteOperation_Key newer_operation)]"
       and tb = "[CallGetSiteOperations example_site_key          (no_filter\<lparr>Last := True, Finished := True\<rparr>),        CallGetSiteOperationProgress (SiteOperation_Key older_operation)]"
       and progress = None and progress' = None]
  note GetLastFinishedOperation_unavailable = last_query_returns_first_element
    [where operations = "[newer_operation, older_operation]"
       and operator = "progress_unavailable [newer_operation, older_operation]"
       and reversed = "progress_unavailable [older_operation, newer_operation]"
       and K = example_constants and siteKey = example_site_key
       and s = "[]" and t = "[]"
       and sa = "[CallGetSiteOperations example_site_key          (no_filter\<lparr>Last := True, Finished := True\<rparr>)]"
       and ta = "[CallGetSiteOperations example_site_key          (no_filter\<lparr>Last := True, Finished := True\<rparr>)]"
       and sb = "[CallGetSiteOperations example_site_key          (no_filter\<lparr>Last := True, Finished := True\<rparr>),        CallGetSiteOperationProgress (SiteOperation_Key newer_operation)]"
       and tb = "[CallGetSiteOperations example_site_key          (no_filter\<lparr>Last := True, Finished := True\<rparr>),        CallGetSiteOperationProgress (SiteOperation_Key older_operation)]"
       and progress = None and progress' = None]
  note GetLastUpgradeOperation_ordered = last_query_returns_first_element
    [where operations = "[newer_operation, older_operation]"
       and operator = "canned [newer_operation, older_operation] [] None"
       and reversed = "canned [older_operation, newer_operation] [] None"
       and K = example_constants and siteKey = example_site_key
       and s = "[]" and t = "[]"
       and sa = "[CallGetSiteOperations example_site_key          (no_filter\<lparr>Types := [''operation_update''], Last := True\<rparr>)]"
       and ta = "[CallGetSiteOperations example_site_key          (no_filter\<lparr>Types := [''operation_update''], Last := True\<rparr>)]"
       and sb = "[CallGetSiteOperations example_site_key          (no_filter\<lparr>Types := [''operation_update''], Last := True\<rparr>),        CallGetSiteOperationProgress (SiteOperation_Key newer_operation)]"
       and tb = "[CallGetSiteOperations example_site_key          (no_filter\<lparr>Types := [''operation_update''], Last := True\<rparr>),        CallGetSiteOperationProgress (SiteOperation_Key older_operation)]"
       and progress = None and progress' = None]
  note GetLastShrinkOperation_ordered = last_query_returns_first_element
    [where operations = "[newer_operation, older_operation]"
       and operator = "canned [newer_operation, older_operation] [] None"
       and reversed = "canned [older_operation, newer_operation] [] None"
       and K = example_constants and siteKey = example_site_key
       and s = "[]" and t = "[]"
       and sa = "[CallGetSiteOperations example_site_key          (no_filter\<lparr>Types := [''operation_shrink''], Last := True\<rparr>)]"
       and ta = "[CallGetSiteOperations example_site_key          (no_filter\<lparr>Types := [''operation_shrink''], Last := True\<rparr>)]"
       and sb = "[CallGetSiteOperations example_site_key          (no_filter\<lparr>Types := [''operation_shrink''], Last := True\<rparr>),        CallGetSiteOperationProgress (SiteOperation_Key newer_operation)]"
       and tb = "[CallGetSiteOperations example_site_key          (no_filter\<lparr>Types := [''operation_shrink''], Last := True\<rparr>),        CallGetSiteOperationProgress (SiteOperation_Key older_operation)]"
       and progress = None and progress' = None]
  have GetLastUninstallOperation_first:
    "GetLastUninstallOperation example_constants example_site_key
         (canned [newer_operation, older_operation] [] None) [] =
       (Inr (newer_operation, None),
        [CallGetSiteOperations example_site_key
           (no_filter\<lparr>Types := [''operation_uninstall''], Last := True\<rparr>),
         CallGetSiteOperationProgress (SiteOperation_Key newer_operation)])"
    using differ GetLastUninstallOperation_ordered [THEN conjunct1]
    by (simp add: canned_def example_constants_def)
  have GetLastCompletedUpdateOperation_first:
    "GetLastCompletedUpdateOperation example_constants example_site_key
         (canned [newer_operation, older_operation] [] None) [] =
       (Inr newer_operation,
        [CallGetSiteOperations example_site_key
           (no_filter\<lparr>Types := [''operation_update''], Last := True, Complete := True\<rparr>)])"
    using differ GetLastCompletedUpdateOperation_ordered [THEN conjunct2, THEN conjunct1]
    by (simp add: canned_def example_constants_def)
  have GetLastOperation_first:
    "GetLastOperation example_constants example_site_key
         (canned [newer_operation, older_operation] [] None) [] =
       (Inr (newer_operation, None),
        [CallGetSiteOperations example_site_key
           (no_filter\<lparr>Last := True\<rparr>),
         CallGetSiteOperationProgress (SiteOperation_Key newer_operation)])"
    using differ GetLastOperation_ordered [THEN conjunct2, THEN conjunct2, THEN conjunct1]
    by (simp add: canned_def example_constants_def)
  have GetLastFinishedOperation_first:
    "GetLastFinishedOperation example_constants example_site_key
         (canned [newer_operation, older_operation] [] None) [] =
       (Inr (newer_operation, None),
        [CallGetSiteOperations example_site_key
           (no_filter\<lparr>Last := True, Finished := True\<rparr>),
         CallGetSiteOperationProgress (SiteOperation_Key newer_operation)])"
    using differ GetLastFinishedOperation_ordered [THEN conjunct2, THEN conjunct2, THEN conjunct2, THEN conjunct1]
    by (simp add: canned_def example_constants_def)
  have GetLastUpgradeOperation_first:
    "GetLastUpgradeOperation example_constants example_site_key
         (canned [newer_operation, older_operation] [] None) [] =
       (Inr newer_operation,
        [CallGetSiteOperations example_site_key
           (no_filter\<lparr>Types := [''operation_update''], Last := True\<rparr>)])"
    using differ GetLastUpgradeOperation_ordered [THEN conjunct2, THEN conjunct2, THEN conjunct2, THEN conjunct2, THEN conjunct1]
    by (simp add: canned_def example_constants_def)
  have GetLastShrinkOperation_first:
    "GetLastShrinkOperation example_constants example_site_key
         (canned [newer_operation, older_operation] [] None) [] =
       (Inr newer_operation,
        [CallGetSiteOperations example_site_key
           (no_filter\<lparr>Types := [''operation_shrink''], Last := True\<rparr>)])"
    using differ GetLastShrinkOperation_ordered [THEN conjunct2, THEN conjunct2, THEN conjunct2, THEN conjunct2, THEN conjunct2, THEN conjunct1]
    by (simp add: canned_def example_constants_def)
  have GetLastUninstallOperation_reversed:
    "GetLastUninstallOperation example_constants example_site_key
         (canned [older_operation, newer_operation] [] None) [] =
       (Inr (older_operation, None),
        [CallGetSiteOperations example_site_key
           (no_filter\<lparr>Types := [''operation_uninstall''], Last := True\<rparr>),
         CallGetSiteOperationProgress (SiteOperation_Key older_operation)])"
    using differ GetLastUninstallOperation_ordered [THEN conjunct2, THEN conjunct2, THEN conjunct2, THEN conjunct2, THEN conjunct2, THEN conjunct2, THEN conjunct1]
    by (simp add: canned_def example_constants_def)
  have GetLastCompletedUpdateOperation_reversed:
    "GetLastCompletedUpdateOperation example_constants example_site_key
         (canned [older_operation, newer_operation] [] None) [] =
       (Inr older_operation,
        [CallGetSiteOperations example_site_key
           (no_filter\<lparr>Types := [''operation_update''], Last := True, Complete := True\<rparr>)])"
    using differ GetLastCompletedUpdateOperation_ordered [THEN conjunct2, THEN conjunct2, THEN conjunct2, THEN conjunct2, THEN conjunct2, THEN conjunct2, THEN conjunct2, THEN conjunct1]
    by (simp add: canned_def example_constants_def)
  have GetLastOperation_reversed:
    "GetLastOperation example_constants example_site_key
         (canned [older_operation, newer_operation] [] None) [] =
       (Inr (older_operation, None),
        [CallGetSiteOperations example_site_key
           (no_filter\<lparr>Last := True\<rparr>),
         CallGetSiteOperationProgress (SiteOperation_Key older_operation)])"
    using differ GetLastOperation_ordered [THEN conjunct2, THEN conjunct2, THEN conjunct2, THEN conjunct2, THEN conjunct2, THEN conjunct2, THEN conjunct2, THEN conjunct2, THEN conjunct1]
    by (simp add: canned_def example_constants_def)
  have GetLastFinishedOperation_reversed:
    "GetLastFinishedOperation example_constants example_site_key
         (canned [older_operation, newer_operation] [] None) [] =
       (Inr (older_operation, None),
        [CallGetSiteOperations example_site_key
           (no_filter\<lparr>Last := True, Finished := True\<rparr>),
         CallGetSiteOperationProgress (SiteOperation_Key older_operation)])"
    using differ GetLastFinishedOperation_ordered [THEN conjunct2, THEN conjunct2, THEN conjunct2, THEN conjunct2, THEN conjunct2, THEN conjunct2, THEN conjunct2, THEN conjunct2, THEN conjunct2, THEN conjunct1]
    by (simp add: canned_def example_constants_def)
  have GetLastUpgradeOperation_reversed:
    "GetLastUpgradeOperation example_constants example_site_key
         (canned [older_operation, newer_operation] [] None) [] =
       (Inr older_operation,
        [CallGetSiteOperations example_site_key
           (no_filter\<lparr>Types := [''operation_update''], Last := True\<rparr>)])"
    using differ GetLastUpgradeOperation_ordered [THEN conjunct2, THEN conjunct2, THEN conjunct2, THEN conjunct2, THEN conjunct2, THEN conjunct2, THEN conjunct2, THEN conjunct2, THEN conjunct2, THEN conjunct2, THEN conjunct1]
    by (simp add: canned_def example_constants_def)
  have GetLastShrinkOperation_reversed:
    "GetLastShrinkOperation example_constants example_site_key
         (canned [older_operation, newer_operation] [] None) [] =
       (Inr older_operation,
        [CallGetSiteOperations example_site_key
           (no_filter\<lparr>Types := [''operation_shrink''], Last := True\<rparr>)])"
    using differ GetLastShrinkOperation_ordered [THEN conjunct2, THEN conjunct2, THEN conjunct2, THEN conjunct2, THEN conjunct2, THEN conjunct2, THEN conjunct2, THEN conjunct2, THEN conjunct2, THEN conjunct2, THEN conjunct2, THEN conjunct1]
    by (simp add: canned_def example_constants_def)
  have GetLastUninstallOperation_failing:
    "GetLastUninstallOperation example_constants example_site_key
         (progress_unavailable [newer_operation, older_operation]) [] =
       (Inl (Wrap (Err ''connection problem'')),
        [CallGetSiteOperations example_site_key
           (no_filter\<lparr>Types := [''operation_uninstall''], Last := True\<rparr>),
         CallGetSiteOperationProgress (SiteOperation_Key newer_operation)])"
    using differ GetLastUninstallOperation_unavailable [THEN conjunct1]
    by (simp add: progress_unavailable_def canned_def example_constants_def)
  have GetLastOperation_failing:
    "GetLastOperation example_constants example_site_key
         (progress_unavailable [newer_operation, older_operation]) [] =
       (Inl (Wrap (Err ''connection problem'')),
        [CallGetSiteOperations example_site_key
           (no_filter\<lparr>Last := True\<rparr>),
         CallGetSiteOperationProgress (SiteOperation_Key newer_operation)])"
    using differ GetLastOperation_unavailable [THEN conjunct2, THEN conjunct2, THEN conjunct1]
    by (simp add: progress_unavailable_def canned_def example_constants_def)
  have GetLastFinishedOperation_failing:
    "GetLastFinishedOperation example_constants example_site_key
         (progress_unavailable [newer_operation, older_operation]) [] =
       (Inl (Wrap (Err ''connection problem'')),
        [CallGetSiteOperations example_site_key
           (no_filter\<lparr>Last := True, Finished := True\<rparr>),
         CallGetSiteOperationProgress (SiteOperation_Key newer_operation)])"
    using differ GetLastFinishedOperation_unavailable [THEN conjunct2, THEN conjunct2, THEN conjunct2, THEN conjunct1]
    by (simp add: progress_unavailable_def canned_def example_constants_def)
  have GetLastUninstallOperation_differs:
    "fst (GetLastUninstallOperation example_constants example_site_key
         (canned [newer_operation, older_operation] [] None) []) \<noteq>
       fst (GetLastUninstallOperation example_constants example_site_key
         (canned [older_operation, newer_operation] [] None) [])"
    using differ GetLastUninstallOperation_ordered [THEN conjunct2, THEN conjunct2, THEN conjunct2, THEN conjunct2, THEN conjunct2, THEN conjunct2, THEN conjunct2, THEN conjunct2, THEN conjunct2, THEN conjunct2, THEN conjunct2, THEN conjunct2, THEN conjunct1]
    by (simp add: canned_def example_constants_def)
  have GetLastCompletedUpdateOperation_differs:
    "fst (GetLastCompletedUpdateOperation example_constants example_site_key
         (canned [newer_operation, older_operation] [] None) []) \<noteq>
       fst (GetLastCompletedUpdateOperation example_constants example_site_key
         (canned [older_operation, newer_operation] [] None) [])"
    using differ GetLastCompletedUpdateOperation_ordered [THEN conjunct2, THEN conjunct2, THEN conjunct2, THEN conjunct2, THEN conjunct2, THEN conjunct2, THEN conjunct2, THEN conjunct2, THEN conjunct2, THEN conjunct2, THEN conjunct2, THEN conjunct2, THEN conjunct2, THEN conjunct1]
    by (simp add: canned_def example_constants_def)
  have GetLastOperation_differs:
    "fst (GetLastOperation example_constants example_site_key
         (canned [newer_operation, older_operation] [] None) []) \<noteq>
       fst (GetLastOperation example_constants example_site_key
         (canned [older_operation, newer_operation] [] None) [])"
    using differ GetLastOperation_ordered [THEN conjunct2, THEN conjunct2, THEN conjunct2, THEN conjunct2, THEN conjunct2, THEN conjunct2, THEN conjunct2, THEN conjunct2, THEN conjunct2, THEN conjunct2, THEN conjunct2, THEN conjunct2, THEN conjunct2, THEN conjunct2, THEN conjunct1]
    by (simp add: canned_def example_constants_def)
  have GetLastFinishedOperation_differs:
    "fst (GetLastFinishedOperation example_constants example_site_key
         (canned [newer_operation, older_operation] [] None) []) \<noteq>
       fst (GetLastFinishedOperation example_constants example_site_key
         (canned [older_operation, newer_operation] [] None) [])"
    using differ GetLastFinishedOperation_ordered [THEN conjunct2, THEN conjunct2, THEN conjunct2, THEN conjunct2, THEN conjunct2, THEN conjunct2, THEN conjunct2, THEN conjunct2, THEN conjunct2, THEN conjunct2, THEN conjunct2, THEN conjunct2, THEN conjunct2, THEN conjunct2, THEN conjunct2, THEN conjunct1]
    by (simp add: canned_def example_constants_def)
  have GetLastUpgradeOperation_differs:
    "fst (GetLastUpgradeOperation example_constants example_site_key
         (canned [newer_operation, older_operation] [] None) []) \<noteq>
       fst (GetLastUpgradeOperation example_constants example_site_key
         (canned [older_operation, newer_operation] [] None) [])"
    using differ GetLastUpgradeOperation_ordered [THEN conjunct2, THEN conjunct2, THEN conjunct2, THEN conjunct2, THEN conjunct2, THEN conjunct2, THEN conjunct2, THEN conjunct2, THEN conjunct2, THEN conjunct2, THEN conjunct2, THEN conjunct2, THEN conjunct2, THEN conjunct2, THEN conjunct2, THEN conjunct2, THEN conjunct1]
    by (simp add: canned_def example_constants_def)
  have GetLastShrinkOperation_differs:
    "fst (GetLastShrinkOperation example_constants example_site_key
         (canned [newer_operation, older_operation] [] None) []) \<noteq>
       fst (GetLastShrinkOperation example_constants example_site_key
         (canned [older_operation, newer_operation] [] None) [])"
    using differ GetLastShrinkOperation_ordered [THEN conjunct2, THEN conjunct2, THEN conjunct2, THEN conjunct2, THEN conjunct2, THEN conjunct2, THEN conjunct2, THEN conjunct2, THEN conjunct2, THEN conjunct2, THEN conjunct2, THEN conjunct2, THEN conjunct2, THEN conjunct2, THEN conjunct2, THEN conjunct2, THEN conjunct2]
    by (simp add: canned_def example_constants_def)
  show ?thesis
    by (intro conjI)
      (rule
        GetLastUninstallOperation_first GetLastCompletedUpdateOperation_first
        GetLastOperation_first GetLastFinishedOperation_first GetLastUpgradeOperation_first
        GetLastShrinkOperation_first GetLastUninstallOperation_reversed
        GetLastCompletedUpdateOperation_reversed GetLastOperation_reversed
        GetLastFinishedOperation_reversed GetLastUpgradeOperation_reversed
        GetLastShrinkOperation_reversed GetLastUninstallOperation_failing
        GetLastOperation_failing GetLastFinishedOperation_failing
        GetLastUninstallOperation_differs GetLastCompletedUpdateOperation_differs
        GetLastOperation_differs GetLastFinishedOperation_differs
        GetLastUpgradeOperation_differs GetLastShrinkOperation_differs)+
qed



section \<open>Properties of the operation state controller\<close>

text \<open>
  C7. If the \<open>FailOperation\<close> step of \<open>FailOperationAndResetCluster\<close> returns an
  error, that error is returned to the caller (wrapped by \<open>trace.Wrap\<close>) and
  \<open>ActivateSite\<close> is not invoked: the state is the one the failed step left, and the
  answer is the same whatever \<open>ActivateSite\<close> would have done. \<open>ActivateSite\<close> runs
  only after \<open>FailOperation\<close> has returned no error, on the state that step left, and
  its own error is returned wrapped: the two steps are not atomic.
\<close>

theorem FailOperationAndResetCluster_fail_step_error:
  "(FailOperation K now ctx key (SetOperationState operator) message s = (Some err, s1) \<longrightarrow>
      FailOperationAndResetCluster K now ctx key operator message s = (Some (Wrap err), s1)
      \<and> FailOperationAndResetCluster K now ctx key (operator\<lparr>ActivateSite := activate\<rparr>) message s =
          (Some (Wrap err), s1))
   \<and> (FailOperation K now ctx key (SetOperationState operator) message s = (None, s1) \<longrightarrow>
      FailOperationAndResetCluster K now ctx key operator message s =
        (case ActivateSite operator
                \<lparr>asr_AccountID = AccountID key, asr_SiteDomain = SiteDomain key\<rparr> s1 of
           (err, s2) \<Rightarrow> (trace_Wrap err, s2)))"
  by (intro conjI impI)
    (simp_all add: FailOperationAndResetCluster_def trace_Wrap_def split: prod.splits option.splits)

theorem FailOperationAndResetCluster_fail_step_error_witness:
  "FailOperationAndResetCluster example_constants example_time Background example_key
       (canned [] [] (Some (Err ''backend is down''))) ''disk full'' [] =
     (Some (Wrap (Err ''backend is down'')),
      [CallSetOperationState example_key
         \<lparr>State = ''failed'',
          Progress = Some
            \<lparr>pe_SiteDomain = ''example.com'', pe_OperationID = ''op-2'', Step = 9,
             Completion = 100, pe_State = ''failed'',
             Message = TrimSpace ''Operation failure: disk full'',
             Created = Time_UTC example_time\<rparr>\<rparr>])
   \<and> FailOperationAndResetCluster example_constants example_time Background example_key
       (canned [] [] None) ''disk full'' [] =
     (None,
      [CallSetOperationState example_key
         \<lparr>State = ''failed'',
          Progress = Some
            \<lparr>pe_SiteDomain = ''example.com'', pe_OperationID = ''op-2'', Step = 9,
             Completion = 100, pe_State = ''failed'',
             Message = TrimSpace ''Operation failure: disk full'',
             Created = Time_UTC example_time\<rparr>\<rparr>,
       CallActivateSite \<lparr>asr_AccountID = ''system'', asr_SiteDomain = ''example.com''\<rparr>])"
proof -
  note failing = FailOperationAndResetCluster_fail_step_error
    [where operator = "canned [] [] (Some (Err ''backend is down''))"
       and K = example_constants and now = example_time and ctx = Background
       and key = example_key and message = "''disk full''" and s = "[]"
       and err = "Err ''backend is down''", THEN conjunct1]
  note succeeding = FailOperationAndResetCluster_fail_step_error
    [where operator = "canned [] [] None"
       and K = example_constants and now = example_time and ctx = Background
       and key = example_key and message = "''disk full''" and s = "[]", THEN conjunct2]
  show ?thesis
    using failing succeeding
    by (simp add: canned_def example_constants_def FailOperation_def example_key_def
        trace_Wrap_def)
qed

text \<open>
  The terminal progress entry of a transition, as the claims describe it: the
  operation's domain and identifier, the fixed final step, the 100%-completion marker
  \<open>constants.Completed\<close>, a state, a message and the clock reading in UTC.
\<close>

definition terminal_entry ::
  "Constants \<Rightarrow> SiteOperationKey \<Rightarrow> string \<Rightarrow> string \<Rightarrow> Time \<Rightarrow> ProgressEntry" where
  "terminal_entry K key progress_state message t =
     \<lparr>pe_SiteDomain = SiteDomain key,
      pe_OperationID = OperationID key,
      Step = FinalStep K,
      Completion = Completed K,
      pe_State = progress_state,
      Message = message,
      Created = Time_UTC t\<rparr>"

lemma trim_runes_Nil: "trim_runes es [] = []"
  using space_width_le [of es "[]"] by (simp add: trim_runes.simps)

lemma prefix_straddle:
  assumes "a \<noteq> []" and "c \<notin> set (tl e)"
  shows "prefix e (a @ c # b) \<longleftrightarrow> prefix e a"
proof
  assume "prefix e (a @ c # b)"
  then consider "prefix e a" | us where "e = a @ us" and "prefix us (c # b)"
    by (auto simp: prefix_append)
  then show "prefix e a"
  proof cases
    case 1
    then show ?thesis .
  next
    case 2
    show ?thesis
    proof (cases us)
      case Nil
      with 2 show ?thesis by simp
    next
      case (Cons u us')
      with 2 have "u = c" by simp
      with 2 Cons assms(1) have "c \<in> set (tl e)" by (cases a) auto
      with assms(2) show ?thesis by simp
    qed
  qed
next
  assume "prefix e a"
  then show "prefix e (a @ c # b)" by (rule prefix_prefix)
qed

lemma space_width_straddle:
  assumes "a \<noteq> []" and "\<forall>e\<in>set es. c \<notin> set (tl e)"
  shows "space_width es (a @ c # b) = space_width es a"
  using assms(2) by (induction es) (simp_all add: prefix_straddle [OF assms(1)])

text \<open>
  Trimming \<open>a\<close> followed by a byte \<open>c\<close> that no encoding holds after its first byte:
  the trimming stays within \<open>a\<close>, and goes on behind it only when all of \<open>a\<close> is
  white space.
\<close>

lemma trim_runes_append:
  assumes "\<forall>e\<in>set es. c \<notin> set (tl e)"
  shows "trim_runes es (a @ c # b) =
           (if trim_runes es a = [] then trim_runes es (c # b) else trim_runes es a @ c # b)"
  using assms
proof (induction es a rule: trim_runes.induct)
  case (1 es a)
  show ?case
  proof (cases "a = []")
    case True
    then show ?thesis by (simp add: trim_runes_Nil)
  next
    case False
    define n where "n = space_width es a"
    have w: "space_width es (a @ c # b) = n"
      unfolding n_def using False "1.prems" by (rule space_width_straddle)
    show ?thesis
    proof (cases "n = 0")
      case True
      with w n_def False show ?thesis
        by (simp add: trim_runes.simps [of es a] trim_runes.simps [of es "a @ c # b"])
    next
      case nz: False
      have le: "n \<le> length a" unfolding n_def by (rule space_width_le)
      have "trim_runes es (a @ c # b) = trim_runes es (drop n a @ c # b)"
        using w nz le by (simp add: trim_runes.simps [of es "a @ c # b"])
      moreover have "trim_runes es a = trim_runes es (drop n a)"
        using nz n_def by (simp add: trim_runes.simps [of es a])
      moreover have "trim_runes es (drop n a @ c # b) =
          (if trim_runes es (drop n a) = [] then trim_runes es (c # b)
           else trim_runes es (drop n a) @ c # b)"
        using "1.IH" [OF n_def nz "1.prems"] .
      ultimately show ?thesis by simp
    qed
  qed
qed

lemma TrimLeft_prefix: "TrimLeft (''Operation failure: '' @ m) = ''Operation failure: '' @ m"
  by (simp add: TrimLeft_def white_space_def trim_runes.simps)

lemma TrimRight_prefix:
  "TrimRight (''Operation failure: '' @ m) =
     (if TrimRight m = [] then ''Operation failure:'' else ''Operation failure: '' @ TrimRight m)"
proof -
  have ns: "\<forall>e\<in>set (map rev white_space). CHR '' '' \<notin> set (tl e)"
    by (simp add: white_space_def)
  have p: "trim_runes (map rev white_space) ('' :eruliaf noitarepO'') = '':eruliaf noitarepO''"
    by (simp add: white_space_def trim_runes.simps)
  have "rev (''Operation failure: '' @ m) = rev m @ CHR '' '' # '':eruliaf noitarepO''"
    by simp
  then show ?thesis
    unfolding TrimRight_def
    by (simp only: trim_runes_append [OF ns] p) (simp split: if_splits)
qed

lemma TrimSpace_failure_message:
  "TrimSpace (''Operation failure: '' @ m) =
     (if TrimRight m = [] then ''Operation failure:'' else ''Operation failure: '' @ TrimRight m)"
  by (simp only: TrimSpace_def TrimLeft_prefix TrimRight_prefix)

lemma TrimSpace_default_message: "TrimSpace ''Operation failure'' = ''Operation failure''"
  by (simp add: TrimSpace_def TrimLeft_def TrimRight_def white_space_def trim_runes.simps)

lemma TrimRight_disk_full: "TrimRight ''disk full'' = ''disk full''"
  by (simp add: TrimRight_def white_space_def trim_runes.simps)

text \<open>\<open>UTC\<close> keeps the instant and sets the location.\<close>

lemma Time_UTC_instant: "Time_UTC t = \<lparr>nanos = nanos t, loc = UTC\<rparr>"
  by (cases t) (simp add: Time_UTC_def)

text \<open>
  C5. For every operation key, \<open>CompleteOperation\<close> makes one call of
  \<open>SetOperationState\<close>, with the state Completed and one terminal progress entry: the
  operation's domain and identifier, the fixed final step, the completion marker
  \<open>constants.Completed\<close>, the progress state Completed, the message
  "Operation has completed" and the clock reading, the same instant, in UTC whatever
  location the clock reading came in. Two calls make two such calls of
  \<open>SetOperationState\<close>, one after the other. On the store, the call returns no error,
  sets the operation's state to Completed and appends exactly that entry to the
  operation's progress, leaving every other operation alone; the appended entry is in
  UTC. A second call appends a second such entry: the transition is not idempotent.
\<close>

theorem CompleteOperation_appends_terminal_entry:
  "CompleteOperation K now ctx key operator s =
     operator ctx key
       \<lparr>State = OperationStateCompleted K,
        Progress = Some
          \<lparr>pe_SiteDomain = SiteDomain key, pe_OperationID = OperationID key,
           Step = FinalStep K, Completion = Completed K,
           pe_State = ProgressStateCompleted K, Message = ''Operation has completed'',
           Created = \<lparr>nanos = nanos now, loc = UTC\<rparr>\<rparr>\<rparr> s
   \<and> CompleteOperation K later ctx key operator (snd (CompleteOperation K now ctx key operator s)) =
     operator ctx key
       \<lparr>State = OperationStateCompleted K,
        Progress = Some
          \<lparr>pe_SiteDomain = SiteDomain key, pe_OperationID = OperationID key,
           Step = FinalStep K, Completion = Completed K,
           pe_State = ProgressStateCompleted K, Message = ''Operation has completed'',
           Created = \<lparr>nanos = nanos later, loc = UTC\<rparr>\<rparr>\<rparr>
       (snd (operator ctx key
          \<lparr>State = OperationStateCompleted K,
           Progress = Some
             \<lparr>pe_SiteDomain = SiteDomain key, pe_OperationID = OperationID key,
              Step = FinalStep K, Completion = Completed K,
              pe_State = ProgressStateCompleted K, Message = ''Operation has completed'',
              Created = \<lparr>nanos = nanos now, loc = UTC\<rparr>\<rparr>\<rparr> s))
   \<and> fst (CompleteOperation K now ctx key store_SetOperationState st) = None
   \<and> op_states (snd (CompleteOperation K now ctx key store_SetOperationState st)) =
       (op_states st)(key \<mapsto> OperationStateCompleted K)
   \<and> op_progress (snd (CompleteOperation K now ctx key store_SetOperationState st)) =
       (op_progress st)
         (key := op_progress st key @
            [\<lparr>pe_SiteDomain = SiteDomain key, pe_OperationID = OperationID key,
              Step = FinalStep K, Completion = Completed K,
              pe_State = ProgressStateCompleted K, Message = ''Operation has completed'',
              Created = \<lparr>nanos = nanos now, loc = UTC\<rparr>\<rparr>])
   \<and> loc (Created (last (op_progress (snd (CompleteOperation K now ctx key store_SetOperationState st)) key))) = UTC
   \<and> nanos (Created (last (op_progress (snd (CompleteOperation K now ctx key store_SetOperationState st)) key))) =
       nanos now
   \<and> op_states
        (snd (CompleteOperation K later ctx key store_SetOperationState
               (snd (CompleteOperation K now ctx key store_SetOperationState st)))) =
       (op_states st)(key \<mapsto> OperationStateCompleted K)
   \<and> op_progress
        (snd (CompleteOperation K later ctx key store_SetOperationState
               (snd (CompleteOperation K now ctx key store_SetOperationState st)))) =
       (op_progress st)
         (key := op_progress st key @
            [\<lparr>pe_SiteDomain = SiteDomain key, pe_OperationID = OperationID key,
              Step = FinalStep K, Completion = Completed K,
              pe_State = ProgressStateCompleted K, Message = ''Operation has completed'',
              Created = \<lparr>nanos = nanos now, loc = UTC\<rparr>\<rparr>,
             \<lparr>pe_SiteDomain = SiteDomain key, pe_OperationID = OperationID key,
              Step = FinalStep K, Completion = Completed K,
              pe_State = ProgressStateCompleted K, Message = ''Operation has completed'',
              Created = \<lparr>nanos = nanos later, loc = UTC\<rparr>\<rparr>])"
  by (simp add: CompleteOperation_def store_SetOperationState_def Time_UTC_instant)

text \<open>
  C6, as the claim states it, at the message "  disk full" (two leading spaces): the
  claim gives the entry the message "Operation failure: disk full", the prefix before
  the trimmed message. The code trims after it has put the prefix in front, so the
  leading spaces stay.
\<close>

theorem FailOperation_leading_space_counterexample:
  "Message (last (op_progress
       (snd (FailOperation example_constants example_time Background example_key
               store_SetOperationState ''  disk full'' empty_store)) example_key)) =
     ''Operation failure:   disk full''
   \<and> ''Operation failure: '' @ TrimSpace ''  disk full'' = ''Operation failure: disk full''
   \<and> Message (last (op_progress
       (snd (FailOperation example_constants example_time Background example_key
               store_SetOperationState ''  disk full'' empty_store)) example_key)) \<noteq>
     ''Operation failure: '' @ TrimSpace ''  disk full''"
  by (simp add: FailOperation_def store_SetOperationState_def empty_store_def
      TrimSpace_def TrimLeft_def TrimRight_def white_space_def trim_runes.simps)

text \<open>
  C6, amended. For every operation key and message \<open>m\<close>, \<open>FailOperation\<close> makes one
  call of \<open>SetOperationState\<close>, with the state Failed and one terminal progress entry
  whose message is "Operation failure" when \<open>m\<close> is empty, and otherwise
  "Operation failure: " followed by \<open>m\<close>, the whole trimmed of surrounding white space:
  the trailing white space of \<open>m\<close> goes, its leading white space stays behind the
  prefix, and an \<open>m\<close> of white space only leaves "Operation failure:". On the store the
  call sets the state to Failed and appends that entry. The message "disk full" gives
  exactly "Operation failure: disk full".
\<close>

theorem FailOperation_message:
  "FailOperation K now ctx key operator m s =
     operator ctx key
       \<lparr>State = OperationStateFailed K,
        Progress = Some (terminal_entry K key (ProgressStateFailed K)
          (if m = [] then ''Operation failure''
           else if TrimRight m = [] then ''Operation failure:''
           else ''Operation failure: '' @ TrimRight m) now)\<rparr> s
   \<and> op_states (snd (FailOperation K now ctx key store_SetOperationState m st)) =
       (op_states st)(key \<mapsto> OperationStateFailed K)
   \<and> op_progress (snd (FailOperation K now ctx key store_SetOperationState m st)) =
       (op_progress st)
         (key := op_progress st key @
            [terminal_entry K key (ProgressStateFailed K)
               (if m = [] then ''Operation failure'' else TrimSpace (''Operation failure: '' @ m))
               now])
   \<and> op_progress (snd (FailOperation K now ctx key store_SetOperationState ''disk full'' st)) key =
       op_progress st key @
         [terminal_entry K key (ProgressStateFailed K) ''Operation failure: disk full'' now]
   \<and> op_progress (snd (FailOperation K now ctx key store_SetOperationState [] st)) key =
       op_progress st key @
         [terminal_entry K key (ProgressStateFailed K) ''Operation failure'' now]"
proof -
  have call: "FailOperation K now ctx key setter m s' =
      setter ctx key
        \<lparr>State = OperationStateFailed K,
         Progress = Some (terminal_entry K key (ProgressStateFailed K)
           (if m = [] then ''Operation failure''
            else if TrimRight m = [] then ''Operation failure:''
            else ''Operation failure: '' @ TrimRight m) now)\<rparr> s'"
    for setter :: "'b OperationStateSetter" and m s'
    by (simp add: FailOperation_def terminal_entry_def TrimSpace_failure_message
        TrimSpace_default_message del: append.simps)
  have trimmed: "(if m = [] then ''Operation failure''
        else if TrimRight m = [] then ''Operation failure:''
        else ''Operation failure: '' @ TrimRight m) =
      (if m = [] then ''Operation failure'' else TrimSpace (''Operation failure: '' @ m))"
    by (simp add: TrimSpace_failure_message del: append.simps)
  show ?thesis
  proof (intro conjI)
    show "op_progress (snd (FailOperation K now ctx key store_SetOperationState ''disk full'' st)) key =
       op_progress st key @
         [terminal_entry K key (ProgressStateFailed K) ''Operation failure: disk full'' now]"
      by (simp add: call TrimRight_disk_full store_SetOperationState_def)
    show "op_progress (snd (FailOperation K now ctx key store_SetOperationState [] st)) key =
       op_progress st key @
         [terminal_entry K key (ProgressStateFailed K) ''Operation failure'' now]"
      by (simp add: call store_SetOperationState_def)
  qed (simp_all add: call trimmed store_SetOperationState_def del: append.simps)
qed

section \<open>Command executor (package server)\<close>

text \<open>
  The wire messages the executor sends: the tagged union \<open>pb.Message\<close> with the three
  elements the source builds. \<open>int32\<close> is a 32-bit word, read as two's complement by
  \<open>sint\<close>. \<open>pb.EncodeError\<close> is declared outside the files at hand: the encoded error
  is kept as the error it encodes.
\<close>

type_synonym int32 = "32 word"

datatype ExecOutput_FD = ExecOutput_STDOUT | ExecOutput_STDERR

datatype pb_Error = EncodeError error

datatype Message =
    ExecStarted "string list" int32 \<comment> \<open>\<open>Args\<close>, \<open>Seq\<close>\<close>
  | ExecOutput ExecOutput_FD string int32 \<comment> \<open>\<open>Fd\<close>, \<open>Data\<close>, \<open>Seq\<close>\<close>
  | ExecCompleted int32 int32 "pb_Error option" \<comment> \<open>\<open>Seq\<close>, \<open>ExitCode\<close>, \<open>Error\<close>\<close>

record CommandArgs =
  Args :: "string list"
  WorkingDir :: string

definition ExitCodeUndefined :: int where
  "ExitCodeUndefined = -1"

definition newCommandStartedEvent :: "int32 \<Rightarrow> string list \<Rightarrow> Message" where
  "newCommandStartedEvent seq args = ExecStarted args seq"

text \<open>The fields the literal leaves out keep Go's zero values: exit code 0, no error.\<close>

definition newCommandCompletedEvent :: "int32 \<Rightarrow> Message" where
  "newCommandCompletedEvent seq = ExecCompleted seq 0 None"

definition newCommandCompletedWithErrorEvent :: "int32 \<Rightarrow> int32 \<Rightarrow> error \<Rightarrow> Message" where
  "newCommandCompletedWithErrorEvent seq exitCode err =
     ExecCompleted seq exitCode (Some (EncodeError err))"

text \<open>
  \<open>pb.OutgoingMessageStream\<close> is an interface with the method \<open>Send\<close>: a function of
  the stream's state. What the executor can change is the stream and the log of the
  package: \<open>warnings\<close> holds the error and the message of every \<open>Warnf\<close>.
\<close>

type_synonym 'st OutgoingMessageStream = "Message \<Rightarrow> 'st \<Rightarrow> error option \<times> 'st"

record 'st world =
  stream_state :: 'st
  warnings :: "(error \<times> Message) list"

definition notifyAndLogError :: "'st OutgoingMessageStream \<Rightarrow> Message \<Rightarrow> 'st world \<Rightarrow> 'st world" where
  "notifyAndLogError stream msg w =
     (case stream msg (stream_state w) of
        (Some err, st) \<Rightarrow> w\<lparr>stream_state := st, warnings := warnings w @ [(err, msg)]\<rparr>
      | (None, st) \<Rightarrow> w\<lparr>stream_state := st\<rparr>)"

record 'st streamWriter =
  sw_stream :: "'st OutgoingMessageStream"
  sw_fd :: ExecOutput_FD
  sw_seq :: int32

text \<open>\<open>Write\<close> returns the number of bytes written and the error.\<close>

definition streamWriter_Write ::
  "'st streamWriter \<Rightarrow> string \<Rightarrow> 'st world \<Rightarrow> (nat \<times> error option) \<times> 'st world" where
  "streamWriter_Write sw p w =
     (case sw_stream sw (ExecOutput (sw_fd sw) p (sw_seq sw)) (stream_state w) of
        (Some err, st) \<Rightarrow> ((0, Some err), w\<lparr>stream_state := st\<rparr>)
      | (None, st) \<Rightarrow> ((length p, None), w\<lparr>stream_state := st\<rparr>))"

text \<open>
  The operating system and the library \<open>os/exec\<close> are the environment. A command, as
  \<open>exec.CommandContext\<close> returns it for a context, a name, arguments and a working
  directory, is given by the path it resolved, by what \<open>Start\<close> returns, and by what
  happens between \<open>Start\<close> and the return of \<open>Wait\<close>: a tree of the writes the
  library makes to \<open>cmd.Stdout\<close> and \<open>cmd.Stderr\<close>, each continued by what the writer
  returned, ending in the error \<open>Wait\<close> returns. The copying runs concurrently with the
  executor; the tree fixes one interleaving, in which the output is forwarded after the
  started event.
\<close>

datatype proc =
    Exited "error option"
  | Chunk ExecOutput_FD string "nat \<times> error option \<Rightarrow> proc"

record Cmd =
  Path :: string
  Start :: "error option"
  Running :: proc

type_synonym OS = "Context \<Rightarrow> string \<Rightarrow> string list \<Rightarrow> string \<Rightarrow> Cmd"

primrec Wait ::
  "proc \<Rightarrow> 'st streamWriter \<Rightarrow> 'st streamWriter \<Rightarrow> 'st world \<Rightarrow> error option \<times> 'st world" where
  "Wait (Exited err) Stdout Stderr w = (err, w)"
| "Wait (Chunk fd p continue) Stdout Stderr w =
     (case streamWriter_Write
             (case fd of ExecOutput_STDOUT \<Rightarrow> Stdout | ExecOutput_STDERR \<Rightarrow> Stderr) p w of
        (written, w1) \<Rightarrow> Wait (continue written) Stdout Stderr w1)"

record osCommand =
  seq_counter :: int32

text \<open>
  \<open>exec\<close> returns an error or nil, or panics when \<open>req.Args\<close> is empty
  (\<open>req.Args[0]\<close>). The counter is incremented first in every case. The logger
  parameter is unused in the source and left out.
\<close>

datatype 'a outcome = Panic | Return 'a

definition exec ::
  "osCommand \<Rightarrow> OS \<Rightarrow> Context \<Rightarrow> 'st OutgoingMessageStream \<Rightarrow> CommandArgs \<Rightarrow> 'st world \<Rightarrow>
     error option outcome \<times> osCommand \<times> 'st world" where
  "exec c os ctx stream req w =
     (let seq = seq_counter c + 1;
          c1 = c\<lparr>seq_counter := seq\<rparr>
      in case Args req of
           [] \<Rightarrow> (Panic, c1, w)
         | name # args \<Rightarrow>
             (let cmd = os ctx name args (WorkingDir req);
                  Stdout = \<lparr>sw_stream = stream, sw_fd = ExecOutput_STDOUT, sw_seq = seq\<rparr>;
                  Stderr = \<lparr>sw_stream = stream, sw_fd = ExecOutput_STDERR, sw_seq = seq\<rparr>
              in case Start cmd of
                   Some err \<Rightarrow>
                     (Return (Some (AddField (WrapMsg err ''failed to start'') ''path'' (Path cmd))),
                      c1, w)
                 | None \<Rightarrow>
                     (let w1 = notifyAndLogError stream (newCommandStartedEvent seq (Args req)) w
                      in case Wait (Running cmd) Stdout Stderr w1 of
                           (None, w2) \<Rightarrow>
                             (Return None, c1,
                              notifyAndLogError stream (newCommandCompletedEvent seq) w2)
                         | (Some err, w2) \<Rightarrow>
                             (let exitCode =
                                (case err of
                                   ExitError (WaitStatus status) \<Rightarrow> status
                                 | _ \<Rightarrow> ExitCodeUndefined)
                              in (Return (Some (Wrap err)), c1,
                                  notifyAndLogError stream
                                    (newCommandCompletedWithErrorEvent seq (word_of_int exitCode) err)
                                    w2)))))"

definition osExec ::
  "OS \<Rightarrow> Context \<Rightarrow> 'st OutgoingMessageStream \<Rightarrow> CommandArgs \<Rightarrow> 'st world \<Rightarrow>
     error option outcome \<times> 'st world" where
  "osExec os ctx stream req w =
     (case exec \<lparr>seq_counter = 0\<rparr> os ctx stream req w of
        (Panic, c, w1) \<Rightarrow> (Panic, w1)
      | (Return err, c, w1) \<Rightarrow> (Return (trace_Wrap err), w1))"

text \<open>
  Stand-ins for evaluation. A stream that keeps what it delivered and fails where a
  script says so: the script sees the number of the attempt and the message. A process
  that writes one chunk to standard output and exits cleanly, so that \<open>Wait\<close> returns
  the error of the copying, if any, as \<open>os/exec\<close> does. A system where only
  \<open>/bin/echo\<close> can be started.
\<close>

record stream_log =
  attempts :: nat
  delivered :: "Message list"

definition scripted_stream ::
  "(nat \<Rightarrow> Message \<Rightarrow> error option) \<Rightarrow> stream_log OutgoingMessageStream" where
  "scripted_stream fails msg st =
     (case fails (attempts st) msg of
        None \<Rightarrow> (None, \<lparr>attempts = Suc (attempts st), delivered = delivered st @ [msg]\<rparr>)
      | Some err \<Rightarrow> (Some err, st\<lparr>attempts := Suc (attempts st)\<rparr>))"

definition fresh_world :: "stream_log world" where
  "fresh_world = \<lparr>stream_state = \<lparr>attempts = 0, delivered = []\<rparr>, warnings = []\<rparr>"

definition never_fails :: "nat \<Rightarrow> Message \<Rightarrow> error option" where
  "never_fails n msg = None"

definition always_fails :: "nat \<Rightarrow> Message \<Rightarrow> error option" where
  "always_fails n msg = Some (Err ''transport is closing'')"


definition echo_process :: proc where
  "echo_process = Chunk ExecOutput_STDOUT ''hi'' (\<lambda>(n, err). Exited err)"

definition example_os :: OS where
  "example_os ctx name args dir =
     (if name = ''/bin/echo''
      then \<lparr>Path = name, Start = None, Running = echo_process\<rparr>
      else \<lparr>Path = name,
            Start = Some (Err ''fork/exec: no such file or directory''),
            Running = Exited None\<rparr>)"

section \<open>Properties of the command executor\<close>

definition is_completed :: "Message \<Rightarrow> bool" where
  "is_completed msg = (case msg of ExecCompleted seq code err \<Rightarrow> True | _ \<Rightarrow> False)"



text \<open>
  C1, as the claim states it, at a request for an executable that does not exist, on a
  stream that delivers everything: the claim has the executor emit a completed event
  with the sequence number, the undefined exit code and a start-failure error. The
  executor returns the start-failure error to its caller and sends nothing: no message
  was delivered, none was attempted, and no completed event is among the delivered ones.
\<close>

theorem exec_start_failure_counterexample:
  "exec \<lparr>seq_counter = 6\<rparr> example_os Background (scripted_stream never_fails)
       \<lparr>Args = [''/bin/no-such-binary''], WorkingDir = ''/tmp''\<rparr> fresh_world =
     (Return (Some (AddField
        (WrapMsg (Err ''fork/exec: no such file or directory'') ''failed to start'')
        ''path'' ''/bin/no-such-binary'')),
      \<lparr>seq_counter = 7\<rparr>,
      \<lparr>stream_state = \<lparr>attempts = 0, delivered = []\<rparr>, warnings = []\<rparr>)
   \<and> \<not> list_ex is_completed
         (delivered (stream_state (snd (snd
            (exec \<lparr>seq_counter = 6\<rparr> example_os Background (scripted_stream never_fails)
               \<lparr>Args = [''/bin/no-such-binary''], WorkingDir = ''/tmp''\<rparr> fresh_world)))))"
  by (simp add: exec_def example_os_def fresh_world_def)

text \<open>
  C1, amended. For every command execution request whose process could not be launched
  (\<open>Start\<close> returns an error), the executor takes the next sequence number, sends no
  event at all (neither started nor completed) and logs nothing, and returns to its
  caller the error of \<open>Start\<close> wrapped with the message "failed to start" and the field
  "path" set to the command's path.
\<close>

theorem exec_start_failure:
  "Args req = name # args \<and> Start (os ctx name args (WorkingDir req)) = Some err \<longrightarrow>
     exec c os ctx stream req w =
       (Return (Some (AddField (WrapMsg err ''failed to start'') ''path''
                        (Path (os ctx name args (WorkingDir req))))),
        c\<lparr>seq_counter := seq_counter c + 1\<rparr>,
        w)"
  by (simp add: exec_def Let_def)

theorem exec_start_failure_witness:
  "exec \<lparr>seq_counter = 6\<rparr> example_os Background (scripted_stream always_fails)
       \<lparr>Args = [''/bin/no-such-binary'', ''-v''], WorkingDir = ''/tmp''\<rparr> fresh_world =
     (Return (Some (AddField
        (WrapMsg (Err ''fork/exec: no such file or directory'') ''failed to start'')
        ''path'' ''/bin/no-such-binary'')),
      \<lparr>seq_counter = 7\<rparr>,
      fresh_world)"
  using exec_start_failure
    [of "\<lparr>Args = [''/bin/no-such-binary'', ''-v''], WorkingDir = ''/tmp''\<rparr>"
        "''/bin/no-such-binary''" "[''-v'']" example_os Background
        "Err ''fork/exec: no such file or directory''" "\<lparr>seq_counter = 6\<rparr>"
        "scripted_stream always_fails" fresh_world]
  by (simp add: example_os_def)












section \<open>Discovery client (package client)\<close>

text \<open>
  The four single-shot calls of the client. The stub \<open>c.discovery\<close> is the generated
  gRPC client: each of its methods answers a context with an error or a response.
  \<open>storage.UnmarshalSystemInfo\<close> and \<open>types.TimestampFromProto\<close> are declared outside
  the files at hand and are parameters. The payload types are opaque.
\<close>

datatype opaque = Opaque string

type_synonym System = opaque
type_synonym RuntimeConfig = opaque
type_synonym Version = opaque

record SystemInfo =
  Payload :: string

record Timestamp =
  Seconds :: int
  Nanos :: int

record DiscoveryClient =
  disc_GetSystemInfo :: "Context \<Rightarrow> error + SystemInfo"
  disc_GetRuntimeConfig :: "Context \<Rightarrow> error + RuntimeConfig"
  disc_GetCurrentTime :: "Context \<Rightarrow> error + Timestamp"
  disc_GetVersion :: "Context \<Rightarrow> error + Version"

record Client =
  discovery :: DiscoveryClient

definition GetSystemInfo ::
  "(string \<Rightarrow> error + System) \<Rightarrow> Client \<Rightarrow> Context \<Rightarrow> error + System" where
  "GetSystemInfo UnmarshalSystemInfo c ctx =
     (case disc_GetSystemInfo (discovery c) ctx of
        Inl err \<Rightarrow> Inl (Wrap err)
      | Inr resp \<Rightarrow>
          (case UnmarshalSystemInfo (Payload resp) of
             Inl err \<Rightarrow> Inl (Wrap err)
           | Inr system \<Rightarrow> Inr system))"

definition GetRuntimeConfig :: "Client \<Rightarrow> Context \<Rightarrow> error + RuntimeConfig" where
  "GetRuntimeConfig c ctx =
     (case disc_GetRuntimeConfig (discovery c) ctx of
        Inl err \<Rightarrow> Inl (Wrap err)
      | Inr config \<Rightarrow> Inr config)"

definition GetCurrentTime ::
  "(Timestamp \<Rightarrow> error + Time) \<Rightarrow> Client \<Rightarrow> Context \<Rightarrow> error + Time" where
  "GetCurrentTime TimestampFromProto c ctx =
     (case disc_GetCurrentTime (discovery c) ctx of
        Inl err \<Rightarrow> Inl (Wrap err)
      | Inr proto \<Rightarrow>
          (case TimestampFromProto proto of
             Inl err \<Rightarrow> Inl (Wrap err)
           | Inr ts \<Rightarrow> Inr ts))"

definition GetVersion :: "Client \<Rightarrow> Context \<Rightarrow> error + Version" where
  "GetVersion c ctx =
     (case disc_GetVersion (discovery c) ctx of
        Inl err \<Rightarrow> Inl (FromGRPC err)
      | Inr version \<Rightarrow> Inr version)"

text \<open>Stand-ins for evaluation: an agent that cannot be reached, one that answers, and
  decoders that accept or reject everything.\<close>

definition unreachable_agent :: Client where
  "unreachable_agent =
     \<lparr>discovery =
        \<lparr>disc_GetSystemInfo = (\<lambda>ctx. Inl (Err ''code = Unavailable desc = connection refused'')),
         disc_GetRuntimeConfig = (\<lambda>ctx. Inl (Err ''code = Unavailable desc = connection refused'')),
         disc_GetCurrentTime = (\<lambda>ctx. Inl (Err ''code = Unavailable desc = connection refused'')),
         disc_GetVersion = (\<lambda>ctx. Inl (Err ''code = Unavailable desc = connection refused''))\<rparr>\<rparr>"

definition answering_agent :: Client where
  "answering_agent =
     \<lparr>discovery =
        \<lparr>disc_GetSystemInfo = (\<lambda>ctx. Inr \<lparr>Payload = ''{}''\<rparr>),
         disc_GetRuntimeConfig = (\<lambda>ctx. Inr (Opaque ''config'')),
         disc_GetCurrentTime = (\<lambda>ctx. Inr \<lparr>Seconds = 1600000000, Nanos = 0\<rparr>),
         disc_GetVersion = (\<lambda>ctx. Inr (Opaque ''7.0.0''))\<rparr>\<rparr>"

definition rejecting_unmarshal :: "string \<Rightarrow> error + System" where
  "rejecting_unmarshal payload = Inl (Err ''unexpected end of JSON input'')"

definition rejecting_timestamp :: "Timestamp \<Rightarrow> error + Time" where
  "rejecting_timestamp proto = Inl (Err ''timestamp: out of range'')"

section \<open>Enterprise ACL operator (package acl)\<close>

text \<open>
  \<open>OperatorACL\<close> wraps the open-source ACL operator, whose checks \<open>ClusterAction\<close>,
  \<open>Action\<close> and \<open>AuthConnectorActions\<close> it inherits by embedding, and holds the
  enterprise operator service it delegates to. The embedded checks and the service are
  collaborators: functions of a state, as for the operator interface above. The kinds,
  verbs and labels are named constants of other packages and are parameters. Request,
  response and resource types are given by the fields the source reads, or are opaque.
\<close>

record ACLConstants =
  KindCluster :: string
  KindLicense :: string
  KindRole :: string
  KindOIDCConnector :: string
  KindSAMLConnector :: string
  VerbCreate :: string
  VerbRead :: string
  VerbUpdate :: string
  VerbDelete :: string
  VerbList :: string
  VerbRegister :: string
  SystemLabel :: string
  constants_True :: string

record RegisterAgentRequest =
  rar_ClusterName :: string

record DownloadUpdateRequest =
  dur_SiteDomain :: string

record EnablePeriodicUpdatesRequest =
  epur_SiteDomain :: string

record DeleteTrustedClusterRequest =
  dtcr_ClusterName :: string

record UpdateLicenseRequest =
  ulr_SiteDomain :: string

text \<open>A role, by the labels of its metadata: \<open>role.GetMetadata().Labels\<close>, a Go map.\<close>

record Role =
  role_Labels :: "string \<Rightarrow> string option"

type_synonym RegisterAgentResponse = opaque
type_synonym ClusterCopyRequest = opaque
type_synonym Endpoints = opaque
type_synonym Locator = opaque
type_synonym PeriodicUpdatesStatusResponse = opaque
type_synonym TrustedCluster = opaque
type_synonym AcceptRemoteClusterRequest = opaque
type_synonym AcceptRemoteClusterResponse = opaque
type_synonym RemoveRemoteClusterRequest = opaque
type_synonym NewLicenseRequest = opaque
type_synonym OIDCConnector = opaque
type_synonym SAMLConnector = opaque

text \<open>The methods of the enterprise operator service that the wrapper calls.\<close>

record 's EnterpriseOperator =
  op_RegisterAgent ::
    "RegisterAgentRequest \<Rightarrow> 's \<Rightarrow> (error + RegisterAgentResponse) \<times> 's"
  op_RequestClusterCopy ::
    "ClusterCopyRequest \<Rightarrow> 's \<Rightarrow> error option \<times> 's"
  op_GetClusterEndpoints ::
    "SiteKey \<Rightarrow> 's \<Rightarrow> (error + Endpoints) \<times> 's"
  op_UpdateClusterEndpoints ::
    "Context \<Rightarrow> SiteKey \<Rightarrow> Endpoints \<Rightarrow> 's \<Rightarrow> error option \<times> 's"
  op_CheckForUpdate ::
    "SiteKey \<Rightarrow> 's \<Rightarrow> (error + Locator) \<times> 's"
  op_DownloadUpdate ::
    "Context \<Rightarrow> DownloadUpdateRequest \<Rightarrow> 's \<Rightarrow> error option \<times> 's"
  op_EnablePeriodicUpdates ::
    "Context \<Rightarrow> EnablePeriodicUpdatesRequest \<Rightarrow> 's \<Rightarrow> error option \<times> 's"
  op_DisablePeriodicUpdates ::
    "Context \<Rightarrow> SiteKey \<Rightarrow> 's \<Rightarrow> error option \<times> 's"
  op_StartPeriodicUpdates ::
    "SiteKey \<Rightarrow> 's \<Rightarrow> error option \<times> 's"
  op_StopPeriodicUpdates ::
    "SiteKey \<Rightarrow> 's \<Rightarrow> error option \<times> 's"
  op_PeriodicUpdatesStatus ::
    "SiteKey \<Rightarrow> 's \<Rightarrow> (error + PeriodicUpdatesStatusResponse) \<times> 's"
  op_UpsertTrustedCluster ::
    "Context \<Rightarrow> SiteKey \<Rightarrow> TrustedCluster \<Rightarrow> 's \<Rightarrow> error option \<times> 's"
  op_DeleteTrustedCluster ::
    "Context \<Rightarrow> DeleteTrustedClusterRequest \<Rightarrow> 's \<Rightarrow> error option \<times> 's"
  op_GetTrustedClusters ::
    "SiteKey \<Rightarrow> 's \<Rightarrow> (error + TrustedCluster list) \<times> 's"
  op_GetTrustedCluster ::
    "SiteKey \<Rightarrow> string \<Rightarrow> 's \<Rightarrow> (error + TrustedCluster) \<times> 's"
  op_AcceptRemoteCluster ::
    "AcceptRemoteClusterRequest \<Rightarrow> 's \<Rightarrow> (error + AcceptRemoteClusterResponse) \<times> 's"
  op_RemoveRemoteCluster ::
    "RemoveRemoteClusterRequest \<Rightarrow> 's \<Rightarrow> error option \<times> 's"
  op_NewLicense ::
    "Context \<Rightarrow> NewLicenseRequest \<Rightarrow> 's \<Rightarrow> (error + string) \<times> 's"
  op_CheckSiteLicense ::
    "Context \<Rightarrow> SiteKey \<Rightarrow> 's \<Rightarrow> error option \<times> 's"
  op_UpdateLicense ::
    "Context \<Rightarrow> UpdateLicenseRequest \<Rightarrow> 's \<Rightarrow> error option \<times> 's"
  op_GetLicenseCA ::
    "'s \<Rightarrow> (error + string) \<times> 's"
  op_UpsertRole ::
    "Context \<Rightarrow> SiteKey \<Rightarrow> Role \<Rightarrow> 's \<Rightarrow> error option \<times> 's"
  op_GetRole ::
    "SiteKey \<Rightarrow> string \<Rightarrow> 's \<Rightarrow> (error + Role) \<times> 's"
  op_GetRoles ::
    "SiteKey \<Rightarrow> 's \<Rightarrow> (error + Role list) \<times> 's"
  op_DeleteRole ::
    "Context \<Rightarrow> SiteKey \<Rightarrow> string \<Rightarrow> 's \<Rightarrow> error option \<times> 's"
  op_UpsertOIDCConnector ::
    "Context \<Rightarrow> SiteKey \<Rightarrow> OIDCConnector \<Rightarrow> 's \<Rightarrow> error option \<times> 's"
  op_GetOIDCConnector ::
    "SiteKey \<Rightarrow> string \<Rightarrow> bool \<Rightarrow> 's \<Rightarrow> (error + OIDCConnector) \<times> 's"
  op_GetOIDCConnectors ::
    "SiteKey \<Rightarrow> bool \<Rightarrow> 's \<Rightarrow> (error + OIDCConnector list) \<times> 's"
  op_DeleteOIDCConnector ::
    "Context \<Rightarrow> SiteKey \<Rightarrow> string \<Rightarrow> 's \<Rightarrow> error option \<times> 's"
  op_UpsertSAMLConnector ::
    "Context \<Rightarrow> SiteKey \<Rightarrow> SAMLConnector \<Rightarrow> 's \<Rightarrow> error option \<times> 's"
  op_GetSAMLConnector ::
    "SiteKey \<Rightarrow> string \<Rightarrow> bool \<Rightarrow> 's \<Rightarrow> (error + SAMLConnector) \<times> 's"
  op_GetSAMLConnectors ::
    "SiteKey \<Rightarrow> bool \<Rightarrow> 's \<Rightarrow> (error + SAMLConnector list) \<times> 's"
  op_DeleteSAMLConnector ::
    "Context \<Rightarrow> SiteKey \<Rightarrow> string \<Rightarrow> 's \<Rightarrow> error option \<times> 's"

record 's OperatorACL =
  ClusterAction :: "string \<Rightarrow> string \<Rightarrow> string \<Rightarrow> 's \<Rightarrow> error option \<times> 's"
  Action :: "string \<Rightarrow> string \<Rightarrow> 's \<Rightarrow> error option \<times> 's"
  AuthConnectorActions :: "string \<Rightarrow> string list \<Rightarrow> 's \<Rightarrow> error option \<times> 's"
  operator :: "'s EnterpriseOperator"

text \<open>\<open>roleActions\<close> checks the actions in turn and stops at the first that is denied.\<close>

fun roleActions ::
  "ACLConstants \<Rightarrow> 's OperatorACL \<Rightarrow> string list \<Rightarrow> 's \<Rightarrow> error option \<times> 's" where
  "roleActions A acl [] s = (None, s)"
| "roleActions A acl (action # actions) s =
     (case Action acl (KindRole A) action s of
        (Some err, s1) \<Rightarrow> (Some (Wrap err), s1)
      | (None, s1) \<Rightarrow> roleActions A acl actions s1)"

text \<open>
  The methods of the wrapper, in the order of the source. A method with a second check
  runs it only when the first check was denied, and fails only when both are denied.
  A lookup of a missing key in a Go map gives the empty string.
\<close>

definition RegisterAgent ::
  "ACLConstants \<Rightarrow> 's OperatorACL \<Rightarrow> RegisterAgentRequest \<Rightarrow> 's \<Rightarrow> (error + RegisterAgentResponse) \<times> 's" where
  "RegisterAgent A acl req s =
     (case ClusterAction acl (rar_ClusterName req) (KindCluster A) (VerbUpdate A) s of
        (Some err, s1) \<Rightarrow> (Inl (Wrap err), s1)
      | (None, s1) \<Rightarrow> op_RegisterAgent (operator acl) req s1)"

definition RequestClusterCopy ::
  "ACLConstants \<Rightarrow> 's OperatorACL \<Rightarrow> ClusterCopyRequest \<Rightarrow> 's \<Rightarrow> error option \<times> 's" where
  "RequestClusterCopy A acl req s =
     (case Action acl (KindCluster A) (VerbCreate A) s of
        (Some err, s1) \<Rightarrow> (Some (Wrap err), s1)
      | (None, s1) \<Rightarrow> op_RequestClusterCopy (operator acl) req s1)"

definition GetClusterEndpoints ::
  "ACLConstants \<Rightarrow> 's OperatorACL \<Rightarrow> SiteKey \<Rightarrow> 's \<Rightarrow> (error + Endpoints) \<times> 's" where
  "GetClusterEndpoints A acl key s =
     (case ClusterAction acl (sk_SiteDomain key) (KindCluster A) (VerbRead A) s of
        (Some err, s1) \<Rightarrow> (Inl (Wrap err), s1)
      | (None, s1) \<Rightarrow> op_GetClusterEndpoints (operator acl) key s1)"

definition UpdateClusterEndpoints ::
  "ACLConstants \<Rightarrow> 's OperatorACL \<Rightarrow> Context \<Rightarrow> SiteKey \<Rightarrow> Endpoints \<Rightarrow> 's \<Rightarrow> error option \<times> 's" where
  "UpdateClusterEndpoints A acl ctx key endpoints s =
     (case ClusterAction acl (sk_SiteDomain key) (KindCluster A) (VerbUpdate A) s of
        (Some err, s1) \<Rightarrow> (Some (Wrap err), s1)
      | (None, s1) \<Rightarrow> op_UpdateClusterEndpoints (operator acl) ctx key endpoints s1)"

definition CheckForUpdate ::
  "ACLConstants \<Rightarrow> 's OperatorACL \<Rightarrow> SiteKey \<Rightarrow> 's \<Rightarrow> (error + Locator) \<times> 's" where
  "CheckForUpdate A acl key s =
     (case ClusterAction acl (sk_SiteDomain key) (KindCluster A) (VerbRead A) s of
        (Some err, s1) \<Rightarrow> (Inl (Wrap err), s1)
      | (None, s1) \<Rightarrow> op_CheckForUpdate (operator acl) key s1)"

definition DownloadUpdate ::
  "ACLConstants \<Rightarrow> 's OperatorACL \<Rightarrow> Context \<Rightarrow> DownloadUpdateRequest \<Rightarrow> 's \<Rightarrow> error option \<times> 's" where
  "DownloadUpdate A acl ctx req s =
     (case ClusterAction acl (dur_SiteDomain req) (KindCluster A) (VerbUpdate A) s of
        (Some err, s1) \<Rightarrow> (Some (Wrap err), s1)
      | (None, s1) \<Rightarrow> op_DownloadUpdate (operator acl) ctx req s1)"

definition EnablePeriodicUpdates ::
  "ACLConstants \<Rightarrow> 's OperatorACL \<Rightarrow> Context \<Rightarrow> EnablePeriodicUpdatesRequest \<Rightarrow> 's \<Rightarrow> error option \<times> 's" where
  "EnablePeriodicUpdates A acl ctx req s =
     (case ClusterAction acl (epur_SiteDomain req) (KindCluster A) (VerbUpdate A) s of
        (Some err, s1) \<Rightarrow> (Some (Wrap err), s1)
      | (None, s1) \<Rightarrow> op_EnablePeriodicUpdates (operator acl) ctx req s1)"

definition DisablePeriodicUpdates ::
  "ACLConstants \<Rightarrow> 's OperatorACL \<Rightarrow> Context \<Rightarrow> SiteKey \<Rightarrow> 's \<Rightarrow> error option \<times> 's" where
  "DisablePeriodicUpdates A acl ctx key s =
     (case ClusterAction acl (sk_SiteDomain key) (KindCluster A) (VerbUpdate A) s of
        (Some err, s1) \<Rightarrow> (Some (Wrap err), s1)
      | (None, s1) \<Rightarrow> op_DisablePeriodicUpdates (operator acl) ctx key s1)"

definition StartPeriodicUpdates ::
  "ACLConstants \<Rightarrow> 's OperatorACL \<Rightarrow> SiteKey \<Rightarrow> 's \<Rightarrow> error option \<times> 's" where
  "StartPeriodicUpdates A acl key s =
     (case ClusterAction acl (sk_SiteDomain key) (KindCluster A) (VerbUpdate A) s of
        (Some err, s1) \<Rightarrow> (Some (Wrap err), s1)
      | (None, s1) \<Rightarrow> op_StartPeriodicUpdates (operator acl) key s1)"

definition StopPeriodicUpdates ::
  "ACLConstants \<Rightarrow> 's OperatorACL \<Rightarrow> SiteKey \<Rightarrow> 's \<Rightarrow> error option \<times> 's" where
  "StopPeriodicUpdates A acl key s =
     (case ClusterAction acl (sk_SiteDomain key) (KindCluster A) (VerbUpdate A) s of
        (Some err, s1) \<Rightarrow> (Some (Wrap err), s1)
      | (None, s1) \<Rightarrow> op_StopPeriodicUpdates (operator acl) key s1)"

definition PeriodicUpdatesStatus ::
  "ACLConstants \<Rightarrow> 's OperatorACL \<Rightarrow> SiteKey \<Rightarrow> 's \<Rightarrow> (error + PeriodicUpdatesStatusResponse) \<times> 's" where
  "PeriodicUpdatesStatus A acl key s =
     (case ClusterAction acl (sk_SiteDomain key) (KindCluster A) (VerbRead A) s of
        (Some err, s1) \<Rightarrow> (Inl (Wrap err), s1)
      | (None, s1) \<Rightarrow> op_PeriodicUpdatesStatus (operator acl) key s1)"

definition UpsertTrustedCluster ::
  "ACLConstants \<Rightarrow> 's OperatorACL \<Rightarrow> Context \<Rightarrow> SiteKey \<Rightarrow> TrustedCluster \<Rightarrow> 's \<Rightarrow> error option \<times> 's" where
  "UpsertTrustedCluster A acl ctx key cluster s =
     (case ClusterAction acl (sk_SiteDomain key) (KindCluster A) (VerbUpdate A) s of
        (Some err, s1) \<Rightarrow> (Some (Wrap err), s1)
      | (None, s1) \<Rightarrow> op_UpsertTrustedCluster (operator acl) ctx key cluster s1)"

definition DeleteTrustedCluster ::
  "ACLConstants \<Rightarrow> 's OperatorACL \<Rightarrow> Context \<Rightarrow> DeleteTrustedClusterRequest \<Rightarrow> 's \<Rightarrow> error option \<times> 's" where
  "DeleteTrustedCluster A acl ctx req s =
     (case ClusterAction acl (dtcr_ClusterName req) (KindCluster A) (VerbUpdate A) s of
        (Some err, s1) \<Rightarrow> (Some (Wrap err), s1)
      | (None, s1) \<Rightarrow> op_DeleteTrustedCluster (operator acl) ctx req s1)"

definition GetTrustedClusters ::
  "ACLConstants \<Rightarrow> 's OperatorACL \<Rightarrow> SiteKey \<Rightarrow> 's \<Rightarrow> (error + TrustedCluster list) \<times> 's" where
  "GetTrustedClusters A acl key s =
     (case ClusterAction acl (sk_SiteDomain key) (KindCluster A) (VerbRead A) s of
        (Some err, s1) \<Rightarrow> (Inl (Wrap err), s1)
      | (None, s1) \<Rightarrow> op_GetTrustedClusters (operator acl) key s1)"

definition GetTrustedCluster ::
  "ACLConstants \<Rightarrow> 's OperatorACL \<Rightarrow> SiteKey \<Rightarrow> string \<Rightarrow> 's \<Rightarrow> (error + TrustedCluster) \<times> 's" where
  "GetTrustedCluster A acl key name s =
     (case ClusterAction acl (sk_SiteDomain key) (KindCluster A) (VerbRead A) s of
        (Some err, s1) \<Rightarrow> (Inl (Wrap err), s1)
      | (None, s1) \<Rightarrow> op_GetTrustedCluster (operator acl) key name s1)"

definition AcceptRemoteCluster ::
  "ACLConstants \<Rightarrow> 's OperatorACL \<Rightarrow> AcceptRemoteClusterRequest \<Rightarrow> 's \<Rightarrow> (error + AcceptRemoteClusterResponse) \<times> 's" where
  "AcceptRemoteCluster A acl req s =
     (case Action acl (KindCluster A) (VerbRegister A) s of
        (Some err, s1) \<Rightarrow> (Inl (Wrap err), s1)
      | (None, s1) \<Rightarrow> op_AcceptRemoteCluster (operator acl) req s1)"

definition RemoveRemoteCluster ::
  "ACLConstants \<Rightarrow> 's OperatorACL \<Rightarrow> RemoveRemoteClusterRequest \<Rightarrow> 's \<Rightarrow> error option \<times> 's" where
  "RemoveRemoteCluster A acl req s =
     (case Action acl (KindCluster A) (VerbRegister A) s of
        (Some err, s1) \<Rightarrow> (Some (Wrap err), s1)
      | (None, s1) \<Rightarrow> op_RemoveRemoteCluster (operator acl) req s1)"

definition NewLicense ::
  "ACLConstants \<Rightarrow> 's OperatorACL \<Rightarrow> Context \<Rightarrow> NewLicenseRequest \<Rightarrow> 's \<Rightarrow> (error + string) \<times> 's" where
  "NewLicense A acl ctx req s =
     (case Action acl (KindLicense A) (VerbCreate A) s of
        (Some err, s1) \<Rightarrow> (Inl (Wrap err), s1)
      | (None, s1) \<Rightarrow> op_NewLicense (operator acl) ctx req s1)"

definition CheckSiteLicense ::
  "ACLConstants \<Rightarrow> 's OperatorACL \<Rightarrow> Context \<Rightarrow> SiteKey \<Rightarrow> 's \<Rightarrow> error option \<times> 's" where
  "CheckSiteLicense A acl ctx key s =
     (case ClusterAction acl (sk_SiteDomain key) (KindCluster A) (VerbUpdate A) s of
        (Some err, s1) \<Rightarrow> (Some (Wrap err), s1)
      | (None, s1) \<Rightarrow> op_CheckSiteLicense (operator acl) ctx key s1)"

definition UpdateLicense ::
  "ACLConstants \<Rightarrow> 's OperatorACL \<Rightarrow> Context \<Rightarrow> UpdateLicenseRequest \<Rightarrow> 's \<Rightarrow> error option \<times> 's" where
  "UpdateLicense A acl ctx req s =
     (case ClusterAction acl (ulr_SiteDomain req) (KindCluster A) (VerbUpdate A) s of
        (Some err, s1) \<Rightarrow> (Some (Wrap err), s1)
      | (None, s1) \<Rightarrow> op_UpdateLicense (operator acl) ctx req s1)"

definition GetLicenseCA :: "'s OperatorACL \<Rightarrow> 's \<Rightarrow> (error + string) \<times> 's" where
  "GetLicenseCA acl s = op_GetLicenseCA (operator acl) s"

definition UpsertRole ::
  "ACLConstants \<Rightarrow> 's OperatorACL \<Rightarrow> Context \<Rightarrow> SiteKey \<Rightarrow> Role \<Rightarrow> 's \<Rightarrow> error option \<times> 's" where
  "UpsertRole A acl ctx key role s =
     (case (case ClusterAction acl (sk_SiteDomain key) (KindCluster A) (VerbUpdate A) s of
              (Some err, s1) \<Rightarrow> roleActions A acl [VerbCreate A, VerbUpdate A] s1
            | (None, s1) \<Rightarrow> (None, s1)) of
        (Some err, s2) \<Rightarrow> (Some (Wrap err), s2)
      | (None, s2) \<Rightarrow>
          if (case role_Labels role (SystemLabel A) of None \<Rightarrow> [] | Some v \<Rightarrow> v) = constants_True A
            then (Some (AccessDenied ''system roles can't be created''), s2)
            else op_UpsertRole (operator acl) ctx key role s2)"

definition GetRole ::
  "ACLConstants \<Rightarrow> 's OperatorACL \<Rightarrow> SiteKey \<Rightarrow> string \<Rightarrow> 's \<Rightarrow> (error + Role) \<times> 's" where
  "GetRole A acl key name s =
     (case (case ClusterAction acl (sk_SiteDomain key) (KindCluster A) (VerbRead A) s of
              (Some err, s1) \<Rightarrow> roleActions A acl [VerbRead A] s1
            | (None, s1) \<Rightarrow> (None, s1)) of
        (Some err, s2) \<Rightarrow> (Inl (Wrap err), s2)
      | (None, s2) \<Rightarrow>
          op_GetRole (operator acl) key name s2)"

definition GetRoles ::
  "ACLConstants \<Rightarrow> 's OperatorACL \<Rightarrow> SiteKey \<Rightarrow> 's \<Rightarrow> (error + Role list) \<times> 's" where
  "GetRoles A acl key s =
     (case (case ClusterAction acl (sk_SiteDomain key) (KindCluster A) (VerbRead A) s of
              (Some err, s1) \<Rightarrow> roleActions A acl [VerbList A, VerbRead A] s1
            | (None, s1) \<Rightarrow> (None, s1)) of
        (Some err, s2) \<Rightarrow> (Inl (Wrap err), s2)
      | (None, s2) \<Rightarrow>
          op_GetRoles (operator acl) key s2)"

definition DeleteRole ::
  "ACLConstants \<Rightarrow> 's OperatorACL \<Rightarrow> Context \<Rightarrow> SiteKey \<Rightarrow> string \<Rightarrow> 's \<Rightarrow> error option \<times> 's" where
  "DeleteRole A acl ctx key name s =
     (case (case ClusterAction acl (sk_SiteDomain key) (KindCluster A) (VerbUpdate A) s of
              (Some err, s1) \<Rightarrow> roleActions A acl [VerbDelete A] s1
            | (None, s1) \<Rightarrow> (None, s1)) of
        (Some err, s2) \<Rightarrow> (Some (Wrap err), s2)
      | (None, s2) \<Rightarrow>
          (case op_GetRole (operator acl) key name s2 of
               (Inl err, s3) \<Rightarrow> (Some (Wrap err), s3)
             | (Inr role, s3) \<Rightarrow>
                 if (case role_Labels role (SystemLabel A) of None \<Rightarrow> [] | Some v \<Rightarrow> v) = constants_True A
                 then (Some (AccessDenied ''system roles can't be deleted''), s3)
                 else op_DeleteRole (operator acl) ctx key name s3))"

definition UpsertOIDCConnector ::
  "ACLConstants \<Rightarrow> 's OperatorACL \<Rightarrow> Context \<Rightarrow> SiteKey \<Rightarrow> OIDCConnector \<Rightarrow> 's \<Rightarrow> error option \<times> 's" where
  "UpsertOIDCConnector A acl ctx key connector s =
     (case (case ClusterAction acl (sk_SiteDomain key) (KindCluster A) (VerbUpdate A) s of
              (Some err, s1) \<Rightarrow> AuthConnectorActions acl (KindOIDCConnector A) [VerbCreate A, VerbUpdate A] s1
            | (None, s1) \<Rightarrow> (None, s1)) of
        (Some err, s2) \<Rightarrow> (Some (Wrap err), s2)
      | (None, s2) \<Rightarrow>
          op_UpsertOIDCConnector (operator acl) ctx key connector s2)"

definition GetOIDCConnector ::
  "ACLConstants \<Rightarrow> 's OperatorACL \<Rightarrow> SiteKey \<Rightarrow> string \<Rightarrow> bool \<Rightarrow> 's \<Rightarrow> (error + OIDCConnector) \<times> 's" where
  "GetOIDCConnector A acl key name withSecrets s =
     (case (case ClusterAction acl (sk_SiteDomain key) (KindCluster A) (VerbRead A) s of
              (Some err, s1) \<Rightarrow> AuthConnectorActions acl (KindOIDCConnector A) [VerbRead A] s1
            | (None, s1) \<Rightarrow> (None, s1)) of
        (Some err, s2) \<Rightarrow> (Inl (Wrap err), s2)
      | (None, s2) \<Rightarrow>
          op_GetOIDCConnector (operator acl) key name withSecrets s2)"

definition GetOIDCConnectors ::
  "ACLConstants \<Rightarrow> 's OperatorACL \<Rightarrow> SiteKey \<Rightarrow> bool \<Rightarrow> 's \<Rightarrow> (error + OIDCConnector list) \<times> 's" where
  "GetOIDCConnectors A acl key withSecrets s =
     (case (case ClusterAction acl (sk_SiteDomain key) (KindCluster A) (VerbRead A) s of
              (Some err, s1) \<Rightarrow> AuthConnectorActions acl (KindOIDCConnector A) [VerbList A, VerbRead A] s1
            | (None, s1) \<Rightarrow> (None, s1)) of
        (Some err, s2) \<Rightarrow> (Inl (Wrap err), s2)
      | (None, s2) \<Rightarrow>
          op_GetOIDCConnectors (operator acl) key withSecrets s2)"

definition DeleteOIDCConnector ::
  "ACLConstants \<Rightarrow> 's OperatorACL \<Rightarrow> Context \<Rightarrow> SiteKey \<Rightarrow> string \<Rightarrow> 's \<Rightarrow> error option \<times> 's" where
  "DeleteOIDCConnector A acl ctx key name s =
     (case (case ClusterAction acl (sk_SiteDomain key) (KindCluster A) (VerbUpdate A) s of
              (Some err, s1) \<Rightarrow> AuthConnectorActions acl (KindOIDCConnector A) [VerbDelete A] s1
            | (None, s1) \<Rightarrow> (None, s1)) of
        (Some err, s2) \<Rightarrow> (Some (Wrap err), s2)
      | (None, s2) \<Rightarrow>
          op_DeleteOIDCConnector (operator acl) ctx key name s2)"

definition UpsertSAMLConnector ::
  "ACLConstants \<Rightarrow> 's OperatorACL \<Rightarrow> Context \<Rightarrow> SiteKey \<Rightarrow> SAMLConnector \<Rightarrow> 's \<Rightarrow> error option \<times> 's" where
  "UpsertSAMLConnector A acl ctx key connector s =
     (case (case ClusterAction acl (sk_SiteDomain key) (KindCluster A) (VerbUpdate A) s of
              (Some err, s1) \<Rightarrow> AuthConnectorActions acl (KindSAMLConnector A) [VerbCreate A, VerbUpdate A] s1
            | (None, s1) \<Rightarrow> (None, s1)) of
        (Some err, s2) \<Rightarrow> (Some (Wrap err), s2)
      | (None, s2) \<Rightarrow>
          op_UpsertSAMLConnector (operator acl) ctx key connector s2)"

definition GetSAMLConnector ::
  "ACLConstants \<Rightarrow> 's OperatorACL \<Rightarrow> SiteKey \<Rightarrow> string \<Rightarrow> bool \<Rightarrow> 's \<Rightarrow> (error + SAMLConnector) \<times> 's" where
  "GetSAMLConnector A acl key name withSecrets s =
     (case (case ClusterAction acl (sk_SiteDomain key) (KindCluster A) (VerbRead A) s of
              (Some err, s1) \<Rightarrow> AuthConnectorActions acl (KindSAMLConnector A) [VerbRead A] s1
            | (None, s1) \<Rightarrow> (None, s1)) of
        (Some err, s2) \<Rightarrow> (Inl (Wrap err), s2)
      | (None, s2) \<Rightarrow>
          op_GetSAMLConnector (operator acl) key name withSecrets s2)"

definition GetSAMLConnectors ::
  "ACLConstants \<Rightarrow> 's OperatorACL \<Rightarrow> SiteKey \<Rightarrow> bool \<Rightarrow> 's \<Rightarrow> (error + SAMLConnector list) \<times> 's" where
  "GetSAMLConnectors A acl key withSecrets s =
     (case (case ClusterAction acl (sk_SiteDomain key) (KindCluster A) (VerbRead A) s of
              (Some err, s1) \<Rightarrow> AuthConnectorActions acl (KindSAMLConnector A) [VerbList A, VerbRead A] s1
            | (None, s1) \<Rightarrow> (None, s1)) of
        (Some err, s2) \<Rightarrow> (Inl (Wrap err), s2)
      | (None, s2) \<Rightarrow>
          op_GetSAMLConnectors (operator acl) key withSecrets s2)"

definition DeleteSAMLConnector ::
  "ACLConstants \<Rightarrow> 's OperatorACL \<Rightarrow> Context \<Rightarrow> SiteKey \<Rightarrow> string \<Rightarrow> 's \<Rightarrow> error option \<times> 's" where
  "DeleteSAMLConnector A acl ctx key name s =
     (case (case ClusterAction acl (sk_SiteDomain key) (KindCluster A) (VerbUpdate A) s of
              (Some err, s1) \<Rightarrow> AuthConnectorActions acl (KindSAMLConnector A) [VerbDelete A] s1
            | (None, s1) \<Rightarrow> (None, s1)) of
        (Some err, s2) \<Rightarrow> (Some (Wrap err), s2)
      | (None, s2) \<Rightarrow>
          op_DeleteSAMLConnector (operator acl) ctx key name s2)"

text \<open>
  Stand-ins for evaluation: checks that deny everything and a service that answers
  everything, both of which write their name into a log, which is the state.
\<close>

definition example_acl_constants :: ACLConstants where
  "example_acl_constants =
     \<lparr>KindCluster = ''cluster'', KindLicense = ''license'', KindRole = ''role'',
      KindOIDCConnector = ''oidc'', KindSAMLConnector = ''saml'',
      VerbCreate = ''create'', VerbRead = ''read'', VerbUpdate = ''update'',
      VerbDelete = ''delete'', VerbList = ''list'', VerbRegister = ''register'',
      SystemLabel = ''gravitational.io/system'', constants_True = ''true''\<rparr>"

definition example_role :: Role where
  "example_role = \<lparr>role_Labels = (\<lambda>label. None)\<rparr>"

definition logging_service :: "(string list) EnterpriseOperator" where
  "logging_service =
     \<lparr>op_RegisterAgent = (\<lambda>req log. (Inr (Opaque ''RegisterAgent''), log @ [''RegisterAgent''])),
      op_RequestClusterCopy = (\<lambda>req log. (None, log @ [''RequestClusterCopy''])),
      op_GetClusterEndpoints = (\<lambda>key log. (Inr (Opaque ''GetClusterEndpoints''), log @ [''GetClusterEndpoints''])),
      op_UpdateClusterEndpoints = (\<lambda>ctx key endpoints log. (None, log @ [''UpdateClusterEndpoints''])),
      op_CheckForUpdate = (\<lambda>key log. (Inr (Opaque ''CheckForUpdate''), log @ [''CheckForUpdate''])),
      op_DownloadUpdate = (\<lambda>ctx req log. (None, log @ [''DownloadUpdate''])),
      op_EnablePeriodicUpdates = (\<lambda>ctx req log. (None, log @ [''EnablePeriodicUpdates''])),
      op_DisablePeriodicUpdates = (\<lambda>ctx key log. (None, log @ [''DisablePeriodicUpdates''])),
      op_StartPeriodicUpdates = (\<lambda>key log. (None, log @ [''StartPeriodicUpdates''])),
      op_StopPeriodicUpdates = (\<lambda>key log. (None, log @ [''StopPeriodicUpdates''])),
      op_PeriodicUpdatesStatus = (\<lambda>key log. (Inr (Opaque ''PeriodicUpdatesStatus''), log @ [''PeriodicUpdatesStatus''])),
      op_UpsertTrustedCluster = (\<lambda>ctx key cluster log. (None, log @ [''UpsertTrustedCluster''])),
      op_DeleteTrustedCluster = (\<lambda>ctx req log. (None, log @ [''DeleteTrustedCluster''])),
      op_GetTrustedClusters = (\<lambda>key log. (Inr [], log @ [''GetTrustedClusters''])),
      op_GetTrustedCluster = (\<lambda>key name log. (Inr (Opaque ''GetTrustedCluster''), log @ [''GetTrustedCluster''])),
      op_AcceptRemoteCluster = (\<lambda>req log. (Inr (Opaque ''AcceptRemoteCluster''), log @ [''AcceptRemoteCluster''])),
      op_RemoveRemoteCluster = (\<lambda>req log. (None, log @ [''RemoveRemoteCluster''])),
      op_NewLicense = (\<lambda>ctx req log. (Inr ''PEM'', log @ [''NewLicense''])),
      op_CheckSiteLicense = (\<lambda>ctx key log. (None, log @ [''CheckSiteLicense''])),
      op_UpdateLicense = (\<lambda>ctx req log. (None, log @ [''UpdateLicense''])),
      op_GetLicenseCA = (\<lambda>log. (Inr ''PEM'', log @ [''GetLicenseCA''])),
      op_UpsertRole = (\<lambda>ctx key role log. (None, log @ [''UpsertRole''])),
      op_GetRole = (\<lambda>key name log. (Inr example_role, log @ [''GetRole''])),
      op_GetRoles = (\<lambda>key log. (Inr [], log @ [''GetRoles''])),
      op_DeleteRole = (\<lambda>ctx key name log. (None, log @ [''DeleteRole''])),
      op_UpsertOIDCConnector = (\<lambda>ctx key connector log. (None, log @ [''UpsertOIDCConnector''])),
      op_GetOIDCConnector = (\<lambda>key name withSecrets log. (Inr (Opaque ''GetOIDCConnector''), log @ [''GetOIDCConnector''])),
      op_GetOIDCConnectors = (\<lambda>key withSecrets log. (Inr [], log @ [''GetOIDCConnectors''])),
      op_DeleteOIDCConnector = (\<lambda>ctx key name log. (None, log @ [''DeleteOIDCConnector''])),
      op_UpsertSAMLConnector = (\<lambda>ctx key connector log. (None, log @ [''UpsertSAMLConnector''])),
      op_GetSAMLConnector = (\<lambda>key name withSecrets log. (Inr (Opaque ''GetSAMLConnector''), log @ [''GetSAMLConnector''])),
      op_GetSAMLConnectors = (\<lambda>key withSecrets log. (Inr [], log @ [''GetSAMLConnectors''])),
      op_DeleteSAMLConnector = (\<lambda>ctx key name log. (None, log @ [''DeleteSAMLConnector'']))\<rparr>"

definition deny_all :: "(string list) OperatorACL" where
  "deny_all =
     \<lparr>ClusterAction = (\<lambda>name kind verb log. (Some (AccessDenied ''denied''), log @ [''ClusterAction''])),
      Action = (\<lambda>kind verb log. (Some (AccessDenied ''denied''), log @ [''Action''])),
      AuthConnectorActions =
        (\<lambda>kind verbs log. (Some (AccessDenied ''denied''), log @ [''AuthConnectorActions''])),
      operator = logging_service\<rparr>"

section \<open>Properties of the discovery client\<close>

text \<open>
  C3, as the claim states it, at an agent that cannot be reached: the claim has each of
  the four calls return the transport error translated. \<open>GetVersion\<close> returns the
  translation of \<open>trail.FromGRPC\<close>; \<open>GetSystemInfo\<close>, \<open>GetRuntimeConfig\<close> and
  \<open>GetCurrentTime\<close> return the error as the stub gave it, wrapped by \<open>trace.Wrap\<close>,
  which is not its translation.
\<close>

theorem discovery_untranslated_counterexample:
  "GetVersion unreachable_agent Background =
     Inl (FromGRPC (Err ''code = Unavailable desc = connection refused''))
   \<and> GetSystemInfo rejecting_unmarshal unreachable_agent Background =
     Inl (Wrap (Err ''code = Unavailable desc = connection refused''))
   \<and> GetSystemInfo rejecting_unmarshal unreachable_agent Background \<noteq>
     Inl (FromGRPC (Err ''code = Unavailable desc = connection refused''))
   \<and> GetRuntimeConfig unreachable_agent Background \<noteq>
     Inl (FromGRPC (Err ''code = Unavailable desc = connection refused''))
   \<and> GetCurrentTime rejecting_timestamp unreachable_agent Background \<noteq>
     Inl (FromGRPC (Err ''code = Unavailable desc = connection refused''))"
  by (simp add: GetVersion_def GetSystemInfo_def GetRuntimeConfig_def GetCurrentTime_def
      unreachable_agent_def)

text \<open>
  C3, amended. For each of the four discovery calls, a transport or remote error of the
  stub results in an error and no value. \<open>GetVersion\<close> returns that error translated by
  \<open>trail.FromGRPC\<close>. \<open>GetSystemInfo\<close>, \<open>GetRuntimeConfig\<close> and \<open>GetCurrentTime\<close>
  return it wrapped by \<open>trace.Wrap\<close>, untranslated, the error of the stub kept inside;
  \<open>GetSystemInfo\<close> and \<open>GetCurrentTime\<close> wrap a local decoding error (of the payload,
  of the timestamp) in the same way.
\<close>

theorem discovery_error_results:
  "(disc_GetSystemInfo (discovery c) ctx = Inl err \<longrightarrow>
      GetSystemInfo UnmarshalSystemInfo c ctx = Inl (Wrap err))
   \<and> (disc_GetRuntimeConfig (discovery c) ctx = Inl err \<longrightarrow>
      GetRuntimeConfig c ctx = Inl (Wrap err))
   \<and> (disc_GetCurrentTime (discovery c) ctx = Inl err \<longrightarrow>
      GetCurrentTime TimestampFromProto c ctx = Inl (Wrap err))
   \<and> (disc_GetVersion (discovery c) ctx = Inl err \<longrightarrow>
      GetVersion c ctx = Inl (FromGRPC err))
   \<and> (disc_GetSystemInfo (discovery c) ctx = Inr resp \<and>
       UnmarshalSystemInfo (Payload resp) = Inl err \<longrightarrow>
      GetSystemInfo UnmarshalSystemInfo c ctx = Inl (Wrap err))
   \<and> (disc_GetCurrentTime (discovery c) ctx = Inr proto \<and>
       TimestampFromProto proto = Inl err \<longrightarrow>
      GetCurrentTime TimestampFromProto c ctx = Inl (Wrap err))"
  by (intro conjI impI)
    (simp_all add: GetSystemInfo_def GetRuntimeConfig_def GetCurrentTime_def GetVersion_def)

theorem discovery_error_results_witness:
  "GetSystemInfo rejecting_unmarshal unreachable_agent Background =
     Inl (Wrap (Err ''code = Unavailable desc = connection refused''))
   \<and> GetRuntimeConfig unreachable_agent Background =
     Inl (Wrap (Err ''code = Unavailable desc = connection refused''))
   \<and> GetCurrentTime rejecting_timestamp unreachable_agent Background =
     Inl (Wrap (Err ''code = Unavailable desc = connection refused''))
   \<and> GetVersion unreachable_agent Background =
     Inl (FromGRPC (Err ''code = Unavailable desc = connection refused''))
   \<and> GetSystemInfo rejecting_unmarshal answering_agent Background =
     Inl (Wrap (Err ''unexpected end of JSON input''))
   \<and> GetCurrentTime rejecting_timestamp answering_agent Background =
     Inl (Wrap (Err ''timestamp: out of range''))"
proof -
  note remote = discovery_error_results
    [where c = unreachable_agent and ctx = Background
       and err = "Err ''code = Unavailable desc = connection refused''"
       and UnmarshalSystemInfo = rejecting_unmarshal
       and TimestampFromProto = rejecting_timestamp]
  note payload = discovery_error_results
    [where c = answering_agent and ctx = Background
       and err = "Err ''unexpected end of JSON input''"
       and UnmarshalSystemInfo = rejecting_unmarshal
       and resp = "\<lparr>Payload = ''{}''\<rparr>",
       THEN conjunct2, THEN conjunct2, THEN conjunct2, THEN conjunct2, THEN conjunct1]
  note timestamp = discovery_error_results
    [where c = answering_agent and ctx = Background
       and err = "Err ''timestamp: out of range''"
       and TimestampFromProto = rejecting_timestamp
       and proto = "\<lparr>Seconds = 1600000000, Nanos = 0\<rparr>",
       THEN conjunct2, THEN conjunct2, THEN conjunct2, THEN conjunct2, THEN conjunct2]
  have "disc_GetSystemInfo (discovery unreachable_agent) Background =
          Inl (Err ''code = Unavailable desc = connection refused'')"
    and "disc_GetRuntimeConfig (discovery unreachable_agent) Background =
          Inl (Err ''code = Unavailable desc = connection refused'')"
    and "disc_GetCurrentTime (discovery unreachable_agent) Background =
          Inl (Err ''code = Unavailable desc = connection refused'')"
    and "disc_GetVersion (discovery unreachable_agent) Background =
          Inl (Err ''code = Unavailable desc = connection refused'')"
    by (simp_all add: unreachable_agent_def)
  moreover have "disc_GetSystemInfo (discovery answering_agent) Background = Inr \<lparr>Payload = ''{}''\<rparr>"
    and "rejecting_unmarshal (Payload \<lparr>Payload = ''{}''\<rparr>) = Inl (Err ''unexpected end of JSON input'')"
    and "disc_GetCurrentTime (discovery answering_agent) Background =
          Inr \<lparr>Seconds = 1600000000, Nanos = 0\<rparr>"
    and "rejecting_timestamp \<lparr>Seconds = 1600000000, Nanos = 0\<rparr> = Inl (Err ''timestamp: out of range'')"
    by (simp_all add: answering_agent_def rejecting_unmarshal_def rejecting_timestamp_def)
  ultimately show ?thesis
    using remote payload timestamp by simp
qed

section \<open>Properties of the enterprise ACL operator\<close>

lemma roleActions_operator [simp]:
  "roleActions A (acl\<lparr>operator := inner\<rparr>) actions s = roleActions A acl actions s"
  by (induction actions arbitrary: s) (simp_all split: prod.splits option.splits)

text \<open>
  C10. For every inner operator, \<open>GetLicenseCA\<close> of the wrapper returns exactly what
  the inner operator's \<open>GetLicenseCA\<close> returns, with no authorization check: the answer
  is the same whatever the checks would say. It is the only method of the wrapper that
  delegates unconditionally. Each of the other 32 methods, when its check is denied,
  returns the authorization error (wrapped by \<open>trace.Wrap\<close>) on the state the checks
  left and does not call the inner operator: the answer is the same for every inner
  operator. The check of the role and connector methods is denied when the cluster
  check and the second check (on roles, on connectors) are both denied, and the error
  returned is that of the second check.
\<close>

theorem GetLicenseCA_only_unchecked_method:
  "GetLicenseCA acl s = op_GetLicenseCA (operator acl) s
   \<and> GetLicenseCA
       (acl\<lparr>ClusterAction := cluster_check, Action := check,
            AuthConnectorActions := connector_check\<rparr>) s =
     op_GetLicenseCA (operator acl) s
   \<and> (ClusterAction acl (rar_ClusterName registerAgentRequest) (KindCluster A) (VerbUpdate A) s = (Some err, sa) \<longrightarrow>
      RegisterAgent A (acl\<lparr>operator := inner\<rparr>) registerAgentRequest s = (Inl (Wrap err), sa))
   \<and> (Action acl (KindCluster A) (VerbCreate A) s = (Some err, sa) \<longrightarrow>
      RequestClusterCopy A (acl\<lparr>operator := inner\<rparr>) clusterCopyRequest s = (Some (Wrap err), sa))
   \<and> (ClusterAction acl (sk_SiteDomain key) (KindCluster A) (VerbRead A) s = (Some err, sa) \<longrightarrow>
      GetClusterEndpoints A (acl\<lparr>operator := inner\<rparr>) key s = (Inl (Wrap err), sa))
   \<and> (ClusterAction acl (sk_SiteDomain key) (KindCluster A) (VerbUpdate A) s = (Some err, sa) \<longrightarrow>
      UpdateClusterEndpoints A (acl\<lparr>operator := inner\<rparr>) ctx key endpoints s = (Some (Wrap err), sa))
   \<and> (ClusterAction acl (sk_SiteDomain key) (KindCluster A) (VerbRead A) s = (Some err, sa) \<longrightarrow>
      CheckForUpdate A (acl\<lparr>operator := inner\<rparr>) key s = (Inl (Wrap err), sa))
   \<and> (ClusterAction acl (dur_SiteDomain downloadUpdateRequest) (KindCluster A) (VerbUpdate A) s = (Some err, sa) \<longrightarrow>
      DownloadUpdate A (acl\<lparr>operator := inner\<rparr>) ctx downloadUpdateRequest s = (Some (Wrap err), sa))
   \<and> (ClusterAction acl (epur_SiteDomain enablePeriodicUpdatesRequest) (KindCluster A) (VerbUpdate A) s = (Some err, sa) \<longrightarrow>
      EnablePeriodicUpdates A (acl\<lparr>operator := inner\<rparr>) ctx enablePeriodicUpdatesRequest s = (Some (Wrap err), sa))
   \<and> (ClusterAction acl (sk_SiteDomain key) (KindCluster A) (VerbUpdate A) s = (Some err, sa) \<longrightarrow>
      DisablePeriodicUpdates A (acl\<lparr>operator := inner\<rparr>) ctx key s = (Some (Wrap err), sa))
   \<and> (ClusterAction acl (sk_SiteDomain key) (KindCluster A) (VerbUpdate A) s = (Some err, sa) \<longrightarrow>
      StartPeriodicUpdates A (acl\<lparr>operator := inner\<rparr>) key s = (Some (Wrap err), sa))
   \<and> (ClusterAction acl (sk_SiteDomain key) (KindCluster A) (VerbUpdate A) s = (Some err, sa) \<longrightarrow>
      StopPeriodicUpdates A (acl\<lparr>operator := inner\<rparr>) key s = (Some (Wrap err), sa))
   \<and> (ClusterAction acl (sk_SiteDomain key) (KindCluster A) (VerbRead A) s = (Some err, sa) \<longrightarrow>
      PeriodicUpdatesStatus A (acl\<lparr>operator := inner\<rparr>) key s = (Inl (Wrap err), sa))
   \<and> (ClusterAction acl (sk_SiteDomain key) (KindCluster A) (VerbUpdate A) s = (Some err, sa) \<longrightarrow>
      UpsertTrustedCluster A (acl\<lparr>operator := inner\<rparr>) ctx key cluster s = (Some (Wrap err), sa))
   \<and> (ClusterAction acl (dtcr_ClusterName deleteTrustedClusterRequest) (KindCluster A) (VerbUpdate A) s = (Some err, sa) \<longrightarrow>
      DeleteTrustedCluster A (acl\<lparr>operator := inner\<rparr>) ctx deleteTrustedClusterRequest s = (Some (Wrap err), sa))
   \<and> (ClusterAction acl (sk_SiteDomain key) (KindCluster A) (VerbRead A) s = (Some err, sa) \<longrightarrow>
      GetTrustedClusters A (acl\<lparr>operator := inner\<rparr>) key s = (Inl (Wrap err), sa))
   \<and> (ClusterAction acl (sk_SiteDomain key) (KindCluster A) (VerbRead A) s = (Some err, sa) \<longrightarrow>
      GetTrustedCluster A (acl\<lparr>operator := inner\<rparr>) key name s = (Inl (Wrap err), sa))
   \<and> (Action acl (KindCluster A) (VerbRegister A) s = (Some err, sa) \<longrightarrow>
      AcceptRemoteCluster A (acl\<lparr>operator := inner\<rparr>) acceptRemoteClusterRequest s = (Inl (Wrap err), sa))
   \<and> (Action acl (KindCluster A) (VerbRegister A) s = (Some err, sa) \<longrightarrow>
      RemoveRemoteCluster A (acl\<lparr>operator := inner\<rparr>) removeRemoteClusterRequest s = (Some (Wrap err), sa))
   \<and> (Action acl (KindLicense A) (VerbCreate A) s = (Some err, sa) \<longrightarrow>
      NewLicense A (acl\<lparr>operator := inner\<rparr>) ctx newLicenseRequest s = (Inl (Wrap err), sa))
   \<and> (ClusterAction acl (sk_SiteDomain key) (KindCluster A) (VerbUpdate A) s = (Some err, sa) \<longrightarrow>
      CheckSiteLicense A (acl\<lparr>operator := inner\<rparr>) ctx key s = (Some (Wrap err), sa))
   \<and> (ClusterAction acl (ulr_SiteDomain updateLicenseRequest) (KindCluster A) (VerbUpdate A) s = (Some err, sa) \<longrightarrow>
      UpdateLicense A (acl\<lparr>operator := inner\<rparr>) ctx updateLicenseRequest s = (Some (Wrap err), sa))
   \<and> (ClusterAction acl (sk_SiteDomain key) (KindCluster A) (VerbUpdate A) s = (Some denied, sa) \<and>
      roleActions A acl [VerbCreate A, VerbUpdate A] sa = (Some err, sb) \<longrightarrow>
      UpsertRole A (acl\<lparr>operator := inner\<rparr>) ctx key role s = (Some (Wrap err), sb))
   \<and> (ClusterAction acl (sk_SiteDomain key) (KindCluster A) (VerbRead A) s = (Some denied, sa) \<and>
      roleActions A acl [VerbRead A] sa = (Some err, sb) \<longrightarrow>
      GetRole A (acl\<lparr>operator := inner\<rparr>) key name s = (Inl (Wrap err), sb))
   \<and> (ClusterAction acl (sk_SiteDomain key) (KindCluster A) (VerbRead A) s = (Some denied, sa) \<and>
      roleActions A acl [VerbList A, VerbRead A] sa = (Some err, sb) \<longrightarrow>
      GetRoles A (acl\<lparr>operator := inner\<rparr>) key s = (Inl (Wrap err), sb))
   \<and> (ClusterAction acl (sk_SiteDomain key) (KindCluster A) (VerbUpdate A) s = (Some denied, sa) \<and>
      roleActions A acl [VerbDelete A] sa = (Some err, sb) \<longrightarrow>
      DeleteRole A (acl\<lparr>operator := inner\<rparr>) ctx key name s = (Some (Wrap err), sb))
   \<and> (ClusterAction acl (sk_SiteDomain key) (KindCluster A) (VerbUpdate A) s = (Some denied, sa) \<and>
      AuthConnectorActions acl (KindOIDCConnector A) [VerbCreate A, VerbUpdate A] sa = (Some err, sb) \<longrightarrow>
      UpsertOIDCConnector A (acl\<lparr>operator := inner\<rparr>) ctx key oidc_connector s = (Some (Wrap err), sb))
   \<and> (ClusterAction acl (sk_SiteDomain key) (KindCluster A) (VerbRead A) s = (Some denied, sa) \<and>
      AuthConnectorActions acl (KindOIDCConnector A) [VerbRead A] sa = (Some err, sb) \<longrightarrow>
      GetOIDCConnector A (acl\<lparr>operator := inner\<rparr>) key name withSecrets s = (Inl (Wrap err), sb))
   \<and> (ClusterAction acl (sk_SiteDomain key) (KindCluster A) (VerbRead A) s = (Some denied, sa) \<and>
      AuthConnectorActions acl (KindOIDCConnector A) [VerbList A, VerbRead A] sa = (Some err, sb) \<longrightarrow>
      GetOIDCConnectors A (acl\<lparr>operator := inner\<rparr>) key withSecrets s = (Inl (Wrap err), sb))
   \<and> (ClusterAction acl (sk_SiteDomain key) (KindCluster A) (VerbUpdate A) s = (Some denied, sa) \<and>
      AuthConnectorActions acl (KindOIDCConnector A) [VerbDelete A] sa = (Some err, sb) \<longrightarrow>
      DeleteOIDCConnector A (acl\<lparr>operator := inner\<rparr>) ctx key name s = (Some (Wrap err), sb))
   \<and> (ClusterAction acl (sk_SiteDomain key) (KindCluster A) (VerbUpdate A) s = (Some denied, sa) \<and>
      AuthConnectorActions acl (KindSAMLConnector A) [VerbCreate A, VerbUpdate A] sa = (Some err, sb) \<longrightarrow>
      UpsertSAMLConnector A (acl\<lparr>operator := inner\<rparr>) ctx key saml_connector s = (Some (Wrap err), sb))
   \<and> (ClusterAction acl (sk_SiteDomain key) (KindCluster A) (VerbRead A) s = (Some denied, sa) \<and>
      AuthConnectorActions acl (KindSAMLConnector A) [VerbRead A] sa = (Some err, sb) \<longrightarrow>
      GetSAMLConnector A (acl\<lparr>operator := inner\<rparr>) key name withSecrets s = (Inl (Wrap err), sb))
   \<and> (ClusterAction acl (sk_SiteDomain key) (KindCluster A) (VerbRead A) s = (Some denied, sa) \<and>
      AuthConnectorActions acl (KindSAMLConnector A) [VerbList A, VerbRead A] sa = (Some err, sb) \<longrightarrow>
      GetSAMLConnectors A (acl\<lparr>operator := inner\<rparr>) key withSecrets s = (Inl (Wrap err), sb))
   \<and> (ClusterAction acl (sk_SiteDomain key) (KindCluster A) (VerbUpdate A) s = (Some denied, sa) \<and>
      AuthConnectorActions acl (KindSAMLConnector A) [VerbDelete A] sa = (Some err, sb) \<longrightarrow>
      DeleteSAMLConnector A (acl\<lparr>operator := inner\<rparr>) ctx key name s = (Some (Wrap err), sb))"
  apply (intro conjI impI)
  apply (simp add: GetLicenseCA_def)
  apply (simp add: GetLicenseCA_def)
  apply (simp add: RegisterAgent_def del: roleActions.simps)
  apply (simp add: RequestClusterCopy_def del: roleActions.simps)
  apply (simp add: GetClusterEndpoints_def del: roleActions.simps)
  apply (simp add: UpdateClusterEndpoints_def del: roleActions.simps)
  apply (simp add: CheckForUpdate_def del: roleActions.simps)
  apply (simp add: DownloadUpdate_def del: roleActions.simps)
  apply (simp add: EnablePeriodicUpdates_def del: roleActions.simps)
  apply (simp add: DisablePeriodicUpdates_def del: roleActions.simps)
  apply (simp add: StartPeriodicUpdates_def del: roleActions.simps)
  apply (simp add: StopPeriodicUpdates_def del: roleActions.simps)
  apply (simp add: PeriodicUpdatesStatus_def del: roleActions.simps)
  apply (simp add: UpsertTrustedCluster_def del: roleActions.simps)
  apply (simp add: DeleteTrustedCluster_def del: roleActions.simps)
  apply (simp add: GetTrustedClusters_def del: roleActions.simps)
  apply (simp add: GetTrustedCluster_def del: roleActions.simps)
  apply (simp add: AcceptRemoteCluster_def del: roleActions.simps)
  apply (simp add: RemoveRemoteCluster_def del: roleActions.simps)
  apply (simp add: NewLicense_def del: roleActions.simps)
  apply (simp add: CheckSiteLicense_def del: roleActions.simps)
  apply (simp add: UpdateLicense_def del: roleActions.simps)
  apply (simp add: UpsertRole_def del: roleActions.simps)
  apply (simp add: GetRole_def del: roleActions.simps)
  apply (simp add: GetRoles_def del: roleActions.simps)
  apply (simp add: DeleteRole_def del: roleActions.simps)
  apply (simp add: UpsertOIDCConnector_def del: roleActions.simps)
  apply (simp add: GetOIDCConnector_def del: roleActions.simps)
  apply (simp add: GetOIDCConnectors_def del: roleActions.simps)
  apply (simp add: DeleteOIDCConnector_def del: roleActions.simps)
  apply (simp add: UpsertSAMLConnector_def del: roleActions.simps)
  apply (simp add: GetSAMLConnector_def del: roleActions.simps)
  apply (simp add: GetSAMLConnectors_def del: roleActions.simps)
  apply (simp add: DeleteSAMLConnector_def del: roleActions.simps)
  done

theorem GetLicenseCA_only_unchecked_method_witness:
  "GetLicenseCA deny_all [] = (Inr ''PEM'', [''GetLicenseCA''])
   \<and> RegisterAgent example_acl_constants deny_all \<lparr>rar_ClusterName = ''example.com''\<rparr> [] =
     (Inl (Wrap (AccessDenied ''denied'')), [''ClusterAction''])
   \<and> RequestClusterCopy example_acl_constants deny_all (Opaque ''copy'') [] =
     (Some (Wrap (AccessDenied ''denied'')), [''Action''])
   \<and> GetClusterEndpoints example_acl_constants deny_all example_site_key [] =
     (Inl (Wrap (AccessDenied ''denied'')), [''ClusterAction''])
   \<and> UpdateClusterEndpoints example_acl_constants deny_all Background example_site_key (Opaque ''endpoints'') [] =
     (Some (Wrap (AccessDenied ''denied'')), [''ClusterAction''])
   \<and> CheckForUpdate example_acl_constants deny_all example_site_key [] =
     (Inl (Wrap (AccessDenied ''denied'')), [''ClusterAction''])
   \<and> DownloadUpdate example_acl_constants deny_all Background \<lparr>dur_SiteDomain = ''example.com''\<rparr> [] =
     (Some (Wrap (AccessDenied ''denied'')), [''ClusterAction''])
   \<and> EnablePeriodicUpdates example_acl_constants deny_all Background \<lparr>epur_SiteDomain = ''example.com''\<rparr> [] =
     (Some (Wrap (AccessDenied ''denied'')), [''ClusterAction''])
   \<and> DisablePeriodicUpdates example_acl_constants deny_all Background example_site_key [] =
     (Some (Wrap (AccessDenied ''denied'')), [''ClusterAction''])
   \<and> StartPeriodicUpdates example_acl_constants deny_all example_site_key [] =
     (Some (Wrap (AccessDenied ''denied'')), [''ClusterAction''])
   \<and> StopPeriodicUpdates example_acl_constants deny_all example_site_key [] =
     (Some (Wrap (AccessDenied ''denied'')), [''ClusterAction''])
   \<and> PeriodicUpdatesStatus example_acl_constants deny_all example_site_key [] =
     (Inl (Wrap (AccessDenied ''denied'')), [''ClusterAction''])
   \<and> UpsertTrustedCluster example_acl_constants deny_all Background example_site_key (Opaque ''trusted'') [] =
     (Some (Wrap (AccessDenied ''denied'')), [''ClusterAction''])
   \<and> DeleteTrustedCluster example_acl_constants deny_all Background \<lparr>dtcr_ClusterName = ''example.com''\<rparr> [] =
     (Some (Wrap (AccessDenied ''denied'')), [''ClusterAction''])
   \<and> GetTrustedClusters example_acl_constants deny_all example_site_key [] =
     (Inl (Wrap (AccessDenied ''denied'')), [''ClusterAction''])
   \<and> GetTrustedCluster example_acl_constants deny_all example_site_key ''main'' [] =
     (Inl (Wrap (AccessDenied ''denied'')), [''ClusterAction''])
   \<and> AcceptRemoteCluster example_acl_constants deny_all (Opaque ''accept'') [] =
     (Inl (Wrap (AccessDenied ''denied'')), [''Action''])
   \<and> RemoveRemoteCluster example_acl_constants deny_all (Opaque ''remove'') [] =
     (Some (Wrap (AccessDenied ''denied'')), [''Action''])
   \<and> NewLicense example_acl_constants deny_all Background (Opaque ''license'') [] =
     (Inl (Wrap (AccessDenied ''denied'')), [''Action''])
   \<and> CheckSiteLicense example_acl_constants deny_all Background example_site_key [] =
     (Some (Wrap (AccessDenied ''denied'')), [''ClusterAction''])
   \<and> UpdateLicense example_acl_constants deny_all Background \<lparr>ulr_SiteDomain = ''example.com''\<rparr> [] =
     (Some (Wrap (AccessDenied ''denied'')), [''ClusterAction''])
   \<and> UpsertRole example_acl_constants deny_all Background example_site_key example_role [] =
     (Some (Wrap (Wrap (AccessDenied ''denied''))), [''ClusterAction'', ''Action''])
   \<and> GetRole example_acl_constants deny_all example_site_key ''main'' [] =
     (Inl (Wrap (Wrap (AccessDenied ''denied''))), [''ClusterAction'', ''Action''])
   \<and> GetRoles example_acl_constants deny_all example_site_key [] =
     (Inl (Wrap (Wrap (AccessDenied ''denied''))), [''ClusterAction'', ''Action''])
   \<and> DeleteRole example_acl_constants deny_all Background example_site_key ''main'' [] =
     (Some (Wrap (Wrap (AccessDenied ''denied''))), [''ClusterAction'', ''Action''])
   \<and> UpsertOIDCConnector example_acl_constants deny_all Background example_site_key (Opaque ''connector'') [] =
     (Some (Wrap (AccessDenied ''denied'')), [''ClusterAction'', ''AuthConnectorActions''])
   \<and> GetOIDCConnector example_acl_constants deny_all example_site_key ''main'' False [] =
     (Inl (Wrap (AccessDenied ''denied'')), [''ClusterAction'', ''AuthConnectorActions''])
   \<and> GetOIDCConnectors example_acl_constants deny_all example_site_key False [] =
     (Inl (Wrap (AccessDenied ''denied'')), [''ClusterAction'', ''AuthConnectorActions''])
   \<and> DeleteOIDCConnector example_acl_constants deny_all Background example_site_key ''main'' [] =
     (Some (Wrap (AccessDenied ''denied'')), [''ClusterAction'', ''AuthConnectorActions''])
   \<and> UpsertSAMLConnector example_acl_constants deny_all Background example_site_key (Opaque ''connector'') [] =
     (Some (Wrap (AccessDenied ''denied'')), [''ClusterAction'', ''AuthConnectorActions''])
   \<and> GetSAMLConnector example_acl_constants deny_all example_site_key ''main'' False [] =
     (Inl (Wrap (AccessDenied ''denied'')), [''ClusterAction'', ''AuthConnectorActions''])
   \<and> GetSAMLConnectors example_acl_constants deny_all example_site_key False [] =
     (Inl (Wrap (AccessDenied ''denied'')), [''ClusterAction'', ''AuthConnectorActions''])
   \<and> DeleteSAMLConnector example_acl_constants deny_all Background example_site_key ''main'' [] =
     (Some (Wrap (AccessDenied ''denied'')), [''ClusterAction'', ''AuthConnectorActions''])"
proof -
  note plain_CA = GetLicenseCA_only_unchecked_method
    [where
      registerAgentRequest = "\<lparr>rar_ClusterName = ''example.com''\<rparr>"
      and clusterCopyRequest = "Opaque ''copy''" and key = "example_site_key"
      and ctx = "Background" and endpoints = "Opaque ''endpoints''"
      and downloadUpdateRequest = "\<lparr>dur_SiteDomain = ''example.com''\<rparr>"
      and enablePeriodicUpdatesRequest = "\<lparr>epur_SiteDomain = ''example.com''\<rparr>"
      and cluster = "Opaque ''trusted''"
      and deleteTrustedClusterRequest = "\<lparr>dtcr_ClusterName = ''example.com''\<rparr>"
      and name = "''main''" and acceptRemoteClusterRequest = "Opaque ''accept''"
      and removeRemoteClusterRequest = "Opaque ''remove''"
      and newLicenseRequest = "Opaque ''license''"
      and updateLicenseRequest = "\<lparr>ulr_SiteDomain = ''example.com''\<rparr>"
      and role = "example_role" and oidc_connector = "Opaque ''connector''"
      and withSecrets = "False" and saml_connector = "Opaque ''connector''"
      and err = "AccessDenied ''denied''" and sa = "[''ClusterAction'']"
      and denied = "AccessDenied ''denied''" and sb = "[]" and acl = "deny_all"
      and A = "example_acl_constants" and s = "[]" and inner = "logging_service"
      and cluster_check = "ClusterAction deny_all" and check = "Action deny_all"
      and connector_check = "AuthConnectorActions deny_all"]
  note plain_ACT = GetLicenseCA_only_unchecked_method
    [where
      registerAgentRequest = "\<lparr>rar_ClusterName = ''example.com''\<rparr>"
      and clusterCopyRequest = "Opaque ''copy''" and key = "example_site_key"
      and ctx = "Background" and endpoints = "Opaque ''endpoints''"
      and downloadUpdateRequest = "\<lparr>dur_SiteDomain = ''example.com''\<rparr>"
      and enablePeriodicUpdatesRequest = "\<lparr>epur_SiteDomain = ''example.com''\<rparr>"
      and cluster = "Opaque ''trusted''"
      and deleteTrustedClusterRequest = "\<lparr>dtcr_ClusterName = ''example.com''\<rparr>"
      and name = "''main''" and acceptRemoteClusterRequest = "Opaque ''accept''"
      and removeRemoteClusterRequest = "Opaque ''remove''"
      and newLicenseRequest = "Opaque ''license''"
      and updateLicenseRequest = "\<lparr>ulr_SiteDomain = ''example.com''\<rparr>"
      and role = "example_role" and oidc_connector = "Opaque ''connector''"
      and withSecrets = "False" and saml_connector = "Opaque ''connector''"
      and err = "AccessDenied ''denied''" and sa = "[''Action'']"
      and denied = "AccessDenied ''denied''" and sb = "[]" and acl = "deny_all"
      and A = "example_acl_constants" and s = "[]" and inner = "logging_service"
      and cluster_check = "ClusterAction deny_all" and check = "Action deny_all"
      and connector_check = "AuthConnectorActions deny_all"]
  note role = GetLicenseCA_only_unchecked_method
    [where
      registerAgentRequest = "\<lparr>rar_ClusterName = ''example.com''\<rparr>"
      and clusterCopyRequest = "Opaque ''copy''" and key = "example_site_key"
      and ctx = "Background" and endpoints = "Opaque ''endpoints''"
      and downloadUpdateRequest = "\<lparr>dur_SiteDomain = ''example.com''\<rparr>"
      and enablePeriodicUpdatesRequest = "\<lparr>epur_SiteDomain = ''example.com''\<rparr>"
      and cluster = "Opaque ''trusted''"
      and deleteTrustedClusterRequest = "\<lparr>dtcr_ClusterName = ''example.com''\<rparr>"
      and name = "''main''" and acceptRemoteClusterRequest = "Opaque ''accept''"
      and removeRemoteClusterRequest = "Opaque ''remove''"
      and newLicenseRequest = "Opaque ''license''"
      and updateLicenseRequest = "\<lparr>ulr_SiteDomain = ''example.com''\<rparr>"
      and role = "example_role" and oidc_connector = "Opaque ''connector''"
      and withSecrets = "False" and saml_connector = "Opaque ''connector''"
      and denied = "AccessDenied ''denied''" and sa = "[''ClusterAction'']"
      and err = "Wrap (AccessDenied ''denied'')" and sb = "[''ClusterAction'', ''Action'']"
      and acl = "deny_all" and A = "example_acl_constants" and s = "[]"
      and inner = "logging_service" and cluster_check = "ClusterAction deny_all"
      and check = "Action deny_all" and connector_check = "AuthConnectorActions deny_all"]
  note auth = GetLicenseCA_only_unchecked_method
    [where
      registerAgentRequest = "\<lparr>rar_ClusterName = ''example.com''\<rparr>"
      and clusterCopyRequest = "Opaque ''copy''" and key = "example_site_key"
      and ctx = "Background" and endpoints = "Opaque ''endpoints''"
      and downloadUpdateRequest = "\<lparr>dur_SiteDomain = ''example.com''\<rparr>"
      and enablePeriodicUpdatesRequest = "\<lparr>epur_SiteDomain = ''example.com''\<rparr>"
      and cluster = "Opaque ''trusted''"
      and deleteTrustedClusterRequest = "\<lparr>dtcr_ClusterName = ''example.com''\<rparr>"
      and name = "''main''" and acceptRemoteClusterRequest = "Opaque ''accept''"
      and removeRemoteClusterRequest = "Opaque ''remove''"
      and newLicenseRequest = "Opaque ''license''"
      and updateLicenseRequest = "\<lparr>ulr_SiteDomain = ''example.com''\<rparr>"
      and role = "example_role" and oidc_connector = "Opaque ''connector''"
      and withSecrets = "False" and saml_connector = "Opaque ''connector''"
      and denied = "AccessDenied ''denied''" and sa = "[''ClusterAction'']"
      and err = "AccessDenied ''denied''"
      and sb = "[''ClusterAction'', ''AuthConnectorActions'']" and acl = "deny_all"
      and A = "example_acl_constants" and s = "[]" and inner = "logging_service"
      and cluster_check = "ClusterAction deny_all" and check = "Action deny_all"
      and connector_check = "AuthConnectorActions deny_all"]
  have delegated: "GetLicenseCA deny_all [] = (Inr ''PEM'', [''GetLicenseCA''])"
    using plain_CA [THEN conjunct1] by (simp add: deny_all_def logging_service_def)
  have RegisterAgent_denied: "RegisterAgent example_acl_constants deny_all \<lparr>rar_ClusterName = ''example.com''\<rparr> [] = (Inl (Wrap (AccessDenied ''denied'')), [''ClusterAction''])"
    using plain_CA [THEN conjunct2, THEN conjunct2, THEN conjunct1]
    by (simp add: deny_all_def example_acl_constants_def)
  have RequestClusterCopy_denied: "RequestClusterCopy example_acl_constants deny_all (Opaque ''copy'') [] = (Some (Wrap (AccessDenied ''denied'')), [''Action''])"
    using plain_ACT [THEN conjunct2, THEN conjunct2, THEN conjunct2, THEN conjunct1]
    by (simp add: deny_all_def example_acl_constants_def)
  have GetClusterEndpoints_denied: "GetClusterEndpoints example_acl_constants deny_all example_site_key [] = (Inl (Wrap (AccessDenied ''denied'')), [''ClusterAction''])"
    using plain_CA [THEN conjunct2, THEN conjunct2, THEN conjunct2, THEN conjunct2, THEN conjunct1]
    by (simp add: deny_all_def example_acl_constants_def)
  have UpdateClusterEndpoints_denied: "UpdateClusterEndpoints example_acl_constants deny_all Background example_site_key (Opaque ''endpoints'') [] = (Some (Wrap (AccessDenied ''denied'')), [''ClusterAction''])"
    using plain_CA [THEN conjunct2, THEN conjunct2, THEN conjunct2, THEN conjunct2, THEN conjunct2, THEN conjunct1]
    by (simp add: deny_all_def example_acl_constants_def)
  have CheckForUpdate_denied: "CheckForUpdate example_acl_constants deny_all example_site_key [] = (Inl (Wrap (AccessDenied ''denied'')), [''ClusterAction''])"
    using plain_CA [THEN conjunct2, THEN conjunct2, THEN conjunct2, THEN conjunct2, THEN conjunct2, THEN conjunct2, THEN conjunct1]
    by (simp add: deny_all_def example_acl_constants_def)
  have DownloadUpdate_denied: "DownloadUpdate example_acl_constants deny_all Background \<lparr>dur_SiteDomain = ''example.com''\<rparr> [] = (Some (Wrap (AccessDenied ''denied'')), [''ClusterAction''])"
    using plain_CA [THEN conjunct2, THEN conjunct2, THEN conjunct2, THEN conjunct2, THEN conjunct2, THEN conjunct2, THEN conjunct2, THEN conjunct1]
    by (simp add: deny_all_def example_acl_constants_def)
  have EnablePeriodicUpdates_denied: "EnablePeriodicUpdates example_acl_constants deny_all Background \<lparr>epur_SiteDomain = ''example.com''\<rparr> [] = (Some (Wrap (AccessDenied ''denied'')), [''ClusterAction''])"
    using plain_CA [THEN conjunct2, THEN conjunct2, THEN conjunct2, THEN conjunct2, THEN conjunct2, THEN conjunct2, THEN conjunct2, THEN conjunct2, THEN conjunct1]
    by (simp add: deny_all_def example_acl_constants_def)
  have DisablePeriodicUpdates_denied: "DisablePeriodicUpdates example_acl_constants deny_all Background example_site_key [] = (Some (Wrap (AccessDenied ''denied'')), [''ClusterAction''])"
    using plain_CA [THEN conjunct2, THEN conjunct2, THEN conjunct2, THEN conjunct2, THEN conjunct2, THEN conjunct2, THEN conjunct2, THEN conjunct2, THEN conjunct2, THEN conjunct1]
    by (simp add: deny_all_def example_acl_constants_def)
  have StartPeriodicUpdates_denied: "StartPeriodicUpdates example_acl_constants deny_all example_site_key [] = (Some (Wrap (AccessDenied ''denied'')), [''ClusterAction''])"
    using plain_CA [THEN conjunct2, THEN conjunct2, THEN conjunct2, THEN conjunct2, THEN conjunct2, THEN conjunct2, THEN conjunct2, THEN conjunct2, THEN conjunct2, THEN conjunct2, THEN conjunct1]
    by (simp add: deny_all_def example_acl_constants_def)
  have StopPeriodicUpdates_denied: "StopPeriodicUpdates example_acl_constants deny_all example_site_key [] = (Some (Wrap (AccessDenied ''denied'')), [''ClusterAction''])"
    using plain_CA [THEN conjunct2, THEN conjunct2, THEN conjunct2, THEN conjunct2, THEN conjunct2, THEN conjunct2, THEN conjunct2, THEN conjunct2, THEN conjunct2, THEN conjunct2, THEN conjunct2, THEN conjunct1]
    by (simp add: deny_all_def example_acl_constants_def)
  have PeriodicUpdatesStatus_denied: "PeriodicUpdatesStatus example_acl_constants deny_all example_site_key [] = (Inl (Wrap (AccessDenied ''denied'')), [''ClusterAction''])"
    using plain_CA [THEN conjunct2, THEN conjunct2, THEN conjunct2, THEN conjunct2, THEN conjunct2, THEN conjunct2, THEN conjunct2, THEN conjunct2, THEN conjunct2, THEN conjunct2, THEN conjunct2, THEN conjunct2, THEN conjunct1]
    by (simp add: deny_all_def example_acl_constants_def)
  have UpsertTrustedCluster_denied: "UpsertTrustedCluster example_acl_constants deny_all Background example_site_key (Opaque ''trusted'') [] = (Some (Wrap (AccessDenied ''denied'')), [''ClusterAction''])"
    using plain_CA [THEN conjunct2, THEN conjunct2, THEN conjunct2, THEN conjunct2, THEN conjunct2, THEN conjunct2, THEN conjunct2, THEN conjunct2, THEN conjunct2, THEN conjunct2, THEN conjunct2, THEN conjunct2, THEN conjunct2, THEN conjunct1]
    by (simp add: deny_all_def example_acl_constants_def)
  have DeleteTrustedCluster_denied: "DeleteTrustedCluster example_acl_constants deny_all Background \<lparr>dtcr_ClusterName = ''example.com''\<rparr> [] = (Some (Wrap (AccessDenied ''denied'')), [''ClusterAction''])"
    using plain_CA [THEN conjunct2, THEN conjunct2, THEN conjunct2, THEN conjunct2, THEN conjunct2, THEN conjunct2, THEN conjunct2, THEN conjunct2, THEN conjunct2, THEN conjunct2, THEN conjunct2, THEN conjunct2, THEN conjunct2, THEN conjunct2, THEN conjunct1]
    by (simp add: deny_all_def example_acl_constants_def)
  have GetTrustedClusters_denied: "GetTrustedClusters example_acl_constants deny_all example_site_key [] = (Inl (Wrap (AccessDenied ''denied'')), [''ClusterAction''])"
    using plain_CA [THEN conjunct2, THEN conjunct2, THEN conjunct2, THEN conjunct2, THEN conjunct2, THEN conjunct2, THEN conjunct2, THEN conjunct2, THEN conjunct2, THEN conjunct2, THEN conjunct2, THEN conjunct2, THEN conjunct2, THEN conjunct2, THEN conjunct2, THEN conjunct1]
    by (simp add: deny_all_def example_acl_constants_def)
  have GetTrustedCluster_denied: "GetTrustedCluster example_acl_constants deny_all example_site_key ''main'' [] = (Inl (Wrap (AccessDenied ''denied'')), [''ClusterAction''])"
    using plain_CA [THEN conjunct2, THEN conjunct2, THEN conjunct2, THEN conjunct2, THEN conjunct2, THEN conjunct2, THEN conjunct2, THEN conjunct2, THEN conjunct2, THEN conjunct2, THEN conjunct2, THEN conjunct2, THEN conjunct2, THEN conjunct2, THEN conjunct2, THEN conjunct2, THEN conjunct1]
    by (simp add: deny_all_def example_acl_constants_def)
  have AcceptRemoteCluster_denied: "AcceptRemoteCluster example_acl_constants deny_all (Opaque ''accept'') [] = (Inl (Wrap (AccessDenied ''denied'')), [''Action''])"
    using plain_ACT [THEN conjunct2, THEN conjunct2, THEN conjunct2, THEN conjunct2, THEN conjunct2, THEN conjunct2, THEN conjunct2, THEN conjunct2, THEN conjunct2, THEN conjunct2, THEN conjunct2, THEN conjunct2, THEN conjunct2, THEN conjunct2, THEN conjunct2, THEN conjunct2, THEN conjunct2, THEN conjunct1]
    by (simp add: deny_all_def example_acl_constants_def)
  have RemoveRemoteCluster_denied: "RemoveRemoteCluster example_acl_constants deny_all (Opaque ''remove'') [] = (Some (Wrap (AccessDenied ''denied'')), [''Action''])"
    using plain_ACT [THEN conjunct2, THEN conjunct2, THEN conjunct2, THEN conjunct2, THEN conjunct2, THEN conjunct2, THEN conjunct2, THEN conjunct2, THEN conjunct2, THEN conjunct2, THEN conjunct2, THEN conjunct2, THEN conjunct2, THEN conjunct2, THEN conjunct2, THEN conjunct2, THEN conjunct2, THEN conjunct2, THEN conjunct1]
    by (simp add: deny_all_def example_acl_constants_def)
  have NewLicense_denied: "NewLicense example_acl_constants deny_all Background (Opaque ''license'') [] = (Inl (Wrap (AccessDenied ''denied'')), [''Action''])"
    using plain_ACT [THEN conjunct2, THEN conjunct2, THEN conjunct2, THEN conjunct2, THEN conjunct2, THEN conjunct2, THEN conjunct2, THEN conjunct2, THEN conjunct2, THEN conjunct2, THEN conjunct2, THEN conjunct2, THEN conjunct2, THEN conjunct2, THEN conjunct2, THEN conjunct2, THEN conjunct2, THEN conjunct2, THEN conjunct2, THEN conjunct1]
    by (simp add: deny_all_def example_acl_constants_def)
  have CheckSiteLicense_denied: "CheckSiteLicense example_acl_constants deny_all Background example_site_key [] = (Some (Wrap (AccessDenied ''denied'')), [''ClusterAction''])"
    using plain_CA [THEN conjunct2, THEN conjunct2, THEN conjunct2, THEN conjunct2, THEN conjunct2, THEN conjunct2, THEN conjunct2, THEN conjunct2, THEN conjunct2, THEN conjunct2, THEN conjunct2, THEN conjunct2, THEN conjunct2, THEN conjunct2, THEN conjunct2, THEN conjunct2, THEN conjunct2, THEN conjunct2, THEN conjunct2, THEN conjunct2, THEN conjunct1]
    by (simp add: deny_all_def example_acl_constants_def)
  have UpdateLicense_denied: "UpdateLicense example_acl_constants deny_all Background \<lparr>ulr_SiteDomain = ''example.com''\<rparr> [] = (Some (Wrap (AccessDenied ''denied'')), [''ClusterAction''])"
    using plain_CA [THEN conjunct2, THEN conjunct2, THEN conjunct2, THEN conjunct2, THEN conjunct2, THEN conjunct2, THEN conjunct2, THEN conjunct2, THEN conjunct2, THEN conjunct2, THEN conjunct2, THEN conjunct2, THEN conjunct2, THEN conjunct2, THEN conjunct2, THEN conjunct2, THEN conjunct2, THEN conjunct2, THEN conjunct2, THEN conjunct2, THEN conjunct2, THEN conjunct1]
    by (simp add: deny_all_def example_acl_constants_def)
  have UpsertRole_denied: "UpsertRole example_acl_constants deny_all Background example_site_key example_role [] = (Some (Wrap (Wrap (AccessDenied ''denied''))), [''ClusterAction'', ''Action''])"
    using role [THEN conjunct2, THEN conjunct2, THEN conjunct2, THEN conjunct2, THEN conjunct2, THEN conjunct2, THEN conjunct2, THEN conjunct2, THEN conjunct2, THEN conjunct2, THEN conjunct2, THEN conjunct2, THEN conjunct2, THEN conjunct2, THEN conjunct2, THEN conjunct2, THEN conjunct2, THEN conjunct2, THEN conjunct2, THEN conjunct2, THEN conjunct2, THEN conjunct2, THEN conjunct1]
    by (simp add: deny_all_def example_acl_constants_def)
  have GetRole_denied: "GetRole example_acl_constants deny_all example_site_key ''main'' [] = (Inl (Wrap (Wrap (AccessDenied ''denied''))), [''ClusterAction'', ''Action''])"
    using role [THEN conjunct2, THEN conjunct2, THEN conjunct2, THEN conjunct2, THEN conjunct2, THEN conjunct2, THEN conjunct2, THEN conjunct2, THEN conjunct2, THEN conjunct2, THEN conjunct2, THEN conjunct2, THEN conjunct2, THEN conjunct2, THEN conjunct2, THEN conjunct2, THEN conjunct2, THEN conjunct2, THEN conjunct2, THEN conjunct2, THEN conjunct2, THEN conjunct2, THEN conjunct2, THEN conjunct1]
    by (simp add: deny_all_def example_acl_constants_def)
  have GetRoles_denied: "GetRoles example_acl_constants deny_all example_site_key [] = (Inl (Wrap (Wrap (AccessDenied ''denied''))), [''ClusterAction'', ''Action''])"
    using role [THEN conjunct2, THEN conjunct2, THEN conjunct2, THEN conjunct2, THEN conjunct2, THEN conjunct2, THEN conjunct2, THEN conjunct2, THEN conjunct2, THEN conjunct2, THEN conjunct2, THEN conjunct2, THEN conjunct2, THEN conjunct2, THEN conjunct2, THEN conjunct2, THEN conjunct2, THEN conjunct2, THEN conjunct2, THEN conjunct2, THEN conjunct2, THEN conjunct2, THEN conjunct2, THEN conjunct2, THEN conjunct1]
    by (simp add: deny_all_def example_acl_constants_def)
  have DeleteRole_denied: "DeleteRole example_acl_constants deny_all Background example_site_key ''main'' [] = (Some (Wrap (Wrap (AccessDenied ''denied''))), [''ClusterAction'', ''Action''])"
    using role [THEN conjunct2, THEN conjunct2, THEN conjunct2, THEN conjunct2, THEN conjunct2, THEN conjunct2, THEN conjunct2, THEN conjunct2, THEN conjunct2, THEN conjunct2, THEN conjunct2, THEN conjunct2, THEN conjunct2, THEN conjunct2, THEN conjunct2, THEN conjunct2, THEN conjunct2, THEN conjunct2, THEN conjunct2, THEN conjunct2, THEN conjunct2, THEN conjunct2, THEN conjunct2, THEN conjunct2, THEN conjunct2, THEN conjunct1]
    by (simp add: deny_all_def example_acl_constants_def)
  have UpsertOIDCConnector_denied: "UpsertOIDCConnector example_acl_constants deny_all Background example_site_key (Opaque ''connector'') [] = (Some (Wrap (AccessDenied ''denied'')), [''ClusterAction'', ''AuthConnectorActions''])"
    using auth [THEN conjunct2, THEN conjunct2, THEN conjunct2, THEN conjunct2, THEN conjunct2, THEN conjunct2, THEN conjunct2, THEN conjunct2, THEN conjunct2, THEN conjunct2, THEN conjunct2, THEN conjunct2, THEN conjunct2, THEN conjunct2, THEN conjunct2, THEN conjunct2, THEN conjunct2, THEN conjunct2, THEN conjunct2, THEN conjunct2, THEN conjunct2, THEN conjunct2, THEN conjunct2, THEN conjunct2, THEN conjunct2, THEN conjunct2, THEN conjunct1]
    by (simp add: deny_all_def example_acl_constants_def)
  have GetOIDCConnector_denied: "GetOIDCConnector example_acl_constants deny_all example_site_key ''main'' False [] = (Inl (Wrap (AccessDenied ''denied'')), [''ClusterAction'', ''AuthConnectorActions''])"
    using auth [THEN conjunct2, THEN conjunct2, THEN conjunct2, THEN conjunct2, THEN conjunct2, THEN conjunct2, THEN conjunct2, THEN conjunct2, THEN conjunct2, THEN conjunct2, THEN conjunct2, THEN conjunct2, THEN conjunct2, THEN conjunct2, THEN conjunct2, THEN conjunct2, THEN conjunct2, THEN conjunct2, THEN conjunct2, THEN conjunct2, THEN conjunct2, THEN conjunct2, THEN conjunct2, THEN conjunct2, THEN conjunct2, THEN conjunct2, THEN conjunct2, THEN conjunct1]
    by (simp add: deny_all_def example_acl_constants_def)
  have GetOIDCConnectors_denied: "GetOIDCConnectors example_acl_constants deny_all example_site_key False [] = (Inl (Wrap (AccessDenied ''denied'')), [''ClusterAction'', ''AuthConnectorActions''])"
    using auth [THEN conjunct2, THEN conjunct2, THEN conjunct2, THEN conjunct2, THEN conjunct2, THEN conjunct2, THEN conjunct2, THEN conjunct2, THEN conjunct2, THEN conjunct2, THEN conjunct2, THEN conjunct2, THEN conjunct2, THEN conjunct2, THEN conjunct2, THEN conjunct2, THEN conjunct2, THEN conjunct2, THEN conjunct2, THEN conjunct2, THEN conjunct2, THEN conjunct2, THEN conjunct2, THEN conjunct2, THEN conjunct2, THEN conjunct2, THEN conjunct2, THEN conjunct2, THEN conjunct1]
    by (simp add: deny_all_def example_acl_constants_def)
  have DeleteOIDCConnector_denied: "DeleteOIDCConnector example_acl_constants deny_all Background example_site_key ''main'' [] = (Some (Wrap (AccessDenied ''denied'')), [''ClusterAction'', ''AuthConnectorActions''])"
    using auth [THEN conjunct2, THEN conjunct2, THEN conjunct2, THEN conjunct2, THEN conjunct2, THEN conjunct2, THEN conjunct2, THEN conjunct2, THEN conjunct2, THEN conjunct2, THEN conjunct2, THEN conjunct2, THEN conjunct2, THEN conjunct2, THEN conjunct2, THEN conjunct2, THEN conjunct2, THEN conjunct2, THEN conjunct2, THEN conjunct2, THEN conjunct2, THEN conjunct2, THEN conjunct2, THEN conjunct2, THEN conjunct2, THEN conjunct2, THEN conjunct2, THEN conjunct2, THEN conjunct2, THEN conjunct1]
    by (simp add: deny_all_def example_acl_constants_def)
  have UpsertSAMLConnector_denied: "UpsertSAMLConnector example_acl_constants deny_all Background example_site_key (Opaque ''connector'') [] = (Some (Wrap (AccessDenied ''denied'')), [''ClusterAction'', ''AuthConnectorActions''])"
    using auth [THEN conjunct2, THEN conjunct2, THEN conjunct2, THEN conjunct2, THEN conjunct2, THEN conjunct2, THEN conjunct2, THEN conjunct2, THEN conjunct2, THEN conjunct2, THEN conjunct2, THEN conjunct2, THEN conjunct2, THEN conjunct2, THEN conjunct2, THEN conjunct2, THEN conjunct2, THEN conjunct2, THEN conjunct2, THEN conjunct2, THEN conjunct2, THEN conjunct2, THEN conjunct2, THEN conjunct2, THEN conjunct2, THEN conjunct2, THEN conjunct2, THEN conjunct2, THEN conjunct2, THEN conjunct2, THEN conjunct1]
    by (simp add: deny_all_def example_acl_constants_def)
  have GetSAMLConnector_denied: "GetSAMLConnector example_acl_constants deny_all example_site_key ''main'' False [] = (Inl (Wrap (AccessDenied ''denied'')), [''ClusterAction'', ''AuthConnectorActions''])"
    using auth [THEN conjunct2, THEN conjunct2, THEN conjunct2, THEN conjunct2, THEN conjunct2, THEN conjunct2, THEN conjunct2, THEN conjunct2, THEN conjunct2, THEN conjunct2, THEN conjunct2, THEN conjunct2, THEN conjunct2, THEN conjunct2, THEN conjunct2, THEN conjunct2, THEN conjunct2, THEN conjunct2, THEN conjunct2, THEN conjunct2, THEN conjunct2, THEN conjunct2, THEN conjunct2, THEN conjunct2, THEN conjunct2, THEN conjunct2, THEN conjunct2, THEN conjunct2, THEN conjunct2, THEN conjunct2, THEN conjunct2, THEN conjunct1]
    by (simp add: deny_all_def example_acl_constants_def)
  have GetSAMLConnectors_denied: "GetSAMLConnectors example_acl_constants deny_all example_site_key False [] = (Inl (Wrap (AccessDenied ''denied'')), [''ClusterAction'', ''AuthConnectorActions''])"
    using auth [THEN conjunct2, THEN conjunct2, THEN conjunct2, THEN conjunct2, THEN conjunct2, THEN conjunct2, THEN conjunct2, THEN conjunct2, THEN conjunct2, THEN conjunct2, THEN conjunct2, THEN conjunct2, THEN conjunct2, THEN conjunct2, THEN conjunct2, THEN conjunct2, THEN conjunct2, THEN conjunct2, THEN conjunct2, THEN conjunct2, THEN conjunct2, THEN conjunct2, THEN conjunct2, THEN conjunct2, THEN conjunct2, THEN conjunct2, THEN conjunct2, THEN conjunct2, THEN conjunct2, THEN conjunct2, THEN conjunct2, THEN conjunct2, THEN conjunct1]
    by (simp add: deny_all_def example_acl_constants_def)
  have DeleteSAMLConnector_denied: "DeleteSAMLConnector example_acl_constants deny_all Background example_site_key ''main'' [] = (Some (Wrap (AccessDenied ''denied'')), [''ClusterAction'', ''AuthConnectorActions''])"
    using auth [THEN conjunct2, THEN conjunct2, THEN conjunct2, THEN conjunct2, THEN conjunct2, THEN conjunct2, THEN conjunct2, THEN conjunct2, THEN conjunct2, THEN conjunct2, THEN conjunct2, THEN conjunct2, THEN conjunct2, THEN conjunct2, THEN conjunct2, THEN conjunct2, THEN conjunct2, THEN conjunct2, THEN conjunct2, THEN conjunct2, THEN conjunct2, THEN conjunct2, THEN conjunct2, THEN conjunct2, THEN conjunct2, THEN conjunct2, THEN conjunct2, THEN conjunct2, THEN conjunct2, THEN conjunct2, THEN conjunct2, THEN conjunct2, THEN conjunct2]
    by (simp add: deny_all_def example_acl_constants_def)
  show ?thesis
    by (intro conjI)
      (rule
        delegated RegisterAgent_denied RequestClusterCopy_denied GetClusterEndpoints_denied
        UpdateClusterEndpoints_denied CheckForUpdate_denied DownloadUpdate_denied
        EnablePeriodicUpdates_denied DisablePeriodicUpdates_denied
        StartPeriodicUpdates_denied StopPeriodicUpdates_denied PeriodicUpdatesStatus_denied
        UpsertTrustedCluster_denied DeleteTrustedCluster_denied GetTrustedClusters_denied
        GetTrustedCluster_denied AcceptRemoteCluster_denied RemoveRemoteCluster_denied
        NewLicense_denied CheckSiteLicense_denied UpdateLicense_denied UpsertRole_denied
        GetRole_denied GetRoles_denied DeleteRole_denied UpsertOIDCConnector_denied
        GetOIDCConnector_denied GetOIDCConnectors_denied DeleteOIDCConnector_denied
        UpsertSAMLConnector_denied GetSAMLConnector_denied GetSAMLConnectors_denied
        DeleteSAMLConnector_denied)+
qed

end
